theory Spec2Isabelle
  imports Main
begin

section \<open>CloudPredictor: data model\<close>

text \<open>
  A shallow embedding of \<^verbatim>\<open>cloud/src/autogluon/cloud/predictor/cloud_predictor.py\<close>.
  The class \<^verbatim>\<open>CloudPredictor\<close> is a record, every method is a function that takes
  the instance and the outside world and returns the outcome (an exception or the
  returned value) with the instance and the world as the call left them: in Python the
  assignments made before a \<^verbatim>\<open>raise\<close> stay, so the state is returned on both branches.
  Private names lose their leading underscore (\<^verbatim>\<open>_fit_job\<close> is \<open>fit_job\<close>).
\<close>

text \<open>Python exceptions, with the message of the \<^verbatim>\<open>raise\<close> or \<^verbatim>\<open>assert\<close>;
  \<open>OSError\<close> carries the name of the subclass the file system raised
  (\<^verbatim>\<open>FileExistsError\<close>, \<^verbatim>\<open>NotADirectoryError\<close>). An exception
  that a collaborator raises (the SageMaker SDK, boto3, the file system, a helper whose
  source is not part of this file) is \<open>External\<close>.\<close>

datatype error =
    AssertionError string
  | ValueError string
  | KeyError string
  | AttributeError string
  | TypeError string
  | OSError string
  | NotImplementedError
  | External string

datatype job_status = NotCreated | InProgress | Completed | Failed | Stopping | Stopped

text \<open>\<^verbatim>\<open>sagemaker.session.Session\<close>: an object with an identity and a region.\<close>

record session =
  session_id :: nat
  boto_region_name :: string

text \<open>A \<^verbatim>\<open>pandas.DataFrame\<close>: its content and what
  \<^verbatim>\<open>memory_usage(index=False, deep=True).sum()\<close> returns for it.\<close>

record frame =
  frame_content :: string
  memory_usage_sum :: nat

text \<open>\<^verbatim>\<open>Union(str, pandas.DataFrame)\<close>, the documented type of a dataset argument; \<open>Other\<close>
  is any other object handed in as test data, with the memory usage it reports if it has
  a \<^verbatim>\<open>memory_usage\<close> method at all.\<close>

datatype data = DataFrame frame | Str string

datatype test_data = Data data | Other "nat option"

text \<open>Modelled from the spec: the job handle (\<^verbatim>\<open>SageMakerFitJob\<close>,
  \<^verbatim>\<open>SageMakerBatchTransformationJob\<close> of \<^verbatim>\<open>..job\<close>, not part of the sources). Section 3:
  a name, a status, an optional output location and a reference to the session that owns it.\<close>

record job_handle =
  jh_name :: "string option"
  status :: job_status
  output_location :: "string option"
  job_session :: "session option"

text \<open>\<^verbatim>\<open>AutoGluonRealtimePredictor\<close>: the endpoint handle.\<close>

record realtime_predictor =
  rp_endpoint_name :: string
  rp_session :: "session option"

text \<open>An attribute that \<^verbatim>\<open>hasattr\<close> can find missing.\<close>

datatype 'a attr = Absent | Present 'a

datatype predictor_cls = CloudPredictor | TabularCloudPredictor | TextCloudPredictor

type_synonym kwargs = "(string \<times> string) list"

record cloud_predictor =
  cls :: predictor_cls
  verbosity :: int
  role_arn :: string
  sagemaker_session :: "session option"
  local_output_path :: string
  cloud_output_path :: string
  endpoint :: "realtime_predictor option"
  region :: "string option"
  fit_job :: job_handle
  batch_transform_jobs :: "(string \<times> job_handle) list"
  predictor_type :: "string option"
  train_script_path :: "string option"
  serve_script_path :: "string option"
  endpoint_saved :: "string option attr"

subsection \<open>Requests to the collaborators\<close>

text \<open>The \<^verbatim>\<open>bucket\<close> argument of \<^verbatim>\<open>upload_data\<close>: \<^verbatim>\<open>_upload_fit_artifact\<close> and
  \<^verbatim>\<open>predict\<close> pass the bucket name, \<^verbatim>\<open>_upload_predictor\<close> passes the whole pair that
  \<^verbatim>\<open>s3_path_to_bucket_prefix\<close> returned.\<close>

datatype bucket_arg = Bucket string | BucketAndPrefix string string

record config =
  cfg_predictor_type :: string
  cfg_predictor_init_args :: kwargs
  cfg_predictor_fit_args :: kwargs
  cfg_leaderboard :: bool

record fit_request =
  fr_role :: string
  fr_entry_point :: string
  fr_region :: "string option"
  fr_instance_type :: string
  fr_instance_count :: int
  fr_volume_size :: int
  fr_framework_version :: string
  fr_base_job_name :: string
  fr_output_path :: string
  fr_inputs :: "(string \<times> string) list"
  fr_wait :: bool
  fr_job_name :: string
  fr_estimator_kwargs :: kwargs
  fr_kwargs :: kwargs

record deploy_request =
  dr_model_data :: string
  dr_role :: string
  dr_region :: "string option"
  dr_framework_version :: string
  dr_instance_type :: string
  dr_entry_point :: string
  dr_predictor_cls :: string
  dr_model_kwargs :: kwargs
  dr_endpoint_name :: string
  dr_initial_instance_count :: int
  dr_wait :: bool
  dr_kwargs :: kwargs

record transform_request =
  tr_model_data :: string
  tr_role :: string
  tr_region :: "string option"
  tr_framework_version :: string
  tr_instance_count :: int
  tr_instance_type :: string
  tr_entry_point :: string
  tr_predictor_cls :: string
  tr_output_path :: string
  tr_test_input :: string
  tr_job_name :: string
  tr_split_type :: string
  tr_content_type :: string
  tr_wait :: bool
  tr_transformer_kwargs :: kwargs
  tr_model_kwargs :: kwargs
  tr_kwargs :: kwargs

text \<open>What a call does to the outside, in the order it does it. \<open>Log\<close> is a call of
  the module's logger with its level (\<^verbatim>\<open>logger.warning\<close> is level 30) and the message
  as the source writes it, the interpolated parts left as written.\<close>

datatype event =
    Log nat string
  | CreateBucket string string
  | WriteConfig string config
  | Convert string data string string
  | Upload string bucket_arg string
  | SubmitTraining fit_request
  | SubmitTransform transform_request
  | DeployModel deploy_request
  | EndpointPredict string frame string
  | AttachJob string
  | DeleteModel string
  | DeleteEndpoint string bool
  | DownloadS3 string string string
  | Unzip string string
  | MakeDirs string
  | SavePkl string

text \<open>The outside world a call can change: the trace of events, the local file system,
  the buckets, the pickled snapshots by path, and the counters behind fresh sessions and
  timestamps.\<close>

record world =
  events :: "event list"
  files :: "string list"
  dirs :: "string list"
  buckets :: "string list"
  pickles :: "(string \<times> cloud_predictor) list"
  next_session_id :: nat
  clock :: nat

text \<open>The collaborators whose source is not in this file, as parameters: constants of
  \<^verbatim>\<open>..utils\<close>, pure helpers, and the answer the SDK, the network or the file system
  gives to a request (\<open>Inl\<close> the message of the exception it raises).\<close>

record env =
  TRAIN_SCRIPT_PATH :: string
  TABULAR_SERVE_SCRIPT_PATH :: string
  TEXT_SERVE_SCRIPT_PATH :: string
  is_s3_url :: "string \<Rightarrow> bool"
  s3_path_to_bucket_prefix :: "string option \<Rightarrow> string + string \<times> string"
  setup_outputdir :: "string \<Rightarrow> string"
  os_path_abspath :: "string \<Rightarrow> string"
  os_path_expanduser :: "string \<Rightarrow> string"
  utcnow_strftime :: "nat \<Rightarrow> string"
  sagemaker_timestamp :: "nat \<Rightarrow> string"
  unique_name_from_base :: "string \<Rightarrow> nat \<Rightarrow> string"
  session_region :: "nat \<Rightarrow> string"
  create_sagemaker_role_and_attach_policies :: "string \<Rightarrow> string + string"
  retrieve_latest_framework_version :: "string \<Rightarrow> string"
  retrieve_available_framework_versions :: "string \<Rightarrow> string list"
  create_bucket :: "string \<Rightarrow> string \<Rightarrow> string option"
  open_for_writing :: "string \<Rightarrow> string option"
  convert :: "string \<Rightarrow> data \<Rightarrow> string \<Rightarrow> string \<Rightarrow> string + string"
  upload_data :: "string \<Rightarrow> bucket_arg \<Rightarrow> string \<Rightarrow> string + string"
  training_job :: "fit_request \<Rightarrow> string + job_status \<times> string option"
  describe_training_job :: "string \<Rightarrow> string + job_status \<times> string option"
  transform_job :: "transform_request \<Rightarrow> string + job_status \<times> string option"
  model_deploy :: "deploy_request \<Rightarrow> string + realtime_predictor"
  endpoint_predict :: "realtime_predictor \<Rightarrow> frame \<Rightarrow> string \<Rightarrow> string + frame"
  rp_delete_model :: "realtime_predictor \<Rightarrow> string option"
  rp_delete_endpoint :: "realtime_predictor \<Rightarrow> bool \<Rightarrow> string option"
  load_pd :: "string \<Rightarrow> string + frame"
  is_tarfile :: "string \<Rightarrow> bool"
  download_s3_file :: "string \<Rightarrow> string \<Rightarrow> string \<Rightarrow> string option"
  unzip_file :: "string \<Rightarrow> string \<Rightarrow> string option"
  rename_file_with_uuid :: "string \<Rightarrow> string"
  save_pkl :: "string \<Rightarrow> string option"
  makedirs_error :: "string \<Rightarrow> string option"

section \<open>Helpers\<close>

text \<open>Python truthiness of an optional string: \<^verbatim>\<open>None\<close> and \<^verbatim>\<open>''\<close> are false.\<close>

definition truthy :: "string option \<Rightarrow> bool" where
  "truthy x = (case x of None \<Rightarrow> False | Some s \<Rightarrow> s \<noteq> [])"

definition emit :: "event \<Rightarrow> world \<Rightarrow> world" where
  "emit ev w = w\<lparr>events := events w @ [ev]\<rparr>"

definition log :: "nat \<Rightarrow> string \<Rightarrow> world \<Rightarrow> world" where
  "log lvl msg w = emit (Log lvl msg) w"

text \<open>\<^verbatim>\<open>os.path.join\<close> of two components (POSIX): an absolute second component replaces
  the first, otherwise one separator stands between them.\<close>

definition os_path_join :: "string \<Rightarrow> string \<Rightarrow> string" where
  "os_path_join a b =
     (if b \<noteq> [] \<and> hd b = CHR ''/'' then b
      else if a = [] \<or> last a = CHR ''/'' then a @ b
      else a @ ''/'' @ b)"

text \<open>\<^verbatim>\<open>s.split('/')[-1]\<close>: what follows the last slash.\<close>

definition split_last :: "string \<Rightarrow> string" where
  "split_last s = rev (takeWhile (\<lambda>c. c \<noteq> CHR ''/'') (rev s))"

text \<open>The directories above a path: \<^verbatim>\<open>/out\<close> and \<^verbatim>\<open>/out/batch_transform\<close> for
  \<^verbatim>\<open>/out/batch_transform/job-1\<close>.\<close>

definition ancestors :: "string \<Rightarrow> string list" where
  "ancestors path =
     map (\<lambda>i. take i path)
       (filter (\<lambda>i. path ! i = CHR ''/'' \<and> path ! (i - 1) \<noteq> CHR ''/'') [1..<length path])"

text \<open>\<^verbatim>\<open>os.makedirs(path)\<close>: \<^verbatim>\<open>FileExistsError\<close> when the path exists,
  \<^verbatim>\<open>NotADirectoryError\<close> when a regular file stands where one of the directories above
  it should be, any other error the operating system answers with
  (\<open>makedirs_error\<close>); otherwise the directory and the missing ones above it are
  there afterwards.\<close>

definition os_makedirs :: "env \<Rightarrow> string \<Rightarrow> world \<Rightarrow> (error + unit) \<times> world" where
  "os_makedirs E path w =
     (if path \<in> set (dirs w) \<or> path \<in> set (files w) then (Inl (OSError ''FileExistsError''), w)
      else if list_ex (\<lambda>q. q \<in> set (files w)) (ancestors path)
      then (Inl (OSError ''NotADirectoryError''), w)
      else case makedirs_error E path of
             Some e \<Rightarrow> (Inl (External e), w)
           | None \<Rightarrow>
               (Inr (), emit (MakeDirs path)
                          (w\<lparr>dirs := dirs w @ filter (\<lambda>q. q \<notin> set (dirs w)) (ancestors path)
                                         @ [path]\<rparr>)))"

text \<open>\<^verbatim>\<open>str\<close> of a list of strings, as an f-string prints it.\<close>

definition py_str_list :: "string list \<Rightarrow> string" where
  "py_str_list xs =
     ''['' @ concat (map (\<lambda>(i, x). (if i = 0 then [] else '', '') @ [CHR 0x27] @ x @ [CHR 0x27])
                         (zip [0..<length xs] xs)) @ '']''"

text \<open>\<^verbatim>\<open>d.pop(k, None)\<close> on a dict of keyword arguments: the value and the dict without
  the key.\<close>

definition dict_pop :: "string \<Rightarrow> kwargs \<Rightarrow> string option \<times> kwargs" where
  "dict_pop k d = (map_of d k, filter (\<lambda>kv. fst kv \<noteq> k) d)"

text \<open>A call \<^verbatim>\<open>f(name=..., **kwargs)\<close> raises \<^verbatim>\<open>TypeError\<close> (multiple values for a
  keyword argument) when \<^verbatim>\<open>kwargs\<close> holds one of the names the call passes itself.\<close>

definition duplicate_keyword :: "string list \<Rightarrow> kwargs \<Rightarrow> bool" where
  "duplicate_keyword names kw = list_ex (\<lambda>k. map_of kw k \<noteq> None) names"

text \<open>\<^verbatim>\<open>sagemaker.session.Session()\<close>: a fresh session object.\<close>

definition new_session :: "env \<Rightarrow> world \<Rightarrow> session \<times> world" where
  "new_session E w =
     (\<lparr>session_id = next_session_id w, boto_region_name = session_region E (next_session_id w)\<rparr>,
      w\<lparr>next_session_id := Suc (next_session_id w)\<rparr>)"

text \<open>\<^verbatim>\<open>sagemaker.utils.unique_name_from_base\<close> and \<^verbatim>\<open>sagemaker_timestamp\<close> read the
  clock.\<close>

definition unique_name :: "env \<Rightarrow> string \<Rightarrow> world \<Rightarrow> string \<times> world" where
  "unique_name E base w = (unique_name_from_base E base (clock w), w\<lparr>clock := Suc (clock w)\<rparr>)"

definition timestamp :: "env \<Rightarrow> world \<Rightarrow> string \<times> world" where
  "timestamp E w = (sagemaker_timestamp E (clock w), w\<lparr>clock := Suc (clock w)\<rparr>)"

text \<open>\<^verbatim>\<open>if not name: name = sagemaker.utils.unique_name_from_base(base)\<close>, the default
  of the job name in \<^verbatim>\<open>fit\<close> and \<^verbatim>\<open>predict\<close> and of the endpoint name in \<^verbatim>\<open>deploy\<close>.\<close>

definition default_name :: "env \<Rightarrow> string \<Rightarrow> string option \<Rightarrow> world \<Rightarrow> string \<times> world" where
  "default_name E base name w =
     (case name of
        None \<Rightarrow> unique_name E base w
      | Some n \<Rightarrow> if n = [] then unique_name E base w else (n, w))"

text \<open>Sequencing of calls that only change the world: the first exception ends the
  sequence.\<close>

definition bind ::
  "(error + 'a) \<times> world \<Rightarrow> ('a \<Rightarrow> world \<Rightarrow> (error + 'b) \<times> world) \<Rightarrow> (error + 'b) \<times> world" where
  "bind m f = (case m of (Inl e, w) \<Rightarrow> (Inl e, w) | (Inr x, w) \<Rightarrow> f x w)"

subsection \<open>Job handles and the job registry\<close>

text \<open>Modelled from the spec: the methods of a job handle (section 4.3 and 4.4). A new
  handle is \<open>NotCreated\<close>; \<^verbatim>\<open>completed\<close> holds in the terminal state \<open>Completed\<close>;
  \<^verbatim>\<open>get_output_path\<close> is valid only once completed and returns nothing otherwise.\<close>

definition new_job :: "session option \<Rightarrow> job_handle" where
  "new_job s = \<lparr>jh_name = None, status = NotCreated, output_location = None, job_session = s\<rparr>"

definition completed :: "job_handle \<Rightarrow> bool" where
  "completed j = (status j = Completed)"

definition status_string :: "job_status \<Rightarrow> string" where
  "status_string st =
     (case st of
        NotCreated \<Rightarrow> ''NotCreated'' | InProgress \<Rightarrow> ''InProgress'' | Completed \<Rightarrow> ''Completed''
      | Failed \<Rightarrow> ''Failed'' | Stopping \<Rightarrow> ''Stopping'' | Stopped \<Rightarrow> ''Stopped'')"

definition get_job_status :: "job_handle \<Rightarrow> string" where
  "get_job_status j = status_string (status j)"

definition get_output_path :: "job_handle \<Rightarrow> string option" where
  "get_output_path j = (if completed j then output_location j else None)"

text \<open>Modelled from the spec: \<^verbatim>\<open>run\<close> submits the job to the external service and the
  handle becomes \<open>InProgress\<close>; with the blocking flag it polls until the state the
  service ends in and returns then. The first argument is the answer of the service:
  the exception of a refused submission, or the state the job ends in with its output
  location.\<close>

definition job_run ::
  "string + job_status \<times> string option \<Rightarrow> string \<Rightarrow> bool \<Rightarrow> job_handle \<Rightarrow> error + job_handle" where
  "job_run answer name blocking j =
     (case answer of
        Inl e \<Rightarrow> Inl (External e)
      | Inr (st, out) \<Rightarrow>
          Inr (if blocking
               then j\<lparr>jh_name := Some name, status := st, output_location := out\<rparr>
               else j\<lparr>jh_name := Some name, status := InProgress, output_location := None\<rparr>))"

text \<open>Modelled from the spec: \<^verbatim>\<open>MostRecentInsertedOrderedDict\<close> of \<^verbatim>\<open>..utils.misc\<close>
  (section 4.2), an insertion-ordered mapping from job name to job handle: \<open>put\<close>,
  \<open>get\<close> (the handle or \<^verbatim>\<open>None\<close>) and \<open>last\<close> (the name inserted most recently, or
  \<^verbatim>\<open>None\<close>). The list holds the entries oldest first.\<close>

type_synonym registry = "(string \<times> job_handle) list"

definition registry_put :: "string \<Rightarrow> job_handle \<Rightarrow> registry \<Rightarrow> registry" where
  "registry_put k j r = filter (\<lambda>kv. fst kv \<noteq> k) r @ [(k, j)]"

definition registry_get :: "registry \<Rightarrow> string option \<Rightarrow> job_handle option" where
  "registry_get r k = (case k of None \<Rightarrow> None | Some n \<Rightarrow> map_of r n)"

definition registry_last :: "registry \<Rightarrow> string option" where
  "registry_last r = (case rev r of [] \<Rightarrow> None | kv # _ \<Rightarrow> Some (fst kv))"

text \<open>The keys of a Python dict are distinct. A registry built by \<open>registry_put\<close>
  from the empty one is of this kind (\<open>registry_ok_put\<close> below); the statements about
  the most recent job are about such registries.\<close>

definition registry_ok :: "registry \<Rightarrow> bool" where
  "registry_ok r = distinct (map fst r)"

section \<open>CloudPredictor: construction and properties\<close>

definition predictor_file_name :: "predictor_cls \<Rightarrow> string" where
  "predictor_file_name c =
     (case c of
        CloudPredictor \<Rightarrow> ''CloudPredictor.pkl''
      | TabularCloudPredictor \<Rightarrow> ''TabularCloudPredictor.pkl''
      | TextCloudPredictor \<Rightarrow> ''TextCloudPredictor.pkl'')"

definition is_fit :: "cloud_predictor \<Rightarrow> bool" where
  "is_fit p = completed (fit_job p)"

definition endpoint_name :: "cloud_predictor \<Rightarrow> string option" where
  "endpoint_name p = (case endpoint p of Some e \<Rightarrow> Some (rp_endpoint_name e) | None \<Rightarrow> None)"

definition setup_predictor_type :: "env \<Rightarrow> cloud_predictor \<Rightarrow> cloud_predictor" where
  "setup_predictor_type E p =
     (case cls p of
        CloudPredictor \<Rightarrow>
          p\<lparr>predictor_type := None, train_script_path := None, serve_script_path := None\<rparr>
      | TabularCloudPredictor \<Rightarrow>
          p\<lparr>predictor_type := Some ''tabular'', train_script_path := Some (TRAIN_SCRIPT_PATH E),
            serve_script_path := Some (TABULAR_SERVE_SCRIPT_PATH E)\<rparr>
      | TextCloudPredictor \<Rightarrow>
          p\<lparr>predictor_type := Some ''text'', train_script_path := Some (TRAIN_SCRIPT_PATH E),
            serve_script_path := Some (TEXT_SERVE_SCRIPT_PATH E)\<rparr>)"

definition setup_local_output_path ::
  "env \<Rightarrow> string option \<Rightarrow> world \<Rightarrow> (error + string) \<times> world" where
  "setup_local_output_path E path w =
     (let (path1, w1) =
            (case path of
               None \<Rightarrow> (''AutogluonCloudPredictor/ag-'' @ utcnow_strftime E (clock w) @ ''/'',
                         w\<lparr>clock := Suc (clock w)\<rparr>)
             | Some q \<Rightarrow> (q, w));
          path2 = setup_outputdir E path1;
          util_path = os_path_join path2 ''utils''
      in case os_makedirs E util_path w1 of
           (Inr u, w2) \<Rightarrow> (Inr (os_path_abspath E path2), w2)
         | (Inl e, w2) \<Rightarrow>
             if e = OSError ''FileExistsError''
             then (Inr (os_path_abspath E path2),
                   log 30 (''Warning: path already exists! This predictor may overwrite an existing predictor! path=''
                           @ [CHR 0x22] @ path2 @ [CHR 0x22]) w2)
             else (Inl e, w2))"

definition setup_cloud_output_path :: "env \<Rightarrow> string option \<Rightarrow> world \<Rightarrow> string \<times> world" where
  "setup_cloud_output_path E path w =
     (case path of
        None \<Rightarrow> (let (t, w1) = timestamp E w in (''s3://ag-cloud-predictor/'' @ t, w1))
      | Some q \<Rightarrow>
          (let q1 = (if q \<noteq> [] \<and> last q = CHR ''/'' then butlast q else q)
           in if is_s3_url E q1 then (q1, w) else (''s3://'' @ q1, w)))"

text \<open>\<^verbatim>\<open>__init__\<close> of the class \<open>c\<close>.\<close>

definition init ::
  "env \<Rightarrow> predictor_cls \<Rightarrow> string option \<Rightarrow> string option \<Rightarrow> string option \<Rightarrow> int \<Rightarrow> world
     \<Rightarrow> (error + cloud_predictor) \<times> world" where
  "init E c role local_path cloud_path verb w =
     (case (if truthy role then (case role of Some r \<Rightarrow> Inr r | None \<Rightarrow> Inr [])
            else create_sagemaker_role_and_attach_policies E ''ag_cloud_predictor_role'') of
        Inl e \<Rightarrow> (Inl (External e), w)
      | Inr r \<Rightarrow>
          (let (s, w1) = new_session E w in
           case setup_local_output_path E local_path w1 of
             (Inl e, w2) \<Rightarrow> (Inl e, w2)
           | (Inr lp, w2) \<Rightarrow>
               (let (cp, w3) = setup_cloud_output_path E cloud_path w2
                in (Inr (setup_predictor_type E
                      \<lparr>cls = c, verbosity = verb, role_arn = r, sagemaker_session = Some s,
                       local_output_path = lp, cloud_output_path = cp, endpoint = None,
                       region = Some (boto_region_name s), fit_job = new_job (Some s),
                       batch_transform_jobs = [], predictor_type = None, train_script_path = None,
                       serve_script_path = None, endpoint_saved = Absent\<rparr>), w3))))"

section \<open>fit\<close>

definition parse_framework_version :: "env \<Rightarrow> string \<Rightarrow> string \<Rightarrow> error + string" where
  "parse_framework_version E framework_version framework_type =
     (if framework_version = ''latest''
      then Inr (retrieve_latest_framework_version E framework_type)
      else (let valid_options = retrieve_available_framework_versions E framework_type
            in if framework_version \<in> set valid_options then Inr framework_version
               else Inl (AssertionError (framework_version @ '' is not a valid option. Options are: ''
                                         @ py_str_list valid_options))))"

definition construct_config ::
  "env \<Rightarrow> kwargs \<Rightarrow> kwargs \<Rightarrow> bool \<Rightarrow> cloud_predictor \<Rightarrow> world \<Rightarrow> (error + string) \<times> world" where
  "construct_config E predictor_init_args predictor_fit_args leaderboard p w =
     (case predictor_type p of
        None \<Rightarrow> (Inl (AssertionError []), w)
      | Some t \<Rightarrow>
          (let config = \<lparr>cfg_predictor_type = t, cfg_predictor_init_args = predictor_init_args,
                          cfg_predictor_fit_args = predictor_fit_args, cfg_leaderboard = leaderboard\<rparr>;
               path = os_path_join (os_path_join (local_output_path p) ''utils'') ''config.yaml''
           in case open_for_writing E path of
                Some e \<Rightarrow> (Inl (External e), w)
              | None \<Rightarrow> (Inr path, emit (WriteConfig path config) (w\<lparr>files := files w @ [path]\<rparr>))))"

definition setup_bucket :: "env \<Rightarrow> string \<Rightarrow> cloud_predictor \<Rightarrow> world \<Rightarrow> (error + unit) \<times> world" where
  "setup_bucket E bucket p w =
     (if bucket \<in> set (buckets w) then (Inr (), w)
      else case sagemaker_session p of
             None \<Rightarrow> (Inl (AttributeError ''boto_region_name''), w)
           | Some s \<Rightarrow>
               (case create_bucket E bucket (boto_region_name s) of
                  Some e \<Rightarrow> (Inl (External e), w)
                | None \<Rightarrow> (Inr (), emit (CreateBucket bucket (boto_region_name s))
                                       (w\<lparr>buckets := buckets w @ [bucket]\<rparr>))))"

definition prepare_data ::
  "env \<Rightarrow> data \<Rightarrow> string \<Rightarrow> string \<Rightarrow> cloud_predictor \<Rightarrow> world \<Rightarrow> (error + string) \<times> world" where
  "prepare_data E dat filename output_type p w =
     (if output_type \<notin> set [''parquet'', ''csv'']
      then (Inl (AssertionError (''output type:'' @ output_type @ '' is not supported'')), w)
      else (let path = os_path_join (local_output_path p) ''utils''
            in case convert E output_type dat path filename of
                 Inl e \<Rightarrow> (Inl (External e), w)
               | Inr f \<Rightarrow> (Inr f, emit (Convert output_type dat path filename)
                                      (w\<lparr>files := files w @ [f]\<rparr>))))"

text \<open>\<^verbatim>\<open>self.sagemaker_session.upload_data(path, bucket, key_prefix)\<close>; the trace records an
  upload that went through.\<close>

definition session_upload_data ::
  "env \<Rightarrow> cloud_predictor \<Rightarrow> string \<Rightarrow> bucket_arg \<Rightarrow> string \<Rightarrow> world \<Rightarrow> (error + string) \<times> world" where
  "session_upload_data E p path bucket key_prefix w =
     (case sagemaker_session p of
        None \<Rightarrow> (Inl (AttributeError ''upload_data''), w)
      | Some s \<Rightarrow>
          (case upload_data E path bucket key_prefix of
             Inl e \<Rightarrow> (Inl (External e), w)
           | Inr uri \<Rightarrow> (Inr uri, emit (Upload path bucket key_prefix) w)))"

text \<open>\<^verbatim>\<open>isinstance(d, pd.DataFrame) or not is_s3_url(d)\<close>\<close>

definition is_local :: "env \<Rightarrow> data \<Rightarrow> bool" where
  "is_local E d = (case d of DataFrame f \<Rightarrow> True | Str s \<Rightarrow> \<not> is_s3_url E s)"

definition upload_fit_artifact ::
  "env \<Rightarrow> data \<Rightarrow> data option \<Rightarrow> string \<Rightarrow> cloud_predictor \<Rightarrow> world
     \<Rightarrow> (error + string \<times> string option \<times> string) \<times> world" where
  "upload_fit_artifact E train_data tune_data config p w =
     (case s3_path_to_bucket_prefix E (Some (cloud_output_path p)) of
        Inl e \<Rightarrow> (Inl (External e), w)
      | Inr (cloud_bucket, cloud_key_prefix) \<Rightarrow>
          (let util_key_prefix = cloud_key_prefix @ ''/utils'' in
           bind (if is_local E train_data
                 then bind (prepare_data E train_data ''train'' ''csv'' p w)
                        (\<lambda>path w1.
                           bind (session_upload_data E p path (Bucket cloud_bucket) util_key_prefix
                                   (log 20 ''Uploading train data...'' w1))
                             (\<lambda>uri w2. (Inr uri, log 20 ''Train data uploaded successfully'' w2)))
                 else (Inr (case train_data of Str s \<Rightarrow> s | DataFrame f \<Rightarrow> []), w))
             (\<lambda>train_input w3.
                bind (case tune_data of
                        None \<Rightarrow> (Inr None, w3)
                      | Some td \<Rightarrow>
                          if is_local E td
                          then bind (prepare_data E td ''tune'' ''csv'' p w3)
                                 (\<lambda>path w4.
                                    bind (session_upload_data E p path (Bucket cloud_bucket)
                                            util_key_prefix (log 20 ''Uploading tune data...'' w4))
                                      (\<lambda>uri w5. (Inr (Some uri),
                                                  log 20 ''Tune data uploaded successfully'' w5)))
                          else (Inr (case td of Str s \<Rightarrow> Some s | DataFrame f \<Rightarrow> None), w3))
                  (\<lambda>tune_input w6.
                     bind (session_upload_data E p config (Bucket cloud_bucket) util_key_prefix w6)
                       (\<lambda>config_input w7. (Inr (train_input, tune_input, config_input), w7))))))"

text \<open>The arguments of \<^verbatim>\<open>fit\<close>. The dict \<^verbatim>\<open>predictor_fit_args\<close> is its entry
  \<^verbatim>\<open>'train_data'\<close> (\<open>None\<close> when the key is missing), its entry \<^verbatim>\<open>'tuning_data'\<close>
  (\<open>None\<close> when missing or \<^verbatim>\<open>None\<close>) and the other entries.\<close>

record fit_args =
  fa_predictor_init_args :: kwargs
  fa_train_data :: "data option"
  fa_tuning_data :: "data option"
  fa_predictor_fit_args :: kwargs
  fa_leaderboard :: bool
  fa_framework_version :: string
  fa_job_name :: "string option"
  fa_instance_type :: string
  fa_instance_count :: int
  fa_volume_size :: int
  fa_wait :: bool
  fa_estimator_kwargs :: kwargs
  fa_kwargs :: kwargs

text \<open>The entry point of the training job (lines 293 to 300 of the source):
  \<^verbatim>\<open>entry_point = TRAIN_SCRIPT_PATH\<close>,
  \<^verbatim>\<open>user_entry_point = autogluon_sagemaker_estimator_kwargs.pop(entry_point, None)\<close>, and
  then the user's entry point with a warning, or \<^verbatim>\<open>pop('source_dir', None)\<close>.\<close>

definition fit_entry_point :: "env \<Rightarrow> kwargs \<Rightarrow> world \<Rightarrow> string \<times> kwargs \<times> world" where
  "fit_entry_point E kwargs1 w =
     (let (user_entry_point, kwargs2) = dict_pop (TRAIN_SCRIPT_PATH E) kwargs1 in
      case user_entry_point of
        None \<Rightarrow> (TRAIN_SCRIPT_PATH E, snd (dict_pop ''source_dir'' kwargs2), w)
      | Some u \<Rightarrow>
          if u = []
          then (TRAIN_SCRIPT_PATH E, snd (dict_pop ''source_dir'' kwargs2), w)
          else (u, kwargs2,
                log 30 ''Providing a custom entry point could break the fit. Please refer to `{entry_point}` for our implementation'' w))"

definition fit ::
  "env \<Rightarrow> fit_args \<Rightarrow> cloud_predictor \<Rightarrow> world \<Rightarrow> (error + unit) \<times> cloud_predictor \<times> world" where
  "fit E a p w =
     (if completed (fit_job p)
      then (Inl (AssertionError ''Predictor is already fit! To fit additional models, create a new `CloudPredictor`''), p, w)
      else
       (case
         (case fa_train_data a of
            None \<Rightarrow> (Inl (KeyError ''train_data''), w)
          | Some train_data \<Rightarrow>
            (let tune_data = fa_tuning_data a in
             case parse_framework_version E (fa_framework_version a) ''training'' of
               Inl e \<Rightarrow> (Inl e, w)
             | Inr framework_version \<Rightarrow>
               (let (job_name, w1) = default_name E ''ag-CloudPredictor'' (fa_job_name a) w;
                    kwargs1 = snd (dict_pop ''output_path'' (fa_estimator_kwargs a));
                    output_path = cloud_output_path p @ ''/output''
                in case s3_path_to_bucket_prefix E (Some (cloud_output_path p)) of
                     Inl e \<Rightarrow> (Inl (External e), w1)
                   | Inr (cloud_bucket, unused) \<Rightarrow>
                     (let (entry_point, kwargs3, w2) = fit_entry_point E kwargs1 w1
                      in bind (setup_bucket E cloud_bucket p w2)
                           (\<lambda>u w3.
                              bind (construct_config E (fa_predictor_init_args a)
                                      (fa_predictor_fit_args a) (fa_leaderboard a) p w3)
                                (\<lambda>config w4.
                                   bind (upload_fit_artifact E train_data tune_data config p w4)
                                     (\<lambda>(train_input, tune_input, config_input) w5.
                                        (let inputs = [(''config'', config_input), (''train'', train_input)]
                                               @ (case tune_input of
                                                    None \<Rightarrow> []
                                                  | Some t \<Rightarrow> if t = [] then [] else [(''tune'', t)]);
                                             request =
                                               \<lparr>fr_role = role_arn p, fr_entry_point = entry_point,
                                                fr_region = region p,
                                                fr_instance_type = fa_instance_type a,
                                                fr_instance_count = fa_instance_count a,
                                                fr_volume_size = fa_volume_size a,
                                                fr_framework_version = framework_version,
                                                fr_base_job_name = ''autogluon-cloudpredictor-train'',
                                                fr_output_path = output_path, fr_inputs = inputs,
                                                fr_wait = fa_wait a, fr_job_name = job_name,
                                                fr_estimator_kwargs = kwargs3,
                                                fr_kwargs = fa_kwargs a\<rparr>
                                         in if duplicate_keyword
                                                 [''role'', ''entry_point'', ''region'', ''base_job_name'',
                                                  ''output_path'', ''inputs''] (fa_kwargs a)
                                            then (Inl (TypeError ''got multiple values for keyword argument''), w5)
                                            else case job_run (training_job E request) job_name (fa_wait a)
                                                        (fit_job p) of
                                                   Inl e \<Rightarrow> (Inl e, w5)
                                                 | Inr j \<Rightarrow> (Inr j, emit (SubmitTraining request) w5)))))))))
        of
          (Inl e, w') \<Rightarrow> (Inl e, p, w')
        | (Inr j, w') \<Rightarrow> (Inr (), p\<lparr>fit_job := j\<rparr>, w')))"

definition attach_job ::
  "env \<Rightarrow> string \<Rightarrow> cloud_predictor \<Rightarrow> world \<Rightarrow> (error + unit) \<times> cloud_predictor \<times> world" where
  \<comment> \<open>Modelled from the spec: \<^verbatim>\<open>SageMakerFitJob.attach\<close> reconstructs a handle for a job
      submitted before and reads its live status from the external service.\<close>
  "attach_job E name p w =
     (case describe_training_job E name of
        Inl e \<Rightarrow> (Inl (External e), p, w)
      | Inr (st, out) \<Rightarrow>
          (Inr (), p\<lparr>fit_job := \<lparr>jh_name = Some name, status = st, output_location = out,
                                   job_session = None\<rparr>\<rparr>, emit (AttachJob name) w))"

definition get_fit_job_status :: "cloud_predictor \<Rightarrow> string" where
  "get_fit_job_status p = get_job_status (fit_job p)"

section \<open>Downloading the trained predictor\<close>

definition download_predictor ::
  "env \<Rightarrow> string option \<Rightarrow> string \<Rightarrow> world \<Rightarrow> (error + string) \<times> world" where
  "download_predictor E path save_path w =
     (let w1 = log 20 ''Downloading trained models to local directory'' w in
      case s3_path_to_bucket_prefix E path of
        Inl e \<Rightarrow> (Inl (External e), w1)
      | Inr (predictor_bucket, predictor_key_prefix) \<Rightarrow>
          (let tarball_path = os_path_join save_path ''model.tar.gz'' in
           case download_s3_file E predictor_bucket predictor_key_prefix tarball_path of
             Some e \<Rightarrow> (Inl (External e), w1)
           | None \<Rightarrow>
               (let w2 = log 20 ''Extracting the trained model tarball''
                           (emit (DownloadS3 predictor_bucket predictor_key_prefix tarball_path)
                              (w1\<lparr>files := files w1 @ [tarball_path]\<rparr>));
                    save_path1 = os_path_join save_path ''AutogluonModels''
                in case unzip_file E tarball_path save_path1 of
                     Some e \<Rightarrow> (Inl (External e), w2)
                   | None \<Rightarrow> (Inr save_path1,
                              emit (Unzip tarball_path save_path1)
                                (w2\<lparr>dirs := dirs w2 @ [save_path1]\<rparr>)))))"

definition download_trained_predictor ::
  "env \<Rightarrow> string option \<Rightarrow> cloud_predictor \<Rightarrow> world \<Rightarrow> (error + string) \<times> world" where
  "download_trained_predictor E save_path p w =
     (let path = get_output_path (fit_job p);
          save_path1 = (case save_path of
                          None \<Rightarrow> local_output_path p
                        | Some q \<Rightarrow> if q = [] then local_output_path p else q)
      in download_predictor E path save_path1 w)"

section \<open>Endpoints\<close>

definition upload_predictor ::
  "env \<Rightarrow> string \<Rightarrow> string \<Rightarrow> cloud_predictor \<Rightarrow> world \<Rightarrow> (error + string) \<times> world" where
  "upload_predictor E predictor_path key_prefix p w =
     (case s3_path_to_bucket_prefix E (Some (cloud_output_path p)) of
        Inl e \<Rightarrow> (Inl (External e), w)
      | Inr (b, k) \<Rightarrow>
          if \<not> is_s3_url E predictor_path
          then if predictor_path \<in> set (files w)
               then if is_tarfile E predictor_path
                    then session_upload_data E p predictor_path (BucketAndPrefix b k) key_prefix w
                    else (Inl (ValueError ''Please provide a tarball containing the model''), w)
               else (Inl (ValueError ''Please provide a valid path to the model tarball.''), w)
          else (Inr predictor_path, w))"

text \<open>\<^verbatim>\<open>if not predictor_path: predictor_path = self._fit_job.get_output_path();
  assert predictor_path, 'No cloud trained model found.'\<close>, shared by \<^verbatim>\<open>deploy\<close> and
  \<^verbatim>\<open>predict\<close>.\<close>

definition resolve_predictor_path :: "string option \<Rightarrow> cloud_predictor \<Rightarrow> error + string" where
  "resolve_predictor_path predictor_path p =
     (if truthy predictor_path
      then (case predictor_path of Some q \<Rightarrow> Inr q | None \<Rightarrow> Inr [])
      else (case get_output_path (fit_job p) of
              None \<Rightarrow> Inl (AssertionError ''No cloud trained model found.'')
            | Some q \<Rightarrow> if q = [] then Inl (AssertionError ''No cloud trained model found.'')
                        else Inr q))"

record deploy_args =
  da_predictor_path :: "string option"
  da_endpoint_name :: "string option"
  da_framework_version :: string
  da_instance_type :: string
  da_initial_instance_count :: int
  da_wait :: bool
  da_model_kwargs :: kwargs
  da_kwargs :: kwargs

definition deploy ::
  "env \<Rightarrow> deploy_args \<Rightarrow> cloud_predictor \<Rightarrow> world \<Rightarrow> (error + unit) \<times> cloud_predictor \<times> world" where
  "deploy E a p w =
     (if endpoint p \<noteq> None
      then (Inl (AssertionError ''There is an endpoint already attached. Either detach it with `detach` or clean it up with `cleanup_deployment`''), p, w)
      else
       (case
         (case resolve_predictor_path (da_predictor_path a) p of
            Inl e \<Rightarrow> (Inl e, w)
          | Inr predictor_path \<Rightarrow>
              bind (upload_predictor E predictor_path
                      (''endpoints/'' @ (case da_endpoint_name a of None \<Rightarrow> ''None'' | Some n \<Rightarrow> n)
                       @ ''/predictor'') p w)
                (\<lambda>predictor_path1 w1.
                   (let (endpoint_name1, w2) =
                          default_name E ''sagemaker-autogluon-serving-trained-model''
                            (da_endpoint_name a) w1
                    in case parse_framework_version E (da_framework_version a) ''inference'' of
                         Inl e \<Rightarrow> (Inl e, w2)
                       | Inr framework_version \<Rightarrow>
                           (case serve_script_path p of
                              None \<Rightarrow> (Inl (AssertionError []), w2)
                            | Some script \<Rightarrow>
                                (let (user_entry_point, kwargs1) = dict_pop ''entry_point'' (da_model_kwargs a);
                                     (entry_point, w3) =
                                       (if truthy user_entry_point
                                        then (case user_entry_point of Some u \<Rightarrow> u | None \<Rightarrow> script,
                                              log 30 ''Providing a custom entry point could break the deployment. Please refer to `{entry_point}` for our implementation'' w2)
                                        else (script, w2));
                                     (user_predictor_cls, kwargs2) = dict_pop ''predictor_cls'' kwargs1;
                                     (predictor_cls, w4) =
                                       (if truthy user_predictor_cls
                                        then (case user_predictor_cls of Some u \<Rightarrow> u
                                              | None \<Rightarrow> ''AutoGluonRealtimePredictor'',
                                              log 30 ''Providing a custom predictor_cls could break the deployment. Please refer to `AutoGluonRealtimePredictor` for how to provide a custom predictor'' w3)
                                        else (''AutoGluonRealtimePredictor'', w3));
                                     request =
                                       \<lparr>dr_model_data = predictor_path1, dr_role = role_arn p,
                                        dr_region = region p, dr_framework_version = framework_version,
                                        dr_instance_type = da_instance_type a,
                                        dr_entry_point = entry_point, dr_predictor_cls = predictor_cls,
                                        dr_model_kwargs = kwargs2, dr_endpoint_name = endpoint_name1,
                                        dr_initial_instance_count = da_initial_instance_count a,
                                        dr_wait = da_wait a, dr_kwargs = da_kwargs a\<rparr>;
                                     w5 = log 20 ''Deploying model to the endpoint'' w4
                                 in if duplicate_keyword
                                         [''model_data'', ''role'', ''region'', ''framework_version'',
                                          ''instance_type''] kwargs2
                                    then (Inl (TypeError ''got multiple values for keyword argument''), w4)
                                    else case model_deploy E request of
                                           Inl e \<Rightarrow> (Inl (External e), w5)
                                         | Inr ep \<Rightarrow> (Inr ep, emit (DeployModel request) w5))))))
        of
          (Inl e, w') \<Rightarrow> (Inl e, p, w')
        | (Inr ep, w') \<Rightarrow> (Inr (), p\<lparr>endpoint := Some ep\<rparr>, w')))"

text \<open>The argument of \<^verbatim>\<open>attach_endpoint\<close>: an endpoint name, an
  \<^verbatim>\<open>AutoGluonRealtimePredictor\<close>, or anything else.\<close>

datatype endpoint_arg = EndpointName string | EndpointObject realtime_predictor | EndpointOther

definition attach_endpoint ::
  "endpoint_arg \<Rightarrow> cloud_predictor \<Rightarrow> (error + unit) \<times> cloud_predictor" where
  "attach_endpoint ep p =
     (if endpoint p \<noteq> None
      then (Inl (AssertionError ''There is an endpoint already attached. Either detach it with `detach` or clean it up with `cleanup_deployment`''), p)
      else case ep of
             EndpointName n \<Rightarrow>
               (Inr (), p\<lparr>endpoint := Some \<lparr>rp_endpoint_name = n, rp_session = sagemaker_session p\<rparr>\<rparr>)
           | EndpointObject e \<Rightarrow> (Inr (), p\<lparr>endpoint := Some e\<rparr>)
           | EndpointOther \<Rightarrow>
               (Inl (ValueError ''Please provide either an endpoint name or an endpoint of type `AutoGluonRealtimePredictor`''), p))"

definition detach_endpoint :: "cloud_predictor \<Rightarrow> (error + realtime_predictor) \<times> cloud_predictor" where
  "detach_endpoint p =
     (case endpoint p of
        None \<Rightarrow> (Inl (AssertionError []), p)
      | Some detached_endpoint \<Rightarrow> (Inr detached_endpoint, p\<lparr>endpoint := None\<rparr>))"

definition delete_endpoint ::
  "env \<Rightarrow> bool \<Rightarrow> cloud_predictor \<Rightarrow> world \<Rightarrow> (error + unit) \<times> cloud_predictor \<times> world" where
  "delete_endpoint E delete_endpoint_config p w =
     (case endpoint p of
        None \<Rightarrow> (Inl (AssertionError ''There is no endpoint deployed yet''), p, w)
      | Some ep \<Rightarrow>
          (let w1 = log 20 ''Deleteing endpoint'' w in
           case rp_delete_endpoint E ep delete_endpoint_config of
             Some e \<Rightarrow> (Inl (External e), p, w1)
           | None \<Rightarrow> (Inr (), p\<lparr>endpoint := None\<rparr>,
                      log 20 ''Endpoint deleted''
                        (emit (DeleteEndpoint (rp_endpoint_name ep) delete_endpoint_config) w1))))"

definition delete_endpoint_model ::
  "env \<Rightarrow> cloud_predictor \<Rightarrow> world \<Rightarrow> (error + unit) \<times> cloud_predictor \<times> world" where
  "delete_endpoint_model E p w =
     (case endpoint p of
        None \<Rightarrow> (Inl (AssertionError ''There is no endpoint deployed yet''), p, w)
      | Some ep \<Rightarrow>
          (let w1 = log 20 ''Deleting endpoint model'' w in
           case rp_delete_model E ep of
             Some e \<Rightarrow> (Inl (External e), p, w1)
           | None \<Rightarrow> (Inr (), p,
                      log 20 ''Endpoint model deleted'' (emit (DeleteModel (rp_endpoint_name ep)) w1))))"

definition cleanup_deployment ::
  "env \<Rightarrow> cloud_predictor \<Rightarrow> world \<Rightarrow> (error + unit) \<times> cloud_predictor \<times> world" where
  "cleanup_deployment E p w =
     (case delete_endpoint_model E p w of
        (Inl e, p1, w1) \<Rightarrow> (Inl e, p1, w1)
      | (Inr u, p1, w1) \<Rightarrow> delete_endpoint E True p1 w1)"

section \<open>Real-time inference\<close>

text \<open>Modelled from the spec: the constant \<^verbatim>\<open>VALID_ACCEPT\<close> of \<^verbatim>\<open>..utils.constants\<close>
  (section 6: the accept-type allow-list for real-time inference).\<close>

definition VALID_ACCEPT :: "string list" where
  "VALID_ACCEPT = [''application/x-parquet'', ''text/csv'', ''application/json'']"

definition predict_real_time ::
  "env \<Rightarrow> test_data \<Rightarrow> string \<Rightarrow> cloud_predictor \<Rightarrow> world \<Rightarrow> (error + frame) \<times> world" where
  "predict_real_time E test_data accept p w =
     (case endpoint p of
        None \<Rightarrow> (Inl (AssertionError ''Please call `deploy()` to deploy an endpoint first.''), w)
      | Some ep \<Rightarrow>
          if accept \<notin> set VALID_ACCEPT
          then (Inl (AssertionError (''Invalid accept type. Options are '' @ py_str_list VALID_ACCEPT @ ''.'')), w)
          else
            bind (case test_data of
                    Data (Str path) \<Rightarrow>
                      (case load_pd E path of
                         Inl e \<Rightarrow> (Inl (External e), w)
                       | Inr f \<Rightarrow> (Inr (Data (DataFrame f)), w))
                  | Data (DataFrame f) \<Rightarrow> (Inr test_data, w)
                  | Other m \<Rightarrow> (Inr test_data, w))
              (\<lambda>test_data1 w1.
                 case (case test_data1 of
                         Data (DataFrame f) \<Rightarrow> Some (memory_usage_sum f)
                       | Data (Str path) \<Rightarrow> None
                       | Other m \<Rightarrow> m) of
                   None \<Rightarrow> (Inl (AttributeError ''memory_usage''), w1)
                 | Some memory_usage \<Rightarrow>
                     (let w2 = (if memory_usage > 5000000
                                then log 30 ''Please consider reduce test data size or use `predict()` instead.''
                                       (log 30 ''Large test data detected({memory_usage // 10e6} MB). SageMaker endpoint could only take maximum 5MB. The prediction is likely to fail'' w1)
                                else w1)
                      in case test_data1 of
                           Data (DataFrame f) \<Rightarrow>
                             (let w3 = emit (EndpointPredict (rp_endpoint_name ep) f accept) w2 in
                              case endpoint_predict E ep f accept of
                                Inl e \<Rightarrow> (Inl (External e), w3)
                              | Inr r \<Rightarrow> (Inr r, w3))
                         | Data (Str path) \<Rightarrow>
                             (Inl (ValueError ''test_data must be either a pandas.DataFrame, a local path or a s3 path''), w2)
                         | Other m \<Rightarrow>
                             (Inl (ValueError ''test_data must be either a pandas.DataFrame, a local path or a s3 path''), w2))))"

section \<open>Batch inference\<close>

record predict_args =
  pa_test_data :: data
  pa_predictor_path :: "string option"
  pa_framework_version :: string
  pa_job_name :: "string option"
  pa_instance_type :: string
  pa_instance_count :: int
  pa_wait :: bool
  pa_model_kwargs :: kwargs
  pa_transformer_kwargs :: kwargs
  pa_kwargs :: kwargs

definition predict ::
  "env \<Rightarrow> predict_args \<Rightarrow> cloud_predictor \<Rightarrow> world \<Rightarrow> (error + unit) \<times> cloud_predictor \<times> world" where
  "predict E a p w =
     (case
       (case resolve_predictor_path (pa_predictor_path a) p of
          Inl e \<Rightarrow> (Inl e, w)
        | Inr predictor_path \<Rightarrow>
          (case parse_framework_version E (pa_framework_version a) ''inference'' of
             Inl e \<Rightarrow> (Inl e, w)
           | Inr framework_version \<Rightarrow>
             (let output_path = (if truthy (map_of (pa_kwargs a) ''output_path'')
                                 then (case map_of (pa_kwargs a) ''output_path'' of
                                         Some q \<Rightarrow> q | None \<Rightarrow> cloud_output_path p)
                                 else cloud_output_path p)
              in if \<not> is_s3_url E output_path then (Inl (AssertionError []), w)
                 else
                  (let (t, w1) = timestamp E w;
                       output_path1 = output_path @ ''/batch_transform'' @ ''/'' @ t
                   in case s3_path_to_bucket_prefix E (Some output_path1) of
                        Inl e \<Rightarrow> (Inl (External e), w1)
                      | Inr (cloud_bucket, cloud_key_prefix) \<Rightarrow>
                          bind (upload_predictor E predictor_path (cloud_key_prefix @ ''/predictor'') p
                                  (log 20 ''Preparing autogluon predictor...'' w1))
                            (\<lambda>predictor_path1 w2.
                               (let (job_name1, w3) =
                                      default_name E ''ag-CloudPredictor-batch-transform''
                                        (pa_job_name a) w2
                                in bind (if is_local E (pa_test_data a)
                                         then bind (prepare_data E (pa_test_data a) ''test'' ''csv'' p w3)
                                                (\<lambda>path w4.
                                                   bind (session_upload_data E p path (Bucket cloud_bucket)
                                                           (cloud_key_prefix @ ''/data'')
                                                           (log 20 ''Uploading data...'' w4))
                                                     (\<lambda>uri w5. (Inr uri, log 20 ''Data uploaded successfully'' w5)))
                                         else (Inr (case pa_test_data a of Str q \<Rightarrow> q | DataFrame f \<Rightarrow> []), w3))
                                     (\<lambda>test_input w6.
                                        case serve_script_path p of
                                          None \<Rightarrow> (Inl (AssertionError []), w6)
                                        | Some script \<Rightarrow>
                                            (let (user_entry_point, kwargs1) =
                                                   dict_pop ''entry_point'' (pa_model_kwargs a);
                                                 entry_point =
                                                   (case user_entry_point of
                                                      None \<Rightarrow> script
                                                    | Some u \<Rightarrow> if u = [] then script else u);
                                                 (user_predictor_cls, kwargs2) = dict_pop ''predictor_cls'' kwargs1;
                                                 (predictor_cls, w7) =
                                                   (case user_predictor_cls of
                                                      None \<Rightarrow> (''AutoGluonBatchPredictor'', w6)
                                                    | Some u \<Rightarrow>
                                                        if u = [] then (''AutoGluonBatchPredictor'', w6)
                                                        else (u, log 30 ''Providing a custom predictor_cls could break the deployment. Please refer to `AutoGluonBatchPredictor` for how to provide a custom predictor'' w6));
                                                 (split_type, kwargs3) = dict_pop ''split_type'' (pa_kwargs a);
                                                 (content_type, kwargs4) = dict_pop ''content_type'' kwargs3;
                                                 split_type1 = (case split_type of None \<Rightarrow> ''Line''
                                                                | Some u \<Rightarrow> if u = [] then ''Line'' else u);
                                                 content_type1 = (case content_type of None \<Rightarrow> ''text/csv''
                                                                  | Some u \<Rightarrow> if u = [] then ''text/csv'' else u);
                                                 batch_transform_job = new_job (sagemaker_session p);
                                                 request =
                                                   \<lparr>tr_model_data = predictor_path1, tr_role = role_arn p,
                                                    tr_region = region p,
                                                    tr_framework_version = framework_version,
                                                    tr_instance_count = pa_instance_count a,
                                                    tr_instance_type = pa_instance_type a,
                                                    tr_entry_point = entry_point,
                                                    tr_predictor_cls = predictor_cls,
                                                    tr_output_path = output_path1 @ ''/results'',
                                                    tr_test_input = test_input, tr_job_name = job_name1,
                                                    tr_split_type = split_type1,
                                                    tr_content_type = content_type1, tr_wait = pa_wait a,
                                                    tr_transformer_kwargs = pa_transformer_kwargs a,
                                                    tr_model_kwargs = kwargs2, tr_kwargs = kwargs4\<rparr>
                                             in if duplicate_keyword
                                                     [''model_data'', ''role'', ''region'', ''entry_point'',
                                                      ''predictor_cls'', ''output_path'', ''test_input'']
                                                     kwargs4
                                                then (Inl (TypeError ''got multiple values for keyword argument''), w7)
                                                else case job_run (transform_job E request) job_name1
                                                            (pa_wait a) batch_transform_job of
                                                       Inl e \<Rightarrow> (Inl e, w7)
                                                     | Inr j \<Rightarrow> (Inr (job_name1, j),
                                                                emit (SubmitTransform request) w7)))))))))
      of
        (Inl e, w') \<Rightarrow> (Inl e, p, w')
      | (Inr (job_name1, j), w') \<Rightarrow>
          (Inr (), p\<lparr>batch_transform_jobs := registry_put job_name1 j (batch_transform_jobs p)\<rparr>, w'))"

definition download_predict_results ::
  "env \<Rightarrow> string option \<Rightarrow> string option \<Rightarrow> cloud_predictor \<Rightarrow> world \<Rightarrow> (error + unit) \<times> world" where
  "download_predict_results E job_name save_path p w =
     (let job_name1 = (if \<not> truthy job_name then registry_last (batch_transform_jobs p) else job_name) in
      case job_name1 of
        None \<Rightarrow> (Inl (AssertionError ''There is no batch transform job.''), w)
      | Some name \<Rightarrow>
          (case registry_get (batch_transform_jobs p) (Some name) of
             None \<Rightarrow> (Inl (AssertionError (''Could not find the batch transform job that matches name '' @ name)), w)
           | Some job \<Rightarrow>
               (case get_output_path job of
                  None \<Rightarrow> (Inl (AssertionError ''No predict results found.''), w)
                | Some result_path \<Rightarrow>
                    (let file_name = split_last result_path;
                         save_path1 = (case save_path of
                                         None \<Rightarrow> local_output_path p
                                       | Some q \<Rightarrow> if q = [] then local_output_path p else q);
                         save_path2 = os_path_abspath E (os_path_expanduser E save_path1);
                         results_save_path = os_path_join (os_path_join save_path2 ''batch_transform'') name
                     in case (if results_save_path \<notin> set (dirs w)
                              then os_makedirs E results_save_path w else (Inr (), w)) of
                          (Inl e, w1) \<Rightarrow> (Inl e, w1)
                        | (Inr u, w1) \<Rightarrow>
                         (let temp_results_save_path = os_path_join results_save_path file_name;
                              (file_name1, w2) =
                                (if temp_results_save_path \<in> set (files w1)
                                 then (rename_file_with_uuid E file_name,
                                       log 30 ''File already exists. Will rename the file to avoid overwrite.'' w1)
                                 else (file_name, w1));
                              results_save_path1 = os_path_join results_save_path file_name1
                          in case s3_path_to_bucket_prefix E (Some result_path) of
                               Inl e \<Rightarrow> (Inl (External e), w2)
                             | Inr (results_bucket, results_key_prefix) \<Rightarrow>
                                 (case download_s3_file E results_bucket results_key_prefix results_save_path1 of
                                    Some e \<Rightarrow> (Inl (External e), w2)
                                  | None \<Rightarrow>
                                      (Inr (),
                                       \<comment> \<open>\<^verbatim>\<open>logger.info(20, f'Results have been saved to ...')\<close>: the
                                           message is \<^verbatim>\<open>20\<close>, the text its argument\<close>
                                       log 20 ''20''
                                         (emit (DownloadS3 results_bucket results_key_prefix results_save_path1)
                                            (w2\<lparr>files := files w2 @ [results_save_path1]\<rparr>)))))))))"

definition get_batch_transform_job_status :: "string option \<Rightarrow> cloud_predictor \<Rightarrow> string" where
  "get_batch_transform_job_status job_name p =
     (let job_name1 = (if \<not> truthy job_name then registry_last (batch_transform_jobs p) else job_name) in
      case registry_get (batch_transform_jobs p) job_name1 of
        Some job \<Rightarrow> get_job_status job
      | None \<Rightarrow> ''NotCreated'')"

section \<open>save and load\<close>

text \<open>Modelled from the spec: what the pickle of a predictor holds. The external-session
  references of the job handles are excluded from the snapshot (section 4.5); the fields
  \<^verbatim>\<open>save\<close> sets to \<^verbatim>\<open>None\<close> before it pickles are stored as it set them.\<close>

definition snapshot :: "cloud_predictor \<Rightarrow> cloud_predictor" where
  "snapshot p =
     p\<lparr>fit_job := (fit_job p)\<lparr>job_session := None\<rparr>,
       batch_transform_jobs := map (\<lambda>(n, j). (n, j\<lparr>job_session := None\<rparr>)) (batch_transform_jobs p)\<rparr>"

definition save_pkl_save :: "env \<Rightarrow> string \<Rightarrow> cloud_predictor \<Rightarrow> world \<Rightarrow> (error + unit) \<times> world" where
  "save_pkl_save E path obj w =
     (case save_pkl E path of
        Some e \<Rightarrow> (Inl (External e), w)
      | None \<Rightarrow> (Inr (), emit (SavePkl path)
                         (w\<lparr>pickles := (path, snapshot obj) # pickles w, files := files w @ [path]\<rparr>)))"

definition load_pkl_load :: "string \<Rightarrow> world \<Rightarrow> error + cloud_predictor" where
  "load_pkl_load path w =
     (case map_of (pickles w) path of None \<Rightarrow> Inl (External ''FileNotFoundError'') | Some obj \<Rightarrow> Inr obj)"

definition save ::
  "env \<Rightarrow> bool \<Rightarrow> cloud_predictor \<Rightarrow> world \<Rightarrow> (error + unit) \<times> cloud_predictor \<times> world" where
  "save E silent p w =
     (let path = local_output_path p;
          file_name = predictor_file_name (cls p);
          temp_session = sagemaker_session p;
          temp_region = region p;
          p1 = p\<lparr>sagemaker_session := None, region := None\<rparr>;
          (temp_endpoint, p2) =
            (case endpoint p1 of
               Some ep \<Rightarrow> (Some ep, p1\<lparr>endpoint_saved := Present (endpoint_name p1), endpoint := None\<rparr>)
             | None \<Rightarrow> (None, p1))
      in case save_pkl_save E (os_path_join path file_name) p2 w of
           (Inl e, w1) \<Rightarrow> (Inl e, p2, w1)
         | (Inr u, w1) \<Rightarrow>
             (let p3 = p2\<lparr>sagemaker_session := temp_session, region := temp_region\<rparr>;
                  p4 = (case temp_endpoint of
                          Some ep \<Rightarrow> p3\<lparr>endpoint := Some ep, endpoint_saved := Present None\<rparr>
                        | None \<Rightarrow> p3);
                  w2 = (if \<not> silent
                        then log 20 (''{type(self).__name__} saved. To load, use: predictor = {type(self).__name__}.load('' @ [CHR 0x22]
                                   @ ''{self.local_output_path}'' @ [CHR 0x22] @ '')'') w1
                        else w1)
              in (Inr (), p4, w2)))"

text \<open>\<^verbatim>\<open>_load_jobs\<close>. The loop \<^verbatim>\<open>for job in self._batch_transform_jobs\<close> iterates over the
  registry itself. Iterating over a Python mapping yields its keys, here the job names,
  and a \<^verbatim>\<open>str\<close> takes no attribute: the assignment \<^verbatim>\<open>job.session = ...\<close> raises
  \<^verbatim>\<open>AttributeError\<close> at the first entry.\<close>

definition load_jobs :: "cloud_predictor \<Rightarrow> (error + unit) \<times> cloud_predictor" where
  "load_jobs p =
     (let p1 = p\<lparr>fit_job := (fit_job p)\<lparr>job_session := sagemaker_session p\<rparr>\<rparr> in
      case map fst (batch_transform_jobs p1) of
        [] \<Rightarrow> (Inr (), p1)
      | job # rest \<Rightarrow> (Inl (AttributeError ''session''), p1))"

definition load ::
  "env \<Rightarrow> predictor_cls \<Rightarrow> string option \<Rightarrow> int option \<Rightarrow> world \<Rightarrow> (error + cloud_predictor) \<times> world" where
  "load E c path verb w =
     (case path of
        None \<Rightarrow> (Inl (ValueError ''path cannot be None in load()''), w)
      | Some q \<Rightarrow>
          (let path1 = setup_outputdir E q in
           case load_pkl_load (os_path_join path1 (predictor_file_name c)) w of
             Inl e \<Rightarrow> (Inl e, w)
           | Inr predictor \<Rightarrow>
               (let (s, w1) = new_session E w;
                    predictor1 = predictor\<lparr>sagemaker_session := Some s\<rparr>;
                    predictor2 = predictor1\<lparr>region := Some (boto_region_name s)\<rparr>
                in case load_jobs predictor2 of
                     (Inl e, predictor3) \<Rightarrow> (Inl e, w1)
                   | (Inr u, predictor3) \<Rightarrow>
                       (case endpoint_saved predictor3 of
                          Present (Some n) \<Rightarrow>
                            if n = [] then (Inr predictor3, w1)
                            else (case attach_endpoint (EndpointName n) predictor3 of
                                    (Inl e, predictor4) \<Rightarrow> (Inl e, w1)
                                  | (Inr u, predictor4) \<Rightarrow>
                                      (Inr (predictor4\<lparr>endpoint_saved := Present None\<rparr>), w1))
                        | Present None \<Rightarrow> (Inr predictor3, w1)
                        | Absent \<Rightarrow> (Inr predictor3, w1)))))"

section \<open>Reading the trace\<close>

text \<open>The local files a stretch of the trace uploaded, and the training jobs it
  submitted, in order.\<close>

definition uploaded :: "event list \<Rightarrow> string list" where
  "uploaded evs = concat (map (\<lambda>ev. case ev of Upload path b k \<Rightarrow> [path] | _ \<Rightarrow> []) evs)"

definition submitted :: "event list \<Rightarrow> fit_request list" where
  "submitted evs = concat (map (\<lambda>ev. case ev of SubmitTraining r \<Rightarrow> [r] | _ \<Rightarrow> []) evs)"

text \<open>The file \<^verbatim>\<open>_prepare_data\<close> writes for a dataset that \<^verbatim>\<open>_upload_fit_artifact\<close>
  stages (a frame or a local path); nothing for a dataset that is already an S3 URL.\<close>

definition staged_file :: "env \<Rightarrow> cloud_predictor \<Rightarrow> data \<Rightarrow> string \<Rightarrow> string list" where
  "staged_file E p d name =
     (if is_local E d
      then (case convert E ''csv'' d (os_path_join (local_output_path p) ''utils'') name of
              Inr f \<Rightarrow> [f] | Inl e \<Rightarrow> [])
      else [])"

section \<open>A sample environment\<close>

text \<open>An environment in which every collaborator answers, and the states a sample
  session goes through in it. They serve to run the functions above on concrete
  inputs.\<close>

definition sample_env :: env where
  "sample_env =
     \<lparr>TRAIN_SCRIPT_PATH = ''train.py'',
      TABULAR_SERVE_SCRIPT_PATH = ''tabular_serve.py'',
      TEXT_SERVE_SCRIPT_PATH = ''text_serve.py'',
      is_s3_url = (\<lambda>s. take 5 s = ''s3://''),
      s3_path_to_bucket_prefix =
        (\<lambda>x. case x of
               None \<Rightarrow> Inl ''AttributeError: NoneType object has no attribute split''
             | Some s \<Rightarrow> Inr (takeWhile (\<lambda>c. c \<noteq> CHR ''/'') (drop 5 s),
                             drop 1 (dropWhile (\<lambda>c. c \<noteq> CHR ''/'') (drop 5 s)))),
      setup_outputdir = (\<lambda>s. s),
      os_path_abspath = (\<lambda>s. s),
      os_path_expanduser = (\<lambda>s. s),
      utcnow_strftime = (\<lambda>n. ''20220101_000000''),
      sagemaker_timestamp = (\<lambda>n. ''2022-01-01-00-00-00-000''),
      unique_name_from_base = (\<lambda>b n. b @ ''-'' @ replicate n (CHR ''x'')),
      session_region = (\<lambda>n. ''us-east-1''),
      create_sagemaker_role_and_attach_policies = (\<lambda>n. Inr (''arn:aws:iam::role/'' @ n)),
      retrieve_latest_framework_version = (\<lambda>t. ''0.4.0''),
      retrieve_available_framework_versions = (\<lambda>t. [''0.3.1'', ''0.4.0'']),
      create_bucket = (\<lambda>b r. None),
      open_for_writing = (\<lambda>f. None),
      convert = (\<lambda>ty d path name. Inr (os_path_join path (name @ ''.'' @ ty))),
      upload_data = (\<lambda>path b k. Inr (''s3://'' @ (case b of Bucket n \<Rightarrow> n | BucketAndPrefix n q \<Rightarrow> n)
                                    @ ''/'' @ k @ ''/'' @ split_last path)),
      training_job = (\<lambda>r. Inr (Completed, Some (fr_output_path r @ ''/model.tar.gz''))),
      describe_training_job = (\<lambda>n. Inr (InProgress, None)),
      transform_job = (\<lambda>r. Inr (Completed, Some (tr_output_path r @ ''/test.csv.out''))),
      model_deploy = (\<lambda>r. Inr \<lparr>rp_endpoint_name = dr_endpoint_name r, rp_session = None\<rparr>),
      endpoint_predict = (\<lambda>ep f acc. Inr f),
      rp_delete_model = (\<lambda>ep. None),
      rp_delete_endpoint = (\<lambda>ep c. None),
      load_pd = (\<lambda>f. Inr \<lparr>frame_content = f, memory_usage_sum = 1000\<rparr>),
      is_tarfile = (\<lambda>f. True),
      download_s3_file = (\<lambda>b k f. None),
      unzip_file = (\<lambda>f d. None),
      rename_file_with_uuid = (\<lambda>f. ''renamed-'' @ f),
      save_pkl = (\<lambda>f. None),
      makedirs_error = (\<lambda>d. None)\<rparr>"

definition empty_world :: world where
  "empty_world = \<lparr>events = [], files = [], dirs = [], buckets = [], pickles = [],
                    next_session_id = 0, clock = 0\<rparr>"

definition sample_session :: session where
  "sample_session = \<lparr>session_id = 0, boto_region_name = ''us-east-1''\<rparr>"

text \<open>The instance and the world as
  \<^verbatim>\<open>TabularCloudPredictor(role_arn='role', local_output_path='/out', cloud_output_path='bucket/run')\<close>
  leaves them (\<open>init_sample\<close> below).\<close>

definition sample_predictor :: cloud_predictor where
  "sample_predictor =
     \<lparr>cls = TabularCloudPredictor, verbosity = 2, role_arn = ''role'',
      sagemaker_session = Some sample_session, local_output_path = ''/out'',
      cloud_output_path = ''s3://bucket/run'', endpoint = None, region = Some ''us-east-1'',
      fit_job = \<lparr>jh_name = None, status = NotCreated, output_location = None,
                  job_session = Some sample_session\<rparr>,
      batch_transform_jobs = [], predictor_type = Some ''tabular'',
      train_script_path = Some ''train.py'', serve_script_path = Some ''tabular_serve.py'',
      endpoint_saved = Absent\<rparr>"

definition sample_world :: world where
  "sample_world = \<lparr>events = [MakeDirs ''/out/utils''], files = [],
                     dirs = [''/out'', ''/out/utils''],
                     buckets = [], pickles = [], next_session_id = 1, clock = 0\<rparr>"

definition sample_frame :: frame where
  "sample_frame = \<lparr>frame_content = ''a,b'', memory_usage_sum = 64\<rparr>"

definition large_frame :: frame where
  "large_frame = \<lparr>frame_content = ''a,b'', memory_usage_sum = 5000001\<rparr>"

definition sample_fit_args :: fit_args where
  "sample_fit_args =
     \<lparr>fa_predictor_init_args = [(''label'', ''class'')],
      fa_train_data = Some (DataFrame sample_frame), fa_tuning_data = None,
      fa_predictor_fit_args = [], fa_leaderboard = True, fa_framework_version = ''latest'',
      fa_job_name = None, fa_instance_type = ''ml.m5.2xlarge'', fa_instance_count = 1,
      fa_volume_size = 30, fa_wait = True, fa_estimator_kwargs = [], fa_kwargs = []\<rparr>"

text \<open>The fit job once the sample training job has completed, and the handle of a
  completed batch-transform job \<^verbatim>\<open>job-1\<close>.\<close>

definition sample_fit_job :: job_handle where
  "sample_fit_job =
     \<lparr>jh_name = Some ''ag-CloudPredictor-'', status = Completed,
      output_location = Some ''s3://bucket/run/output/model.tar.gz'',
      job_session = Some sample_session\<rparr>"

definition sample_transform_job :: job_handle where
  "sample_transform_job =
     \<lparr>jh_name = Some ''job-1'', status = Completed,
      output_location = Some ''s3://bucket/run/batch_transform/2022-01-01-00-00-00-000/results/test.csv.out'',
      job_session = Some sample_session\<rparr>"

definition fitted_predictor :: cloud_predictor where
  "fitted_predictor = sample_predictor\<lparr>fit_job := sample_fit_job\<rparr>"

definition sample_predict_args :: predict_args where
  "sample_predict_args =
     \<lparr>pa_test_data = DataFrame sample_frame, pa_predictor_path = None,
      pa_framework_version = ''latest'', pa_job_name = Some ''job-1'',
      pa_instance_type = ''ml.m5.2xlarge'', pa_instance_count = 1, pa_wait = True,
      pa_model_kwargs = [], pa_transformer_kwargs = [], pa_kwargs = []\<rparr>"

definition predicted_predictor :: cloud_predictor where
  "predicted_predictor = fitted_predictor\<lparr>batch_transform_jobs := [(''job-1'', sample_transform_job)]\<rparr>"

definition sample_deploy_args :: deploy_args where
  "sample_deploy_args =
     \<lparr>da_predictor_path = None, da_endpoint_name = Some ''endpoint-1'',
      da_framework_version = ''latest'', da_instance_type = ''ml.m5.2xlarge'',
      da_initial_instance_count = 1, da_wait = True, da_model_kwargs = [], da_kwargs = []\<rparr>"

definition deployed_predictor :: cloud_predictor where
  "deployed_predictor =
     fitted_predictor\<lparr>endpoint := Some \<lparr>rp_endpoint_name = ''endpoint-1'', rp_session = None\<rparr>\<rparr>"

text \<open>The world after the results of \<^verbatim>\<open>job-1\<close> were downloaded once (\<open>download_sample\<close>
  below).\<close>

definition downloaded_world :: world where
  "downloaded_world =
     sample_world\<lparr>events := events sample_world @
        [MakeDirs ''/out/batch_transform/job-1'',
         DownloadS3 ''bucket'' ''run/batch_transform/2022-01-01-00-00-00-000/results/test.csv.out''
           ''/out/batch_transform/job-1/test.csv.out'',
         Log 20 ''20''],
       files := [''/out/batch_transform/job-1/test.csv.out''],
       dirs := [''/out'', ''/out/utils'', ''/out/batch_transform'', ''/out/batch_transform/job-1'']\<rparr>"

text \<open>The instance with the batch-transform job \<^verbatim>\<open>job-1\<close> still in progress, as
  \<^verbatim>\<open>predict(..., wait=False)\<close> leaves it.\<close>

definition pending_predictor :: cloud_predictor where
  "pending_predictor =
     fitted_predictor\<lparr>batch_transform_jobs :=
       [(''job-1'', \<lparr>jh_name = Some ''job-1'', status = InProgress, output_location = None,
                     job_session = Some sample_session\<rparr>)]\<rparr>"

text \<open>The sample environment with a training job that fails.\<close>

definition failing_env :: env where
  "failing_env = sample_env\<lparr>training_job := (\<lambda>r. Inr (Failed, None))\<rparr>"

section \<open>The sample session\<close>

lemma init_sample:
  "init sample_env TabularCloudPredictor (Some ''role'') (Some ''/out'') (Some ''bucket/run'') 2 empty_world
     = (Inr sample_predictor, sample_world)"
  by code_simp

lemma fit_sample:
  "fst (fit sample_env sample_fit_args sample_predictor sample_world) = Inr () \<and>
   fst (snd (fit sample_env sample_fit_args sample_predictor sample_world)) = fitted_predictor"
  by code_simp

lemma predict_sample:
  "fst (predict sample_env sample_predict_args fitted_predictor sample_world) = Inr () \<and>
   fst (snd (predict sample_env sample_predict_args fitted_predictor sample_world)) = predicted_predictor"
  by code_simp

lemma deploy_sample:
  "fst (deploy sample_env sample_deploy_args fitted_predictor sample_world) = Inr () \<and>
   fst (snd (deploy sample_env sample_deploy_args fitted_predictor sample_world)) = deployed_predictor"
  by code_simp

lemma download_sample:
  "download_predict_results sample_env None None predicted_predictor sample_world = (Inr (), downloaded_world)"
  by code_simp

lemma pending_sample:
  "fst (predict sample_env (sample_predict_args\<lparr>pa_wait := False\<rparr>) fitted_predictor sample_world) = Inr () \<and>
   fst (snd (predict sample_env (sample_predict_args\<lparr>pa_wait := False\<rparr>) fitted_predictor sample_world))
     = pending_predictor"
  by code_simp

text \<open>The constructor raises when \<^verbatim>\<open>os.makedirs\<close> does, unless the directory is there
  already: then it warns.\<close>

lemma init_not_a_directory:
  "init sample_env TabularCloudPredictor (Some ''role'') (Some ''/out'') (Some ''bucket/run'') 2
     (empty_world\<lparr>files := [''/out'']\<rparr>)
     = (Inl (OSError ''NotADirectoryError''), empty_world\<lparr>files := [''/out''], next_session_id := 1\<rparr>)"
  by code_simp

lemma init_existing_directory:
  "init sample_env TabularCloudPredictor (Some ''role'') (Some ''/out'') (Some ''bucket/run'') 2
     (empty_world\<lparr>dirs := [''/out'', ''/out/utils'']\<rparr>)
     = (Inr sample_predictor,
        empty_world\<lparr>dirs := [''/out'', ''/out/utils''], next_session_id := 1,
          events := [Log 30 (''Warning: path already exists! This predictor may overwrite an existing predictor! path=''
                             @ [CHR 0x22] @ ''/out'' @ [CHR 0x22])]\<rparr>)"
  by code_simp

section \<open>Results of a call that wraps its steps\<close>

lemma wrap_ok:
  "(case m of (Inl e, w') \<Rightarrow> (Inl e, p, w') | (Inr x, w') \<Rightarrow> (Inr u0, g x, w')) = (Inr u, p1, w1)
     \<Longrightarrow> \<exists>x. p1 = g x"
  by (cases m) (auto split: sum.splits)

section \<open>Endpoints: at most one attached\<close>

lemma deploy_ok_endpoint:
  "deploy E a p w = (Inr u, p1, w1) \<Longrightarrow> endpoint p1 \<noteq> None"
  apply (cases "endpoint p = None")
   apply (simp only: deploy_def simp_thms if_False)
   apply (drule wrap_ok)
   apply auto[1]
  apply (simp add: deploy_def)
  done

text \<open>Claim C2. \<^verbatim>\<open>deploy\<close> and \<^verbatim>\<open>attach_endpoint\<close> both raise the assertion ``There is an
  endpoint already attached'' when the instance has an endpoint, and leave the instance
  and the world as they were; a \<^verbatim>\<open>deploy\<close> that returned leaves an endpoint attached, so a
  second \<^verbatim>\<open>deploy\<close> on the state it left raises that assertion.\<close>

theorem deploy_attach_reject_attached_endpoint:
  "(endpoint p \<noteq> None \<longrightarrow>
      deploy E a p w =
        (Inl (AssertionError ''There is an endpoint already attached. Either detach it with `detach` or clean it up with `cleanup_deployment`''), p, w)
    \<and> attach_endpoint ep p =
        (Inl (AssertionError ''There is an endpoint already attached. Either detach it with `detach` or clean it up with `cleanup_deployment`''), p))
   \<and> (fst (deploy E a p w) = Inr () \<longrightarrow>
        fst (deploy E a' (fst (snd (deploy E a p w))) (snd (snd (deploy E a p w)))) =
          Inl (AssertionError ''There is an endpoint already attached. Either detach it with `detach` or clean it up with `cleanup_deployment`''))"
proof -
  have "endpoint (fst (snd (deploy E a p w))) \<noteq> None" if "fst (deploy E a p w) = Inr ()"
    using that deploy_ok_endpoint [of E a p w "()" "fst (snd (deploy E a p w))" "snd (snd (deploy E a p w))"]
    by (metis prod.collapse)
  then show ?thesis
    by (simp add: deploy_def attach_endpoint_def)
qed

theorem deploy_attach_reject_attached_endpoint_witness:
  "endpoint deployed_predictor \<noteq> None
   \<and> deploy sample_env sample_deploy_args deployed_predictor sample_world =
       (Inl (AssertionError ''There is an endpoint already attached. Either detach it with `detach` or clean it up with `cleanup_deployment`''), deployed_predictor, sample_world)
   \<and> attach_endpoint (EndpointName ''endpoint-2'') deployed_predictor =
       (Inl (AssertionError ''There is an endpoint already attached. Either detach it with `detach` or clean it up with `cleanup_deployment`''), deployed_predictor)
   \<and> fst (deploy sample_env sample_deploy_args fitted_predictor sample_world) = Inr ()
   \<and> fst (deploy sample_env sample_deploy_args
             (fst (snd (deploy sample_env sample_deploy_args fitted_predictor sample_world)))
             (snd (snd (deploy sample_env sample_deploy_args fitted_predictor sample_world)))) =
       Inl (AssertionError ''There is an endpoint already attached. Either detach it with `detach` or clean it up with `cleanup_deployment`'')"
proof -
  have h1: "endpoint deployed_predictor \<noteq> None" by code_simp
  have h2: "fst (deploy sample_env sample_deploy_args fitted_predictor sample_world) = Inr ()"
    by code_simp
  show ?thesis
    using h1 h2
      deploy_attach_reject_attached_endpoint
        [of deployed_predictor sample_env sample_deploy_args sample_world "EndpointName ''endpoint-2''"]
      deploy_attach_reject_attached_endpoint
        [of fitted_predictor sample_env sample_deploy_args sample_world _ sample_deploy_args]
    by blast
qed

section \<open>Real-time inference: the accept type and the size of the data\<close>

text \<open>Claim C5. With an endpoint attached, \<^verbatim>\<open>predict_real_time\<close> raises the assertion
  ``Invalid accept type'' exactly when the accept string is none of
  \<^verbatim>\<open>application/x-parquet\<close>, \<^verbatim>\<open>text/csv\<close>, \<^verbatim>\<open>application/json\<close>; it raises it before
  anything is sent, and never for a string of the list.\<close>

theorem predict_real_time_accept:
  "endpoint p = Some ep \<Longrightarrow>
     (fst (predict_real_time E test_data accept p w) =
        Inl (AssertionError (''Invalid accept type. Options are '' @ py_str_list VALID_ACCEPT @ ''.'')))
      = (accept \<notin> {''application/x-parquet'', ''text/csv'', ''application/json''})
     \<and> (accept \<notin> {''application/x-parquet'', ''text/csv'', ''application/json''} \<longrightarrow>
          snd (predict_real_time E test_data accept p w) = w)"
  by (auto simp: predict_real_time_def bind_def VALID_ACCEPT_def Let_def
           split: option.splits sum.splits test_data.splits data.splits)

theorem predict_real_time_accept_witness:
  "endpoint deployed_predictor = Some \<lparr>rp_endpoint_name = ''endpoint-1'', rp_session = None\<rparr>
   \<and> fst (predict_real_time sample_env (Data (DataFrame sample_frame)) ''text/html''
            deployed_predictor sample_world) =
       Inl (AssertionError (''Invalid accept type. Options are '' @ py_str_list VALID_ACCEPT @ ''.''))
   \<and> snd (predict_real_time sample_env (Data (DataFrame sample_frame)) ''text/html''
            deployed_predictor sample_world) = sample_world
   \<and> fst (predict_real_time sample_env (Data (DataFrame sample_frame)) ''text/csv''
            deployed_predictor sample_world) \<noteq>
       Inl (AssertionError (''Invalid accept type. Options are '' @ py_str_list VALID_ACCEPT @ ''.''))"
proof -
  have h: "endpoint deployed_predictor = Some \<lparr>rp_endpoint_name = ''endpoint-1'', rp_session = None\<rparr>"
    by code_simp
  show ?thesis
    using h
      predict_real_time_accept [OF h, of sample_env "Data (DataFrame sample_frame)" "''text/html''" sample_world]
      predict_real_time_accept [OF h, of sample_env "Data (DataFrame sample_frame)" "''text/csv''" sample_world]
    by simp
qed

text \<open>Claim C6. For a data frame whose memory usage is above 5,000,000 bytes, with an
  endpoint attached and an accept type of the list, \<^verbatim>\<open>predict_real_time\<close> logs its two
  warnings (level 30), sends the frame to the endpoint and returns what the endpoint
  answers: the size raises nothing.\<close>

theorem predict_real_time_large_frame:
  "endpoint p = Some ep \<Longrightarrow> accept \<in> set VALID_ACCEPT \<Longrightarrow> memory_usage_sum f > 5000000 \<Longrightarrow>
     predict_real_time E (Data (DataFrame f)) accept p w =
       ((case endpoint_predict E ep f accept of Inl e \<Rightarrow> Inl (External e) | Inr r \<Rightarrow> Inr r),
        w\<lparr>events := events w @
           [Log 30 ''Large test data detected({memory_usage // 10e6} MB). SageMaker endpoint could only take maximum 5MB. The prediction is likely to fail'',
            Log 30 ''Please consider reduce test data size or use `predict()` instead.'',
            EndpointPredict (rp_endpoint_name ep) f accept]\<rparr>)"
  by (auto simp: predict_real_time_def bind_def Let_def log_def emit_def split: sum.splits)

theorem predict_real_time_large_frame_witness:
  "endpoint deployed_predictor = Some \<lparr>rp_endpoint_name = ''endpoint-1'', rp_session = None\<rparr>
   \<and> ''text/csv'' \<in> set VALID_ACCEPT \<and> memory_usage_sum large_frame > 5000000
   \<and> predict_real_time sample_env (Data (DataFrame large_frame)) ''text/csv'' deployed_predictor sample_world =
       (Inr large_frame,
        sample_world\<lparr>events := events sample_world @
           [Log 30 ''Large test data detected({memory_usage // 10e6} MB). SageMaker endpoint could only take maximum 5MB. The prediction is likely to fail'',
            Log 30 ''Please consider reduce test data size or use `predict()` instead.'',
            EndpointPredict ''endpoint-1'' large_frame ''text/csv'']\<rparr>)"
proof -
  have h1: "endpoint deployed_predictor = Some \<lparr>rp_endpoint_name = ''endpoint-1'', rp_session = None\<rparr>"
    by code_simp
  have h2: "''text/csv'' \<in> set VALID_ACCEPT" by code_simp
  have h3: "memory_usage_sum large_frame > 5000000" by (simp add: large_frame_def)
  have e: "endpoint_predict sample_env \<lparr>rp_endpoint_name = ''endpoint-1'', rp_session = None\<rparr>
             large_frame ''text/csv'' = Inr large_frame"
    by (simp add: sample_env_def)
  show ?thesis
    using h1 h2 h3 predict_real_time_large_frame [OF h1 h2 h3, of sample_env sample_world]
    by (simp add: e)
qed

section \<open>fit: one fit per instance\<close>

lemma bind_Inl:
  "fst (bind m f) = Inl x \<longleftrightarrow> fst m = Inl x \<or> (\<exists>y w1. m = (Inr y, w1) \<and> fst (f y w1) = Inl x)"
  by (cases m) (auto simp: bind_def split: sum.splits)

lemma wrap_Inl:
  "fst (case m of (Inl e, w') \<Rightarrow> (Inl e, p, w') | (Inr x, w') \<Rightarrow> (Inr u0, g x, w')) = Inl err
     \<longleftrightarrow> fst m = Inl err"
  by (cases m) (auto split: sum.splits)

lemma last_py_str_list: "last (py_str_list xs) = CHR '']''"
  by (simp add: py_str_list_def)

lemma py_str_list_nonempty: "py_str_list xs \<noteq> []"
  by (simp add: py_str_list_def)

lemma parse_framework_version_error:
  "parse_framework_version E v t = Inl err \<Longrightarrow>
     \<exists>m. err = AssertionError m \<and> m \<noteq> [] \<and> last m = CHR '']''"
  by (auto simp: parse_framework_version_def Let_def last_py_str_list py_str_list_nonempty last_append
           split: if_splits)

lemma setup_bucket_error:
  "fst (setup_bucket E b p w) \<noteq> Inl (AssertionError m)"
  by (auto simp: setup_bucket_def split: option.splits)

lemma construct_config_error:
  "fst (construct_config E ia fa lb p w) = Inl (AssertionError m) \<Longrightarrow> m = []"
  by (auto simp: construct_config_def Let_def split: option.splits)

lemma prepare_data_csv_error:
  "fst (prepare_data E d f ''csv'' p w) \<noteq> Inl (AssertionError m)"
  by (auto simp: prepare_data_def Let_def split: sum.splits)

lemma session_upload_data_error:
  "fst (session_upload_data E p path b k w) \<noteq> Inl (AssertionError m)"
  by (auto simp: session_upload_data_def split: option.splits sum.splits)

lemma upload_fit_artifact_error:
  "fst (upload_fit_artifact E train tune config p w) \<noteq> Inl (AssertionError m)"
  by (auto simp: upload_fit_artifact_def Let_def bind_Inl prepare_data_csv_error session_upload_data_error
           split: sum.splits prod.splits option.splits)

lemma job_run_error: "job_run answer n b j \<noteq> Inl (AssertionError m)"
  by (auto simp: job_run_def split: sum.splits prod.splits)

lemma fit_not_completed:
  assumes "\<not> completed (fit_job p)"
  shows "fst (fit E a p w) \<noteq>
     Inl (AssertionError ''Predictor is already fit! To fit additional models, create a new `CloudPredictor`'')"
  using assms
  apply (simp only: fit_def if_False wrap_Inl)
  apply (auto simp: Let_def bind_Inl setup_bucket_error upload_fit_artifact_error job_run_error
              dest!: parse_framework_version_error construct_config_error
              split: option.splits sum.splits prod.splits)
  done

text \<open>Claim C1. \<^verbatim>\<open>fit\<close> raises the assertion ``Predictor is already fit!'' exactly when
  the fit job of the instance is in the state \<open>Completed\<close> (the property \<^verbatim>\<open>is_fit\<close>), and then
  it leaves the instance and the world as they were. So of two calls of \<^verbatim>\<open>fit\<close> on one
  instance the second is rejected when the first left the job completed, and is not
  rejected for that reason when the first attempt ended in any other state.\<close>

theorem fit_rejected_iff_completed:
  "(fst (fit E a p w) =
      Inl (AssertionError ''Predictor is already fit! To fit additional models, create a new `CloudPredictor`''))
     = completed (fit_job p)
   \<and> (completed (fit_job p) \<longrightarrow>
        fit E a p w =
          (Inl (AssertionError ''Predictor is already fit! To fit additional models, create a new `CloudPredictor`''), p, w))
   \<and> is_fit p = (status (fit_job p) = Completed)
   \<and> (fst (fit E a p w) = Inr () \<longrightarrow>
        (fst (fit E a' (fst (snd (fit E a p w))) (snd (snd (fit E a p w)))) =
           Inl (AssertionError ''Predictor is already fit! To fit additional models, create a new `CloudPredictor`''))
        = (status (fit_job (fst (snd (fit E a p w)))) = Completed))"
proof -
  have iff: "(fst (fit E b q v) =
      Inl (AssertionError ''Predictor is already fit! To fit additional models, create a new `CloudPredictor`''))
     = completed (fit_job q)" for b q v
  proof (cases "completed (fit_job q)")
    case True
    then show ?thesis by (simp add: fit_def)
  next
    case False
    then show ?thesis using fit_not_completed [of q E b v] by simp
  qed
  show ?thesis
    using iff [of a p w] iff [of a' "fst (snd (fit E a p w))" "snd (snd (fit E a p w))"]
    by (simp add: fit_def is_fit_def completed_def)
qed

theorem fit_rejected_iff_completed_witness:
  "completed (fit_job fitted_predictor)
   \<and> fit sample_env sample_fit_args fitted_predictor sample_world =
        (Inl (AssertionError ''Predictor is already fit! To fit additional models, create a new `CloudPredictor`''),
         fitted_predictor, sample_world)
   \<and> fst (fit sample_env sample_fit_args sample_predictor sample_world) = Inr ()
   \<and> fst (fit sample_env sample_fit_args
             (fst (snd (fit sample_env sample_fit_args sample_predictor sample_world)))
             (snd (snd (fit sample_env sample_fit_args sample_predictor sample_world)))) =
        Inl (AssertionError ''Predictor is already fit! To fit additional models, create a new `CloudPredictor`'')
   \<and> fst (fit failing_env sample_fit_args sample_predictor sample_world) = Inr ()
   \<and> status (fit_job (fst (snd (fit failing_env sample_fit_args sample_predictor sample_world)))) = Failed
   \<and> fst (fit failing_env sample_fit_args
             (fst (snd (fit failing_env sample_fit_args sample_predictor sample_world)))
             (snd (snd (fit failing_env sample_fit_args sample_predictor sample_world)))) \<noteq>
        Inl (AssertionError ''Predictor is already fit! To fit additional models, create a new `CloudPredictor`'')"
proof -
  have h1: "completed (fit_job fitted_predictor)" by code_simp
  have h2: "fst (fit sample_env sample_fit_args sample_predictor sample_world) = Inr ()" by code_simp
  have h3: "status (fit_job (fst (snd (fit sample_env sample_fit_args sample_predictor sample_world)))) = Completed"
    by code_simp
  have h4: "fst (fit failing_env sample_fit_args sample_predictor sample_world) = Inr ()" by code_simp
  have h5: "status (fit_job (fst (snd (fit failing_env sample_fit_args sample_predictor sample_world)))) = Failed"
    by code_simp
  show ?thesis
    using h1 h2 h3 h4 h5
      fit_rejected_iff_completed [of sample_env sample_fit_args fitted_predictor sample_world sample_fit_args]
      fit_rejected_iff_completed [of sample_env sample_fit_args sample_predictor sample_world sample_fit_args]
      fit_rejected_iff_completed [of failing_env sample_fit_args sample_predictor sample_world sample_fit_args]
    by simp
qed

section \<open>fit: what is uploaded, and when\<close>

lemma uploaded_simps [simp]:
  "uploaded [] = []" "uploaded (xs @ ys) = uploaded xs @ uploaded ys"
  "uploaded (Upload path b k # xs) = path # uploaded xs"
  "uploaded (Log n m # xs) = uploaded xs"
  "uploaded (Convert t d q f # xs) = uploaded xs"
  "uploaded (CreateBucket bn r # xs) = uploaded xs"
  "uploaded (WriteConfig q c # xs) = uploaded xs"
  "uploaded (SubmitTraining rq # xs) = uploaded xs"
  by (simp_all add: uploaded_def)

lemma submitted_simps [simp]:
  "submitted [] = []" "submitted (xs @ ys) = submitted xs @ submitted ys"
  "submitted (Upload path b k # xs) = submitted xs"
  "submitted (Log n m # xs) = submitted xs"
  "submitted (Convert t d q f # xs) = submitted xs"
  "submitted (CreateBucket bn r # xs) = submitted xs"
  "submitted (WriteConfig q c # xs) = submitted xs"
  "submitted (SubmitTraining rq # xs) = rq # submitted xs"
  by (simp_all add: submitted_def)

lemma bind_Inr:
  "bind m f = (Inr y, w') \<longleftrightarrow> (\<exists>x w1. m = (Inr x, w1) \<and> f x w1 = (Inr y, w'))"
  by (cases m) (auto simp: bind_def split: sum.splits)

lemma setup_bucket_ok:
  "setup_bucket E b p w = (Inr u, w') \<Longrightarrow>
     \<exists>d. events w' = events w @ d \<and> uploaded d = [] \<and> submitted d = []"
  by (auto simp: setup_bucket_def emit_def split: if_splits option.splits)

lemma construct_config_ok:
  "construct_config E ia fa lb p w = (Inr path, w') \<Longrightarrow>
     path = os_path_join (os_path_join (local_output_path p) ''utils'') ''config.yaml''
     \<and> (\<exists>d. events w' = events w @ d \<and> uploaded d = [] \<and> submitted d = [])"
  by (auto simp: construct_config_def emit_def Let_def split: option.splits)

lemma stage_ok:
  "bind (prepare_data E d name ''csv'' p w)
     (\<lambda>path w1. bind (session_upload_data E p path (Bucket b) k (log 20 m1 w1))
        (\<lambda>uri w2. (Inr (g uri), log 20 m2 w2))) = (Inr r, w') \<Longrightarrow> is_local E d \<Longrightarrow>
   \<exists>dl. events w' = events w @ dl \<and> uploaded dl = staged_file E p d name \<and> submitted dl = []
        \<and> length (staged_file E p d name) = 1"
  by (auto simp: bind_Inr prepare_data_def session_upload_data_def staged_file_def emit_def log_def Let_def
           split: sum.splits option.splits if_splits)

lemma upload_fit_artifact_ok:
  assumes "upload_fit_artifact E train tune config p w = (Inr r, w')"
  shows "\<exists>d b k. events w' = events w @ d @ [Upload config (Bucket b) k] \<and> submitted d = []
           \<and> uploaded d = staged_file E p train ''train''
                @ (case tune of None \<Rightarrow> [] | Some td \<Rightarrow> staged_file E p td ''tune'')
           \<and> (is_local E train \<longrightarrow> length (staged_file E p train ''train'') = 1)
           \<and> (\<forall>td. tune = Some td \<and> is_local E td \<longrightarrow> length (staged_file E p td ''tune'') = 1)"
proof -
  from assms obtain cb ck where
    s3: "s3_path_to_bucket_prefix E (Some (cloud_output_path p)) = Inr (cb, ck)"
    by (auto simp: upload_fit_artifact_def split: sum.splits)
  from assms s3 obtain ti w3 tu w6 ci where
    t: "(if is_local E train
         then bind (prepare_data E train ''train'' ''csv'' p w)
                (\<lambda>path w1. bind (session_upload_data E p path (Bucket cb) (ck @ ''/utils'')
                      (log 20 ''Uploading train data...'' w1))
                   (\<lambda>uri w2. (Inr uri, log 20 ''Train data uploaded successfully'' w2)))
         else (Inr (case train of Str s \<Rightarrow> s | DataFrame f \<Rightarrow> []), w)) = (Inr ti, w3)"
    and u: "(case tune of None \<Rightarrow> (Inr None, w3)
            | Some td \<Rightarrow>
               if is_local E td
               then bind (prepare_data E td ''tune'' ''csv'' p w3)
                      (\<lambda>path w4. bind (session_upload_data E p path (Bucket cb) (ck @ ''/utils'')
                            (log 20 ''Uploading tune data...'' w4))
                         (\<lambda>uri w5. (Inr (Some uri), log 20 ''Tune data uploaded successfully'' w5)))
               else (Inr (case td of Str s \<Rightarrow> Some s | DataFrame f \<Rightarrow> None), w3)) = (Inr tu, w6)"
    and c: "session_upload_data E p config (Bucket cb) (ck @ ''/utils'') w6 = (Inr ci, w')"
    by (simp add: upload_fit_artifact_def Let_def bind_Inr) blast
  have t': "\<exists>d. events w3 = events w @ d \<and> uploaded d = staged_file E p train ''train'' \<and> submitted d = []
              \<and> (is_local E train \<longrightarrow> length (staged_file E p train ''train'') = 1)"
  proof (cases "is_local E train")
    case True
    with t stage_ok [of E train "''train''" p w cb "ck @ ''/utils''" _ "\<lambda>x. x" _ ti w3]
    show ?thesis by auto
  next
    case False
    with t show ?thesis by (auto simp: staged_file_def)
  qed
  have u': "\<exists>d. events w6 = events w3 @ d
              \<and> uploaded d = (case tune of None \<Rightarrow> [] | Some td \<Rightarrow> staged_file E p td ''tune'')
              \<and> submitted d = []
              \<and> (\<forall>td. tune = Some td \<and> is_local E td \<longrightarrow> length (staged_file E p td ''tune'') = 1)"
  proof (cases tune)
    case None
    with u show ?thesis by auto
  next
    case (Some td)
    show ?thesis
    proof (cases "is_local E td")
      case True
      with u Some stage_ok [of E td "''tune''" p w3 cb "ck @ ''/utils''" _ Some _ tu w6]
      show ?thesis by auto
    next
      case False
      with u Some show ?thesis by (auto simp: staged_file_def)
    qed
  qed
  from c have c': "events w' = events w6 @ [Upload config (Bucket cb) (ck @ ''/utils'')]"
    by (auto simp: session_upload_data_def emit_def split: option.splits sum.splits)
  from t' u' c' show ?thesis by auto
qed

lemma default_name_events: "events (snd (default_name E base n w)) = events w"
  by (simp add: default_name_def unique_name_def split: option.splits)

lemma fit_entry_point_events:
  "\<exists>d. events (snd (snd (fit_entry_point E kw w))) = events w @ d \<and> uploaded d = [] \<and> submitted d = []"
  by (auto simp: fit_entry_point_def Let_def log_def emit_def split: prod.splits option.splits)

lemma wrap_Inr:
  "(case m of (Inl e, w') \<Rightarrow> (Inl e, p, w') | (Inr x, w') \<Rightarrow> (Inr u0, g x, w')) = (Inr u, p1, w1)
     \<longleftrightarrow> (\<exists>x. m = (Inr x, w1) \<and> p1 = g x \<and> u = u0)"
  by (cases m) (auto split: sum.splits)

lemma case_sum_Inr:
  "(case r of Inl e \<Rightarrow> (Inl (h e), w0) | Inr j \<Rightarrow> (Inr (g j), w1)) = (Inr x, w')
     \<longleftrightarrow> (\<exists>j. r = Inr j \<and> x = g j \<and> w' = w1)"
  by (cases r) auto

lemma guard_Inr:
  "(if c then (Inl e, w0) else m) = (Inr x, w') \<longleftrightarrow> \<not> c \<and> m = (Inr x, w')"
  by simp

lemma fit_ok:
  assumes "fit E a p w = (Inr u, p', w')"
  shows "\<exists>train pre b k request.
           fa_train_data a = Some train
         \<and> events w' = events w @ pre
              @ [Upload (os_path_join (os_path_join (local_output_path p) ''utils'') ''config.yaml'') (Bucket b) k,
                 SubmitTraining request]
         \<and> submitted pre = []
         \<and> uploaded pre = staged_file E p train ''train''
              @ (case fa_tuning_data a of None \<Rightarrow> [] | Some td \<Rightarrow> staged_file E p td ''tune'')
         \<and> (is_local E train \<longrightarrow> length (staged_file E p train ''train'') = 1)
         \<and> (\<forall>td. fa_tuning_data a = Some td \<and> is_local E td \<longrightarrow> length (staged_file E p td ''tune'') = 1)"
proof -
  from assms have nc: "\<not> completed (fit_job p)"
    by (auto simp: fit_def split: if_splits)
  from assms nc have "\<exists>train jn w1 cb ep kw w2 u3 w3 config w4 r w5.
      fa_train_data a = Some train
    \<and> default_name E ''ag-CloudPredictor'' (fa_job_name a) w = (jn, w1)
    \<and> fit_entry_point E (snd (dict_pop ''output_path'' (fa_estimator_kwargs a))) w1 = (ep, kw, w2)
    \<and> setup_bucket E cb p w2 = (Inr u3, w3)
    \<and> construct_config E (fa_predictor_init_args a) (fa_predictor_fit_args a) (fa_leaderboard a) p w3
               = (Inr config, w4)
    \<and> upload_fit_artifact E train (fa_tuning_data a) config p w4 = (Inr r, w5)
    \<and> (\<exists>request. w' = emit (SubmitTraining request) w5)"
    apply (simp only: fit_def if_False wrap_Inr)
    apply (auto simp: Let_def bind_Inr case_sum_Inr guard_Inr split: option.splits sum.splits prod.splits)
     apply blast+
    done
  then obtain train jn w1 cb ep kw w2 u3 w3 config w4 r w5 request where
    tr: "fa_train_data a = Some train"
    and dn: "default_name E ''ag-CloudPredictor'' (fa_job_name a) w = (jn, w1)"
    and fe: "fit_entry_point E (snd (dict_pop ''output_path'' (fa_estimator_kwargs a))) w1 = (ep, kw, w2)"
    and sb: "setup_bucket E cb p w2 = (Inr u3, w3)"
    and cc: "construct_config E (fa_predictor_init_args a) (fa_predictor_fit_args a) (fa_leaderboard a) p w3
               = (Inr config, w4)"
    and ua: "upload_fit_artifact E train (fa_tuning_data a) config p w4 = (Inr r, w5)"
    and fin: "w' = emit (SubmitTraining request) w5"
    by blast
  from dn have e1: "events w1 = events w"
    using default_name_events [of E "''ag-CloudPredictor''" "fa_job_name a" w] by simp
  from fe obtain d0 where e2: "events w2 = events w1 @ d0" "uploaded d0 = []" "submitted d0 = []"
    using fit_entry_point_events [of E "snd (dict_pop ''output_path'' (fa_estimator_kwargs a))" w1] by auto
  from setup_bucket_ok [OF sb] obtain d1 where
    e3: "events w3 = events w2 @ d1" "uploaded d1 = []" "submitted d1 = []" by auto
  from construct_config_ok [OF cc] obtain d2 where
    cp: "config = os_path_join (os_path_join (local_output_path p) ''utils'') ''config.yaml''"
    and e4: "events w4 = events w3 @ d2" "uploaded d2 = []" "submitted d2 = []" by auto
  from upload_fit_artifact_ok [OF ua] obtain d3 b k where
    e5: "events w5 = events w4 @ d3 @ [Upload config (Bucket b) k]" "submitted d3 = []"
      "uploaded d3 = staged_file E p train ''train''
          @ (case fa_tuning_data a of None \<Rightarrow> [] | Some td \<Rightarrow> staged_file E p td ''tune'')"
      "is_local E train \<longrightarrow> length (staged_file E p train ''train'') = 1"
      "\<forall>td. fa_tuning_data a = Some td \<and> is_local E td \<longrightarrow> length (staged_file E p td ''tune'') = 1"
    by blast
  have "events w' = events w @ (d0 @ d1 @ d2 @ d3) @ [Upload config (Bucket b) k, SubmitTraining request]"
    using fin e1 e2 e3 e4 e5 by (simp add: emit_def)
  moreover have "submitted (d0 @ d1 @ d2 @ d3) = []" using e2 e3 e4 e5 by simp
  moreover have "uploaded (d0 @ d1 @ d2 @ d3) = staged_file E p train ''train''
          @ (case fa_tuning_data a of None \<Rightarrow> [] | Some td \<Rightarrow> staged_file E p td ''tune'')"
    using e2 e3 e4 e5 by simp
  ultimately show ?thesis using tr cp e5(4,5) by blast
qed

text \<open>Claim C8. A \<^verbatim>\<open>fit\<close> that returns, given a data frame as train data and no tuning
  data or a data frame as tuning data, uploads exactly one file for the train data, one
  for the tuning data if there is any, and then the configuration document
  \<^verbatim>\<open>utils/config.yaml\<close>; the upload of the configuration is the last event before the
  one submission of the training job, which ends the trace of the call.\<close>

theorem fit_uploads_one_artifact_per_dataset:
  assumes "fit E a p w = (Inr u, p', w')"
    and "fa_train_data a = Some (DataFrame f)"
    and "fa_tuning_data a = None \<or> fa_tuning_data a = Some (DataFrame g)"
  shows "\<exists>pre b k request train_file.
           events w' = events w @ pre
              @ [Upload (os_path_join (os_path_join (local_output_path p) ''utils'') ''config.yaml'') (Bucket b) k,
                 SubmitTraining request]
         \<and> submitted pre = []
         \<and> staged_file E p (DataFrame f) ''train'' = [train_file]
         \<and> uploaded pre =
             train_file # (if fa_tuning_data a = None then [] else staged_file E p (DataFrame g) ''tune'')
         \<and> length (uploaded pre) = (if fa_tuning_data a = None then 1 else 2)"
proof -
  from fit_ok [OF assms(1)] assms(2) obtain pre b k request where
    ev: "events w' = events w @ pre
              @ [Upload (os_path_join (os_path_join (local_output_path p) ''utils'') ''config.yaml'') (Bucket b) k,
                 SubmitTraining request]"
    and sub: "submitted pre = []"
    and up: "uploaded pre = staged_file E p (DataFrame f) ''train''
              @ (case fa_tuning_data a of None \<Rightarrow> [] | Some td \<Rightarrow> staged_file E p td ''tune'')"
    and l1: "is_local E (DataFrame f) \<longrightarrow> length (staged_file E p (DataFrame f) ''train'') = 1"
    and l2: "\<forall>td. fa_tuning_data a = Some td \<and> is_local E td \<longrightarrow> length (staged_file E p td ''tune'') = 1"
    by auto
  from l1 obtain train_file where tf: "staged_file E p (DataFrame f) ''train'' = [train_file]"
    by (auto simp: is_local_def length_Suc_conv)
  from l2 assms(3) have tl: "fa_tuning_data a \<noteq> None \<longrightarrow> length (staged_file E p (DataFrame g) ''tune'') = 1"
    by (auto simp: is_local_def)
  from up tf assms(3) have up': "uploaded pre =
      train_file # (if fa_tuning_data a = None then [] else staged_file E p (DataFrame g) ''tune'')"
    by auto
  from up' tl have "length (uploaded pre) = (if fa_tuning_data a = None then 1 else 2)" by auto
  with ev sub tf up' show ?thesis by blast
qed

theorem fit_uploads_one_artifact_per_dataset_witness:
  "fit sample_env sample_fit_args sample_predictor sample_world =
     (Inr (), fitted_predictor, snd (snd (fit sample_env sample_fit_args sample_predictor sample_world)))
   \<and> fa_train_data sample_fit_args = Some (DataFrame sample_frame)
   \<and> fa_tuning_data sample_fit_args = None
   \<and> uploaded (drop (length (events sample_world))
         (events (snd (snd (fit sample_env sample_fit_args sample_predictor sample_world)))))
       = [''/out/utils/train.csv'', ''/out/utils/config.yaml'']
   \<and> (\<exists>pre b k request train_file.
           events (snd (snd (fit sample_env sample_fit_args sample_predictor sample_world))) =
             events sample_world @ pre
              @ [Upload (os_path_join (os_path_join (local_output_path sample_predictor) ''utils'') ''config.yaml'')
                   (Bucket b) k,
                 SubmitTraining request]
         \<and> submitted pre = []
         \<and> staged_file sample_env sample_predictor (DataFrame sample_frame) ''train'' = [train_file]
         \<and> uploaded pre =
             train_file # (if fa_tuning_data sample_fit_args = None then []
                           else staged_file sample_env sample_predictor (DataFrame sample_frame) ''tune'')
         \<and> length (uploaded pre) = (if fa_tuning_data sample_fit_args = None then 1 else 2))"
proof -
  have h1: "fit sample_env sample_fit_args sample_predictor sample_world =
     (Inr (), fitted_predictor, snd (snd (fit sample_env sample_fit_args sample_predictor sample_world)))"
    by code_simp
  have h2: "fa_train_data sample_fit_args = Some (DataFrame sample_frame)" by code_simp
  have h3: "fa_tuning_data sample_fit_args = None \<or> fa_tuning_data sample_fit_args = Some (DataFrame sample_frame)"
    by code_simp
  have h4: "fa_tuning_data sample_fit_args = None" by code_simp
  have c: "uploaded (drop (length (events sample_world))
         (events (snd (snd (fit sample_env sample_fit_args sample_predictor sample_world)))))
       = [''/out/utils/train.csv'', ''/out/utils/config.yaml'']"
    by code_simp
  show ?thesis
    using h1 h2 h4 c fit_uploads_one_artifact_per_dataset [OF h1 h2 h3]
    by blast
qed

section \<open>Downloading the trained predictor without a completed fit\<close>

lemma download_predictor_error:
  "fst (download_predictor E path sp w) \<noteq> Inl (AssertionError m)"
  by (auto simp: download_predictor_def Let_def split: sum.splits option.splits prod.splits)

lemma download_predictor_helper_error:
  "s3_path_to_bucket_prefix E path = Inl e \<Longrightarrow> fst (download_predictor E path sp w) = Inl (External e)"
  by (simp add: download_predictor_def Let_def)

text \<open>Claim C4, as the code has it. When the fit job is not completed,
  \<^verbatim>\<open>download_trained_predictor\<close> makes no check of its own: \<^verbatim>\<open>get_output_path\<close> returns
  \<^verbatim>\<open>None\<close> and the call is \<^verbatim>\<open>_download_predictor(None, save_path)\<close>. It never raises the
  assertion ``No cloud trained model found.'' that \<^verbatim>\<open>deploy\<close> and \<^verbatim>\<open>predict\<close> raise in
  this state (nor any other assertion); what comes out is whatever
  \<^verbatim>\<open>s3_path_to_bucket_prefix(None)\<close> raises.\<close>

theorem download_trained_predictor_without_fit:
  "\<not> completed (fit_job p) \<Longrightarrow>
     download_trained_predictor E save_path p w =
       download_predictor E None
         (case save_path of None \<Rightarrow> local_output_path p
          | Some q \<Rightarrow> if q = [] then local_output_path p else q) w
     \<and> fst (download_trained_predictor E save_path p w) \<noteq> Inl (AssertionError m)
     \<and> (case s3_path_to_bucket_prefix E None of
          Inl e \<Rightarrow> fst (download_trained_predictor E save_path p w) = Inl (External e)
        | Inr bk \<Rightarrow> True)"
proof -
  assume nc: "\<not> completed (fit_job p)"
  then have eq: "download_trained_predictor E save_path p w =
       download_predictor E None
         (case save_path of None \<Rightarrow> local_output_path p
          | Some q \<Rightarrow> if q = [] then local_output_path p else q) w"
    by (simp add: download_trained_predictor_def get_output_path_def Let_def)
  show ?thesis
    using eq download_predictor_error [of E None _ w m]
      download_predictor_helper_error [of E None _ _ w]
    by (simp split: sum.splits)
qed

theorem download_trained_predictor_without_fit_witness:
  "\<not> completed (fit_job sample_predictor)
   \<and> download_trained_predictor sample_env None sample_predictor sample_world =
       download_predictor sample_env None ''/out'' sample_world
   \<and> fst (download_trained_predictor sample_env None sample_predictor sample_world) =
       Inl (External ''AttributeError: NoneType object has no attribute split'')
   \<and> fst (download_trained_predictor sample_env None sample_predictor sample_world) \<noteq>
       Inl (AssertionError ''No cloud trained model found.'')"
proof -
  have h: "\<not> completed (fit_job sample_predictor)" by code_simp
  have e: "s3_path_to_bucket_prefix sample_env None =
             Inl ''AttributeError: NoneType object has no attribute split''"
    by (simp add: sample_env_def)
  have l: "local_output_path sample_predictor = ''/out''" by (simp add: sample_predictor_def)
  show ?thesis
    using h download_trained_predictor_without_fit
              [OF h, of sample_env None sample_world "''No cloud trained model found.''"]
    by (auto simp: e l)
qed

section \<open>save and load\<close>

text \<open>Claim C9. A \<^verbatim>\<open>save\<close> that returns leaves the instance as it was, but for
  \<^verbatim>\<open>_endpoint_saved\<close>, which is \<^verbatim>\<open>None\<close> afterwards when an endpoint was attached and
  untouched otherwise: the session, the region and the endpoint are the ones from before
  the call. They are \<^verbatim>\<open>None\<close> only in the snapshot it pickled, which holds the name of
  the endpoint in \<^verbatim>\<open>_endpoint_saved\<close>.\<close>

theorem save_leaves_instance_unchanged:
  "fst (save E silent p w) = Inr u \<Longrightarrow>
     fst (snd (save E silent p w)) =
       p\<lparr>endpoint_saved := (case endpoint p of Some ep \<Rightarrow> Present None | None \<Rightarrow> endpoint_saved p)\<rparr>
     \<and> sagemaker_session (fst (snd (save E silent p w))) = sagemaker_session p
     \<and> region (fst (snd (save E silent p w))) = region p
     \<and> endpoint (fst (snd (save E silent p w))) = endpoint p
     \<and> (case map_of (pickles (snd (snd (save E silent p w))))
                (os_path_join (local_output_path p) (predictor_file_name (cls p))) of
          None \<Rightarrow> False
        | Some q \<Rightarrow>
            sagemaker_session q = None \<and> region q = None \<and> endpoint q = None
            \<and> endpoint_saved q =
                (case endpoint p of Some ep \<Rightarrow> Present (Some (rp_endpoint_name ep))
                 | None \<Rightarrow> endpoint_saved p))"
  by (auto simp: save_def save_pkl_save_def Let_def endpoint_name_def emit_def log_def snapshot_def
           split: option.splits prod.splits sum.splits if_splits)

theorem save_leaves_instance_unchanged_witness:
  "fst (save sample_env False deployed_predictor sample_world) = Inr ()
   \<and> fst (snd (save sample_env False deployed_predictor sample_world)) =
        deployed_predictor\<lparr>endpoint_saved := Present None\<rparr>
   \<and> endpoint (fst (snd (save sample_env False deployed_predictor sample_world))) =
        Some \<lparr>rp_endpoint_name = ''endpoint-1'', rp_session = None\<rparr>"
proof -
  have h: "fst (save sample_env False deployed_predictor sample_world) = Inr ()" by code_simp
  have e: "endpoint deployed_predictor = Some \<lparr>rp_endpoint_name = ''endpoint-1'', rp_session = None\<rparr>"
    by code_simp
  show ?thesis
    using h save_leaves_instance_unchanged [OF h] by (simp add: e)
qed

lemma save_ok_pickled:
  "fst (save E silent p w) = Inr () \<Longrightarrow>
     \<exists>q. map_of (pickles (snd (snd (save E silent p w))))
            (os_path_join (local_output_path p) (predictor_file_name (cls p))) = Some q
        \<and> batch_transform_jobs q =
            map (\<lambda>(n, j). (n, j\<lparr>job_session := None\<rparr>)) (batch_transform_jobs p)
        \<and> sagemaker_session q = None \<and> region q = None \<and> endpoint q = None
        \<and> endpoint_saved q =
            (case endpoint p of Some ep \<Rightarrow> Present (Some (rp_endpoint_name ep))
             | None \<Rightarrow> endpoint_saved p)"
  by (auto simp: save_def save_pkl_save_def Let_def endpoint_name_def emit_def log_def snapshot_def
           split: option.splits prod.splits sum.splits if_splits)

lemma load_raises:
  assumes "map_of (pickles w) (os_path_join (setup_outputdir E path) (predictor_file_name c)) = Some q"
    and "batch_transform_jobs q \<noteq> []"
  shows "fst (load E c (Some path) verb w) = Inl (AttributeError ''session'')"
proof -
  from assms(2) obtain x xs where "batch_transform_jobs q = x # xs"
    by (cases "batch_transform_jobs q") auto
  with assms(1) show ?thesis
    by (simp add: load_def load_pkl_load_def new_session_def load_jobs_def Let_def)
qed

text \<open>With an empty registry, an endpoint name that is not empty and \<^verbatim>\<open>_endpoint_saved\<close>
  unset (as \<^verbatim>\<open>__init__\<close> and every \<^verbatim>\<open>save\<close> and \<^verbatim>\<open>load\<close> that return leave it), \<^verbatim>\<open>load\<close>
  of what \<^verbatim>\<open>save\<close> wrote returns a predictor with a fresh session, its region, the fit job
  bound to that session, and the endpoint of the saved name re-attached (no endpoint
  when none was attached).\<close>

lemma load_after_save_roundtrip:
  assumes ne: "batch_transform_jobs p = []" and ok: "fst (save E silent p w) = Inr ()"
    and path: "os_path_join (setup_outputdir E path) (predictor_file_name (cls p)) =
               os_path_join (local_output_path p) (predictor_file_name (cls p))"
    and inv: "endpoint_saved p = Absent \<or> endpoint_saved p = Present None"
    and name: "\<forall>ep. endpoint p = Some ep \<longrightarrow> rp_endpoint_name ep \<noteq> []"
  shows "\<exists>q. fst (load E (cls p) (Some path) verb (snd (snd (save E silent p w)))) = Inr q
           \<and> sagemaker_session q \<noteq> None
           \<and> (\<forall>s. sagemaker_session q = Some s \<longrightarrow>
                  session_id s = next_session_id (snd (snd (save E silent p w)))
                \<and> region q = Some (boto_region_name s)
                \<and> job_session (fit_job q) = Some s
                \<and> endpoint q =
                    (case endpoint p of None \<Rightarrow> None
                     | Some ep \<Rightarrow> Some \<lparr>rp_endpoint_name = rp_endpoint_name ep, rp_session = Some s\<rparr>))"
proof -
  from save_ok_pickled [OF ok] obtain q0 where
    q: "map_of (pickles (snd (snd (save E silent p w))))
          (os_path_join (local_output_path p) (predictor_file_name (cls p))) = Some q0"
    and j: "batch_transform_jobs q0 =
              map (\<lambda>(n, j). (n, j\<lparr>job_session := None\<rparr>)) (batch_transform_jobs p)"
    and e: "endpoint q0 = None"
    and es: "endpoint_saved q0 =
            (case endpoint p of Some ep \<Rightarrow> Present (Some (rp_endpoint_name ep))
             | None \<Rightarrow> endpoint_saved p)"
    by blast
  from j ne have j': "batch_transform_jobs q0 = []" by simp
  show ?thesis
    using q j' e es path inv name
    by (auto simp: load_def load_pkl_load_def new_session_def load_jobs_def attach_endpoint_def Let_def
             split: option.splits)
qed

text \<open>Claim C3, as the code has it. When the registry of batch-transform jobs is not
  empty, \<^verbatim>\<open>load\<close> of what \<^verbatim>\<open>save\<close> wrote does not return a predictor: \<^verbatim>\<open>_load_jobs\<close>
  raises \<^verbatim>\<open>AttributeError\<close> when it assigns the fresh session to the first key of the
  registry. The path given to \<^verbatim>\<open>load\<close> is one whose pickle file is the one \<^verbatim>\<open>save\<close>
  wrote, whether \<^verbatim>\<open>setup_outputdir\<close> appends a separator to it or not.\<close>

theorem load_after_save_with_transform_jobs:
  "batch_transform_jobs p \<noteq> [] \<Longrightarrow> fst (save E silent p w) = Inr () \<Longrightarrow>
   os_path_join (setup_outputdir E path) (predictor_file_name (cls p)) =
     os_path_join (local_output_path p) (predictor_file_name (cls p)) \<Longrightarrow>
     fst (load E (cls p) (Some path) verb (snd (snd (save E silent p w)))) = Inl (AttributeError ''session'')"
proof -
  assume ne: "batch_transform_jobs p \<noteq> []" and ok: "fst (save E silent p w) = Inr ()"
    and path: "os_path_join (setup_outputdir E path) (predictor_file_name (cls p)) =
                 os_path_join (local_output_path p) (predictor_file_name (cls p))"
  from save_ok_pickled [OF ok] obtain q where
    q: "map_of (pickles (snd (snd (save E silent p w))))
          (os_path_join (local_output_path p) (predictor_file_name (cls p))) = Some q"
    and j: "batch_transform_jobs q =
              map (\<lambda>(n, j). (n, j\<lparr>job_session := None\<rparr>)) (batch_transform_jobs p)"
    by blast
  from j ne have "batch_transform_jobs q \<noteq> []" by simp
  with q path show ?thesis by (simp add: load_raises)
qed

theorem load_after_save_with_transform_jobs_witness:
  "batch_transform_jobs predicted_predictor \<noteq> []
   \<and> fst (save sample_env False predicted_predictor sample_world) = Inr ()
   \<and> setup_outputdir sample_env ''/out'' = local_output_path predicted_predictor
   \<and> fst (load sample_env TabularCloudPredictor (Some ''/out'') None
            (snd (snd (save sample_env False predicted_predictor sample_world))))
       = Inl (AttributeError ''session'')
   \<and> fst (save (sample_env\<lparr>setup_outputdir := (\<lambda>s. s @ ''/'')\<rparr>) False predicted_predictor sample_world) = Inr ()
   \<and> setup_outputdir (sample_env\<lparr>setup_outputdir := (\<lambda>s. s @ ''/'')\<rparr>) ''/out'' = ''/out/''
   \<and> os_path_join ''/out/'' (predictor_file_name (cls predicted_predictor)) =
       os_path_join (local_output_path predicted_predictor) (predictor_file_name (cls predicted_predictor))
   \<and> fst (load (sample_env\<lparr>setup_outputdir := (\<lambda>s. s @ ''/'')\<rparr>) TabularCloudPredictor (Some ''/out'') None
            (snd (snd (save (sample_env\<lparr>setup_outputdir := (\<lambda>s. s @ ''/'')\<rparr>) False
                         predicted_predictor sample_world))))
       = Inl (AttributeError ''session'')"
proof -
  have h1: "batch_transform_jobs predicted_predictor \<noteq> []" by code_simp
  have c: "cls predicted_predictor = TabularCloudPredictor" by code_simp
  have h2: "fst (save sample_env False predicted_predictor sample_world) = Inr ()" by code_simp
  have g3: "setup_outputdir sample_env ''/out'' = local_output_path predicted_predictor" by code_simp
  have h3: "os_path_join (setup_outputdir sample_env ''/out'') (predictor_file_name (cls predicted_predictor)) =
            os_path_join (local_output_path predicted_predictor) (predictor_file_name (cls predicted_predictor))"
    by code_simp
  have r: "fst (load sample_env TabularCloudPredictor (Some ''/out'') None
            (snd (snd (save sample_env False predicted_predictor sample_world))))
       = Inl (AttributeError ''session'')"
    using load_after_save_with_transform_jobs [OF h1 h2 h3, of None]
    by (simp only: c)
  have h2': "fst (save (sample_env\<lparr>setup_outputdir := (\<lambda>s. s @ ''/'')\<rparr>) False predicted_predictor sample_world)
              = Inr ()"
    by code_simp
  have h3': "os_path_join (setup_outputdir (sample_env\<lparr>setup_outputdir := (\<lambda>s. s @ ''/'')\<rparr>) ''/out'')
              (predictor_file_name (cls predicted_predictor)) =
            os_path_join (local_output_path predicted_predictor) (predictor_file_name (cls predicted_predictor))"
    by code_simp
  have g3': "setup_outputdir (sample_env\<lparr>setup_outputdir := (\<lambda>s. s @ ''/'')\<rparr>) ''/out'' = ''/out/''"
    "os_path_join ''/out/'' (predictor_file_name (cls predicted_predictor)) =
       os_path_join (local_output_path predicted_predictor) (predictor_file_name (cls predicted_predictor))"
    by code_simp+
  have r': "fst (load (sample_env\<lparr>setup_outputdir := (\<lambda>s. s @ ''/'')\<rparr>) TabularCloudPredictor (Some ''/out'') None
            (snd (snd (save (sample_env\<lparr>setup_outputdir := (\<lambda>s. s @ ''/'')\<rparr>) False
                         predicted_predictor sample_world))))
       = Inl (AttributeError ''session'')"
    using load_after_save_with_transform_jobs [OF h1 h2' h3', of None]
    by (simp only: c)
  show ?thesis
    by (intro conjI h1 h2 g3 r h2' g3' r')
qed

section \<open>The registry of batch-transform jobs\<close>

text \<open>The names of a registry are distinct: the registry of a new instance is empty,
  \<open>registry_put\<close> keeps the names distinct, \<^verbatim>\<open>predict\<close> is the only method that writes
  to the registry, the other methods leave it as it is, and the pickle \<^verbatim>\<open>save\<close> writes
  keeps its names. In such a registry the last entry is the one \<open>registry_last\<close> names
  and \<open>registry_get\<close> finds under that name.\<close>

lemma registry_ok_empty: "registry_ok []"
  by (simp add: registry_ok_def)

lemma registry_ok_put: "registry_ok r \<Longrightarrow> registry_ok (registry_put n j r)"
  by (auto simp: registry_ok_def registry_put_def distinct_map_filter)

lemma registry_last_put: "registry_last (registry_put n j r) = Some n"
  by (simp add: registry_last_def registry_put_def)

lemma map_of_filter_other: "map_of (filter (\<lambda>kv. fst kv \<noteq> n) r) n = None"
  by (induction r) auto

lemma registry_get_put: "registry_get (registry_put n j r) (Some n) = Some j"
  by (simp add: registry_get_def registry_put_def map_of_filter_other map_add_def)

lemma last_registry_put: "last (registry_put n j r) = (n, j)" "registry_put n j r \<noteq> []"
  by (simp_all add: registry_put_def)

lemma registry_ok_last:
  assumes "registry_ok r" "r \<noteq> []" "last r = (n, job)"
  shows "registry_last r = Some n \<and> registry_get r (Some n) = Some job"
proof -
  from assms(2,3) obtain xs where r: "r = xs @ [(n, job)]"
    by (metis append_butlast_last_id)
  with assms(1) have "n \<notin> fst ` set xs"
    by (auto simp: registry_ok_def)
  then have "map_of xs n = None"
    by (simp add: map_of_eq_None_iff)
  then show ?thesis
    unfolding r by (simp add: registry_last_def registry_get_def map_add_def)
qed

lemma wrap_pred:
  "P p \<Longrightarrow> (\<And>x. P (g x)) \<Longrightarrow>
     P (fst (snd (case m of (Inl e, w') \<Rightarrow> (Inl e, p, w') | (Inr x, w') \<Rightarrow> (Inr u0, g x, w'))))"
  by (cases m) (auto split: sum.splits)

lemma wrap_pair_pred:
  "P p \<Longrightarrow> (\<And>n j. P (g n j)) \<Longrightarrow>
     P (fst (snd (case m of (Inl e, w') \<Rightarrow> (Inl e, p, w') | (Inr (n, j), w') \<Rightarrow> (Inr u0, g n j, w'))))"
  by (cases m) (auto split: sum.splits)

lemma init_registry_ok:
  "init E c role local_path cloud_path verb w = (Inr p, w') \<Longrightarrow> batch_transform_jobs p = []"
  by (auto simp: init_def setup_predictor_type_def Let_def
           split: sum.splits prod.splits predictor_cls.splits if_splits)

lemma predict_registry_ok:
  "registry_ok (batch_transform_jobs p) \<Longrightarrow>
     registry_ok (batch_transform_jobs (fst (snd (predict E a p w))))"
  unfolding predict_def
  by (rule wrap_pair_pred [where P = "\<lambda>q. registry_ok (batch_transform_jobs q)"])
     (simp_all add: registry_ok_put)

lemma fit_registry:
  "batch_transform_jobs (fst (snd (fit E a p w))) = batch_transform_jobs p"
proof (cases "completed (fit_job p)")
  case True
  then show ?thesis by (simp add: fit_def)
next
  case False
  show ?thesis
    unfolding fit_def
    apply (simp only: False if_False)
    apply (rule wrap_pred [where P = "\<lambda>q. batch_transform_jobs q = batch_transform_jobs p"])
     apply simp_all
    done
qed

lemma deploy_registry:
  "batch_transform_jobs (fst (snd (deploy E a p w))) = batch_transform_jobs p"
proof (cases "endpoint p \<noteq> None")
  case True
  then show ?thesis by (simp add: deploy_def)
next
  case False
  show ?thesis
    unfolding deploy_def
    apply (simp only: False if_False)
    apply (rule wrap_pred [where P = "\<lambda>q. batch_transform_jobs q = batch_transform_jobs p"])
     apply simp_all
    done
qed

lemma endpoint_registry:
  "batch_transform_jobs (snd (attach_endpoint ep p)) = batch_transform_jobs p"
  "batch_transform_jobs (snd (detach_endpoint p)) = batch_transform_jobs p"
  "batch_transform_jobs (fst (snd (delete_endpoint E c p w))) = batch_transform_jobs p"
  "batch_transform_jobs (fst (snd (delete_endpoint_model E p w))) = batch_transform_jobs p"
  "batch_transform_jobs (fst (snd (attach_job E name p w))) = batch_transform_jobs p"
  by (auto simp: attach_endpoint_def detach_endpoint_def delete_endpoint_def delete_endpoint_model_def
                 attach_job_def Let_def
           split: option.splits endpoint_arg.splits sum.splits prod.splits)

lemma save_registry:
  "batch_transform_jobs (fst (snd (save E silent p w))) = batch_transform_jobs p"
  by (auto simp: save_def Let_def split: option.splits sum.splits prod.splits)

lemma snapshot_registry_ok:
  "registry_ok (batch_transform_jobs (snapshot p)) = registry_ok (batch_transform_jobs p)"
proof -
  have "fst \<circ> (\<lambda>(n, j). (n, j\<lparr>job_session := None\<rparr>)) = (fst :: string \<times> job_handle \<Rightarrow> string)"
    by (auto simp: fun_eq_iff)
  then show ?thesis
    by (simp add: snapshot_def registry_ok_def)
qed

section \<open>What a predict that returns has registered\<close>

lemma wrap_pair_Inr:
  "(case m of (Inl e, w') \<Rightarrow> (Inl e, p, w') | (Inr (n, j), w') \<Rightarrow> (Inr u0, g n j, w')) = (Inr u, p1, w1)
     \<longleftrightarrow> (\<exists>n j. m = (Inr (n, j), w1) \<and> p1 = g n j \<and> u = u0)"
  by (cases m) (auto split: sum.splits)

lemma upload_predictor_clock:
  "upload_predictor E pp k p w = (Inr x, w') \<Longrightarrow> clock w' = clock w"
  by (auto simp: upload_predictor_def session_upload_data_def emit_def
           split: sum.splits option.splits if_splits prod.splits)

lemma timestamp_clock: "timestamp E w = (t, w1) \<Longrightarrow> clock w1 = Suc (clock w)"
  by (auto simp: timestamp_def)

lemma default_name_fst:
  "fst (default_name E base n w) =
     (case n of None \<Rightarrow> unique_name_from_base E base (clock w)
      | Some m \<Rightarrow> if m = [] then unique_name_from_base E base (clock w) else m)"
  by (simp add: default_name_def unique_name_def split: option.splits)

lemma case_sum_then:
  "(case r of Inl e \<Rightarrow> (Inl (h e), w0) | Inr x \<Rightarrow> f x) = (Inr y, w')
     \<longleftrightarrow> (\<exists>x. r = Inr x \<and> f x = (Inr y, w'))"
  by (cases r) auto

lemma case_option_then:
  "(case r of None \<Rightarrow> (Inl e, w0) | Some x \<Rightarrow> f x) = (Inr y, w')
     \<longleftrightarrow> (\<exists>x. r = Some x \<and> f x = (Inr y, w'))"
  by (cases r) auto

lemma case_prod_then:
  "(case pr of (a, b) \<Rightarrow> f a b) = (Inr y, w') \<longleftrightarrow> (\<exists>a b. pr = (a, b) \<and> f a b = (Inr y, w'))"
  by (cases pr) auto

lemma predict_steps:
  assumes "predict E a p w = (Inr u, p', w')"
  shows "\<exists>t w1 pp0 k0 pp1 w2 nm w3 j w7 request.
           timestamp E w = (t, w1)
         \<and> upload_predictor E pp0 k0 p (log 20 ''Preparing autogluon predictor...'' w1) = (Inr pp1, w2)
         \<and> default_name E ''ag-CloudPredictor-batch-transform'' (pa_job_name a) w2 = (nm, w3)
         \<and> job_run (transform_job E request) nm (pa_wait a) (new_job (sagemaker_session p)) = Inr j
         \<and> tr_job_name request = nm
         \<and> w' = emit (SubmitTransform request) w7
         \<and> p' = p\<lparr>batch_transform_jobs := registry_put nm j (batch_transform_jobs p)\<rparr>"
  using assms
  apply (simp only: predict_def wrap_pair_Inr)
  apply (simp only: Let_def bind_Inr case_sum_then case_option_then case_prod_then guard_Inr
                    case_sum_Inr prod.inject sum.inject)
  apply (elim exE conjE)
  apply hypsubst
  apply (intro exI conjI; (assumption | simp))
  done

lemma predict_registers:
  assumes "predict E a p w = (Inr u, p', w')"
    and "nm = (case pa_job_name a of
                 None \<Rightarrow> unique_name_from_base E ''ag-CloudPredictor-batch-transform'' (Suc (clock w))
               | Some m \<Rightarrow> if m = []
                           then unique_name_from_base E ''ag-CloudPredictor-batch-transform'' (Suc (clock w))
                           else m)"
  shows "\<exists>j request.
           tr_job_name request = nm
         \<and> last (events w') = SubmitTransform request
         \<and> job_run (transform_job E request) nm (pa_wait a) (new_job (sagemaker_session p)) = Inr j
         \<and> p' = p\<lparr>batch_transform_jobs := registry_put nm j (batch_transform_jobs p)\<rparr>"
proof -
  from predict_steps [OF assms(1)] obtain t w1 pp0 k0 pp1 w2 nm' w3 j w7 request where
    s: "timestamp E w = (t, w1)"
       "upload_predictor E pp0 k0 p (log 20 ''Preparing autogluon predictor...'' w1) = (Inr pp1, w2)"
       "default_name E ''ag-CloudPredictor-batch-transform'' (pa_job_name a) w2 = (nm', w3)"
       "job_run (transform_job E request) nm' (pa_wait a) (new_job (sagemaker_session p)) = Inr j"
       "tr_job_name request = nm'"
       "w' = emit (SubmitTransform request) w7"
       "p' = p\<lparr>batch_transform_jobs := registry_put nm' j (batch_transform_jobs p)\<rparr>"
    by blast
  have "clock w2 = Suc (clock w)"
    using upload_predictor_clock [OF s(2)] timestamp_clock [OF s(1)] by (simp add: log_def emit_def)
  then have "nm' = nm"
    using default_name_fst [of E "''ag-CloudPredictor-batch-transform''" "pa_job_name a" w2] s(3) assms(2)
    by (simp split: option.splits)
  moreover have "last (events w') = SubmitTransform request"
    using s(6) by (simp add: emit_def)
  ultimately show ?thesis
    using s(4,5,7) by blast
qed

section \<open>Downloading the results of a batch-transform job\<close>

lemma split_last_no_slash: "CHR ''/'' \<notin> set (split_last s)"
  by (auto simp: split_last_def dest: set_takeWhileD)

lemma os_path_join_relative:
  "\<not> (x \<noteq> [] \<and> hd x = CHR ''/'') \<Longrightarrow>
     os_path_join d x = (if d = [] \<or> last d = CHR ''/'' then d else d @ ''/'') @ x"
  by (auto simp: os_path_join_def)

lemma os_path_join_neq:
  assumes "CHR ''/'' \<notin> set f" and "\<not> (r \<noteq> [] \<and> hd r = CHR ''/'')" and "r \<noteq> f"
  shows "os_path_join d r \<noteq> os_path_join d f"
proof -
  have f: "\<not> (f \<noteq> [] \<and> hd f = CHR ''/'')"
    using assms(1) by (cases f) auto
  have "os_path_join d r = (if d = [] \<or> last d = CHR ''/'' then d else d @ ''/'') @ r"
    using assms(2) by (rule os_path_join_relative)
  moreover have "os_path_join d f = (if d = [] \<or> last d = CHR ''/'' then d else d @ ''/'') @ f"
    using f by (rule os_path_join_relative)
  ultimately show ?thesis
    using assms(3) by (simp only: same_append_eq) simp
qed

lemma selected_resolves:
  assumes "(job_name = Some n \<and> n \<noteq> [] \<and> registry_get r (Some n) = Some job)
           \<or> (\<not> truthy job_name \<and> registry_ok r \<and> r \<noteq> [] \<and> last r = (n, job))"
  shows "(if \<not> truthy job_name then registry_last r else job_name) = Some n
         \<and> registry_get r (Some n) = Some job"
  using assms registry_ok_last [of r n job] by (auto simp: truthy_def)

lemma download_predict_results_resolves:
  "\<not> truthy job_name \<Longrightarrow>
     download_predict_results E job_name save_path p w =
       download_predict_results E (registry_last (batch_transform_jobs p)) save_path p w"
  by (simp add: download_predict_results_def Let_def)

lemma download_predict_results_no_job:
  "\<not> truthy job_name \<Longrightarrow> batch_transform_jobs p = [] \<Longrightarrow>
     download_predict_results E job_name save_path p w =
       (Inl (AssertionError ''There is no batch transform job.''), w)"
  by (simp add: download_predict_results_def Let_def registry_last_def)

lemma download_predict_results_unknown:
  "n \<noteq> [] \<Longrightarrow> registry_get (batch_transform_jobs p) (Some n) = None \<Longrightarrow>
     download_predict_results E (Some n) save_path p w =
       (Inl (AssertionError (''Could not find the batch transform job that matches name '' @ n)), w)"
  by (simp add: download_predict_results_def Let_def truthy_def)

lemma download_predict_results_no_output:
  assumes "(if \<not> truthy job_name then registry_last (batch_transform_jobs p) else job_name) = Some n"
    and "registry_get (batch_transform_jobs p) (Some n) = Some job"
    and "get_output_path job = None"
  shows "download_predict_results E job_name save_path p w =
           (Inl (AssertionError ''No predict results found.''), w)"
  using assms by (simp add: download_predict_results_def Let_def)

lemma download_predict_results_ok:
  assumes "(if \<not> truthy job_name then registry_last (batch_transform_jobs p) else job_name) = Some n"
    and "registry_get (batch_transform_jobs p) (Some n) = Some job"
    and "get_output_path job = Some result_path"
    and "dir = os_path_join (os_path_join (os_path_abspath E (os_path_expanduser E
                 (case save_path of None \<Rightarrow> local_output_path p
                  | Some q \<Rightarrow> if q = [] then local_output_path p else q))) ''batch_transform'') n"
    and "(if dir \<notin> set (dirs w) then os_makedirs E dir w else (Inr (), w)) = (Inr (), w1)"
    and "target = os_path_join dir
                    (if os_path_join dir (split_last result_path) \<in> set (files w1)
                     then rename_file_with_uuid E (split_last result_path)
                     else split_last result_path)"
    and "s3_path_to_bucket_prefix E (Some result_path) = Inr (b, k)"
    and "download_s3_file E b k target = None"
  shows "download_predict_results E job_name save_path p w =
           (Inr (),
            w1\<lparr>events := events w1 @
                 (if os_path_join dir (split_last result_path) \<in> set (files w1)
                  then [Log 30 ''File already exists. Will rename the file to avoid overwrite.'']
                  else []) @
                 [DownloadS3 b k target, Log 20 ''20''],
              files := files w1 @ [target]\<rparr>)"
proof -
  have t: "os_path_join dir (split_last result_path) \<in> set (files w1) \<Longrightarrow>
             os_path_join dir (rename_file_with_uuid E (split_last result_path)) = target"
          "os_path_join dir (split_last result_path) \<notin> set (files w1) \<Longrightarrow>
             os_path_join dir (split_last result_path) = target"
    using assms(6) by simp_all
  show ?thesis
    unfolding download_predict_results_def Let_def
    apply (simp only: assms(1) option.case assms(2) assms(3) assms(4)[symmetric] assms(5)
                      prod.case sum.case)
    apply (cases "os_path_join dir (split_last result_path) \<in> set (files w1)")
     apply (simp_all add: t assms(7) assms(8) log_def emit_def)
    done
qed

lemma download_predict_results_makedirs_error:
  assumes "(if \<not> truthy job_name then registry_last (batch_transform_jobs p) else job_name) = Some n"
    and "registry_get (batch_transform_jobs p) (Some n) = Some job"
    and "get_output_path job = Some result_path"
    and "dir = os_path_join (os_path_join (os_path_abspath E (os_path_expanduser E
                 (case save_path of None \<Rightarrow> local_output_path p
                  | Some q \<Rightarrow> if q = [] then local_output_path p else q))) ''batch_transform'') n"
    and "(if dir \<notin> set (dirs w) then os_makedirs E dir w else (Inr (), w)) = (Inl e, w1)"
  shows "download_predict_results E job_name save_path p w = (Inl e, w1)"
  unfolding download_predict_results_def Let_def
  by (simp only: assms(1) option.case assms(2) assms(3) assms(4)[symmetric] assms(5)
                 prod.case sum.case)

lemma download_predict_results_helper_error:
  assumes "(if \<not> truthy job_name then registry_last (batch_transform_jobs p) else job_name) = Some n"
    and "registry_get (batch_transform_jobs p) (Some n) = Some job"
    and "get_output_path job = Some result_path"
    and "dir = os_path_join (os_path_join (os_path_abspath E (os_path_expanduser E
                 (case save_path of None \<Rightarrow> local_output_path p
                  | Some q \<Rightarrow> if q = [] then local_output_path p else q))) ''batch_transform'') n"
    and "(if dir \<notin> set (dirs w) then os_makedirs E dir w else (Inr (), w)) = (Inr (), w1)"
    and "target = os_path_join dir
                    (if os_path_join dir (split_last result_path) \<in> set (files w1)
                     then rename_file_with_uuid E (split_last result_path)
                     else split_last result_path)"
    and "s3_path_to_bucket_prefix E (Some result_path) = Inl x
         \<or> (s3_path_to_bucket_prefix E (Some result_path) = Inr (b, k)
             \<and> download_s3_file E b k target = Some x)"
  shows "download_predict_results E job_name save_path p w =
           (Inl (External x),
            w1\<lparr>events := events w1 @
                 (if os_path_join dir (split_last result_path) \<in> set (files w1)
                  then [Log 30 ''File already exists. Will rename the file to avoid overwrite.'']
                  else [])\<rparr>)"
proof (cases "os_path_join dir (split_last result_path) \<in> set (files w1)")
  case True
  then have t: "os_path_join dir (rename_file_with_uuid E (split_last result_path)) = target"
    using assms(6) by simp
  show ?thesis
    unfolding download_predict_results_def Let_def
    apply (simp only: assms(1) option.case assms(2) assms(3) assms(4)[symmetric] assms(5)
                      prod.case sum.case True if_True t)
    using assms(7)
    apply (auto simp add: log_def emit_def)
    done
next
  case False
  then have t: "os_path_join dir (split_last result_path) = target"
    using assms(6) by simp
  have f: "target \<notin> set (files w1)"
    using False t by simp
  show ?thesis
    unfolding download_predict_results_def Let_def
    apply (simp only: assms(1) option.case assms(2) assms(3) assms(4)[symmetric] assms(5)
                      prod.case sum.case t f if_False)
    using assms(7)
    apply (auto simp add: log_def emit_def)
    done
qed

text \<open>Claim C7. The job \<^verbatim>\<open>download_predict_results\<close> is about is the one registered under
  the given name or, called without a job name (\<^verbatim>\<open>None\<close> or the empty string), the last
  entry of the registry, which is the job the most recent \<^verbatim>\<open>predict\<close> that returned has
  registered: such a \<^verbatim>\<open>predict\<close> puts the handle \<^verbatim>\<open>run\<close> returned for the request it
  submitted under the job name of the call (the given one, or a generated one) at the
  end of the registry, and keeps the names distinct (last conjunct).

  \<^item> Without a job name the call does what it does for the last name of the registry.
  \<^item> Without a job name and with an empty registry it raises the assertion
    ``There is no batch transform job.'' and leaves the world as it is.
  \<^item> With a name under which no job is registered, in an empty registry or not, it
    raises the assertion ``Could not find the batch transform job that matches name ...''.
  \<^item> When the job has no output (it has not completed) it raises the assertion
    ``No predict results found.''.
  \<^item> Otherwise it creates the directory \<^verbatim>\<open>save_path/batch_transform/job_name\<close> when it
    is not there; an error of \<^verbatim>\<open>os.makedirs\<close> ends the call.
  \<^item> When the helpers answer, it downloads the output of that job to the file of the
    output's name in that directory, or, when a file of that name is there already,
    logs a warning and downloads to the name \<^verbatim>\<open>rename_file_with_uuid\<close> gives: the trace
    of the call is the warning, if any, the download and the final log entry, and the
    one file added is the target of the download.
  \<^item> When \<^verbatim>\<open>s3_path_to_bucket_prefix\<close> or \<^verbatim>\<open>download_s3_file\<close> raises, so does the call,
    and no file is added.
  \<^item> The target of the download is not the file that was there, provided
    \<^verbatim>\<open>rename_file_with_uuid\<close> gives a name that differs from the one it was given and is
    not an absolute path.\<close>

theorem download_predict_results_most_recent_job:
  "(\<not> truthy job_name \<longrightarrow>
        download_predict_results E job_name save_path p w =
          download_predict_results E (registry_last (batch_transform_jobs p)) save_path p w)
   \<and> (\<not> truthy job_name
       \<and> batch_transform_jobs p = [] \<longrightarrow>
        download_predict_results E job_name save_path p w =
          (Inl (AssertionError ''There is no batch transform job.''), w))
   \<and> (job_name = Some n
       \<and> n \<noteq> []
       \<and> registry_get (batch_transform_jobs p) (Some n) = None \<longrightarrow>
        download_predict_results E job_name save_path p w =
          (Inl (AssertionError (''Could not find the batch transform job that matches name '' @ n)), w))
   \<and> (((job_name = Some n \<and> n \<noteq> [] \<and> registry_get (batch_transform_jobs p) (Some n) = Some job)
        \<or> (\<not> truthy job_name \<and> registry_ok (batch_transform_jobs p) \<and> batch_transform_jobs p \<noteq> []
            \<and> last (batch_transform_jobs p) = (n, job)))
       \<and> get_output_path job = None \<longrightarrow>
        download_predict_results E job_name save_path p w =
          (Inl (AssertionError ''No predict results found.''), w))
   \<and> (((job_name = Some n \<and> n \<noteq> [] \<and> registry_get (batch_transform_jobs p) (Some n) = Some job)
        \<or> (\<not> truthy job_name \<and> registry_ok (batch_transform_jobs p) \<and> batch_transform_jobs p \<noteq> []
            \<and> last (batch_transform_jobs p) = (n, job)))
       \<and> get_output_path job = Some result_path
       \<and> dir = os_path_join (os_path_join (os_path_abspath E (os_path_expanduser E
                  (case save_path of None \<Rightarrow> local_output_path p
                   | Some q \<Rightarrow> if q = [] then local_output_path p else q))) ''batch_transform'') n
       \<and> (if dir \<notin> set (dirs w) then os_makedirs E dir w else (Inr (), w)) = (Inl e, w1) \<longrightarrow>
        download_predict_results E job_name save_path p w = (Inl e, w1))
   \<and> (((job_name = Some n \<and> n \<noteq> [] \<and> registry_get (batch_transform_jobs p) (Some n) = Some job)
        \<or> (\<not> truthy job_name \<and> registry_ok (batch_transform_jobs p) \<and> batch_transform_jobs p \<noteq> []
            \<and> last (batch_transform_jobs p) = (n, job)))
       \<and> get_output_path job = Some result_path
       \<and> dir = os_path_join (os_path_join (os_path_abspath E (os_path_expanduser E
                  (case save_path of None \<Rightarrow> local_output_path p
                   | Some q \<Rightarrow> if q = [] then local_output_path p else q))) ''batch_transform'') n
       \<and> (if dir \<notin> set (dirs w) then os_makedirs E dir w else (Inr (), w)) = (Inr (), w1)
       \<and> target = os_path_join dir
                    (if os_path_join dir (split_last result_path) \<in> set (files w1)
                     then rename_file_with_uuid E (split_last result_path)
                     else split_last result_path)
       \<and> s3_path_to_bucket_prefix E (Some result_path) = Inr (b, k)
       \<and> download_s3_file E b k target = None \<longrightarrow>
        download_predict_results E job_name save_path p w =
          (Inr (),
           w1\<lparr>events := events w1 @
                (if os_path_join dir (split_last result_path) \<in> set (files w1)
                 then [Log 30 ''File already exists. Will rename the file to avoid overwrite.'']
                 else []) @
                [DownloadS3 b k target, Log 20 ''20''],
             files := files w1 @ [target]\<rparr>))
   \<and> (((job_name = Some n \<and> n \<noteq> [] \<and> registry_get (batch_transform_jobs p) (Some n) = Some job)
        \<or> (\<not> truthy job_name \<and> registry_ok (batch_transform_jobs p) \<and> batch_transform_jobs p \<noteq> []
            \<and> last (batch_transform_jobs p) = (n, job)))
       \<and> get_output_path job = Some result_path
       \<and> dir = os_path_join (os_path_join (os_path_abspath E (os_path_expanduser E
                  (case save_path of None \<Rightarrow> local_output_path p
                   | Some q \<Rightarrow> if q = [] then local_output_path p else q))) ''batch_transform'') n
       \<and> (if dir \<notin> set (dirs w) then os_makedirs E dir w else (Inr (), w)) = (Inr (), w1)
       \<and> target = os_path_join dir
                    (if os_path_join dir (split_last result_path) \<in> set (files w1)
                     then rename_file_with_uuid E (split_last result_path)
                     else split_last result_path)
       \<and> s3_path_to_bucket_prefix E (Some result_path) = Inl x \<longrightarrow>
        download_predict_results E job_name save_path p w =
          (Inl (External x),
           w1\<lparr>events := events w1 @
                (if os_path_join dir (split_last result_path) \<in> set (files w1)
                 then [Log 30 ''File already exists. Will rename the file to avoid overwrite.'']
                 else [])\<rparr>))
   \<and> (((job_name = Some n \<and> n \<noteq> [] \<and> registry_get (batch_transform_jobs p) (Some n) = Some job)
        \<or> (\<not> truthy job_name \<and> registry_ok (batch_transform_jobs p) \<and> batch_transform_jobs p \<noteq> []
            \<and> last (batch_transform_jobs p) = (n, job)))
       \<and> get_output_path job = Some result_path
       \<and> dir = os_path_join (os_path_join (os_path_abspath E (os_path_expanduser E
                  (case save_path of None \<Rightarrow> local_output_path p
                   | Some q \<Rightarrow> if q = [] then local_output_path p else q))) ''batch_transform'') n
       \<and> (if dir \<notin> set (dirs w) then os_makedirs E dir w else (Inr (), w)) = (Inr (), w1)
       \<and> target = os_path_join dir
                    (if os_path_join dir (split_last result_path) \<in> set (files w1)
                     then rename_file_with_uuid E (split_last result_path)
                     else split_last result_path)
       \<and> s3_path_to_bucket_prefix E (Some result_path) = Inr (b, k)
       \<and> download_s3_file E b k target = Some x \<longrightarrow>
        download_predict_results E job_name save_path p w =
          (Inl (External x),
           w1\<lparr>events := events w1 @
                (if os_path_join dir (split_last result_path) \<in> set (files w1)
                 then [Log 30 ''File already exists. Will rename the file to avoid overwrite.'']
                 else [])\<rparr>))
   \<and> (rename_file_with_uuid E (split_last result_path) \<noteq> split_last result_path
       \<and> \<not> (rename_file_with_uuid E (split_last result_path) \<noteq> []
            \<and> hd (rename_file_with_uuid E (split_last result_path)) = CHR ''/'') \<longrightarrow>
        os_path_join dir (rename_file_with_uuid E (split_last result_path))
          \<noteq> os_path_join dir (split_last result_path))
   \<and> (predict E a p0 w0 = (Inr u, p', w')
       \<and> nm = (case pa_job_name a of
                 None \<Rightarrow> unique_name_from_base E ''ag-CloudPredictor-batch-transform'' (Suc (clock w0))
               | Some m \<Rightarrow> if m = []
                           then unique_name_from_base E ''ag-CloudPredictor-batch-transform'' (Suc (clock w0))
                           else m) \<longrightarrow>
        (\<exists>j request.
            tr_job_name request = nm
          \<and> last (events w') = SubmitTransform request
          \<and> job_run (transform_job E request) nm (pa_wait a) (new_job (sagemaker_session p0)) = Inr j
          \<and> p' = p0\<lparr>batch_transform_jobs := registry_put nm j (batch_transform_jobs p0)\<rparr>
          \<and> batch_transform_jobs p' \<noteq> []
          \<and> last (batch_transform_jobs p') = (nm, j)
          \<and> (registry_ok (batch_transform_jobs p0) \<longrightarrow> registry_ok (batch_transform_jobs p'))))"
proof -
  have resolve: "\<not> truthy job_name \<longrightarrow>
        download_predict_results E job_name save_path p w =
          download_predict_results E (registry_last (batch_transform_jobs p)) save_path p w"
    using download_predict_results_resolves by blast
  have nojob: "\<not> truthy job_name
       \<and> batch_transform_jobs p = [] \<longrightarrow>
        download_predict_results E job_name save_path p w =
          (Inl (AssertionError ''There is no batch transform job.''), w)"
    using download_predict_results_no_job by blast
  have unknown: "job_name = Some n
       \<and> n \<noteq> []
       \<and> registry_get (batch_transform_jobs p) (Some n) = None \<longrightarrow>
        download_predict_results E job_name save_path p w =
          (Inl (AssertionError (''Could not find the batch transform job that matches name '' @ n)), w)"
    using download_predict_results_unknown by blast
  have nooutput: "((job_name = Some n \<and> n \<noteq> [] \<and> registry_get (batch_transform_jobs p) (Some n) = Some job)
        \<or> (\<not> truthy job_name \<and> registry_ok (batch_transform_jobs p) \<and> batch_transform_jobs p \<noteq> []
            \<and> last (batch_transform_jobs p) = (n, job)))
       \<and> get_output_path job = None \<longrightarrow>
        download_predict_results E job_name save_path p w =
          (Inl (AssertionError ''No predict results found.''), w)"
  proof (intro impI, elim conjE)
    assume s: "((job_name = Some n \<and> n \<noteq> [] \<and> registry_get (batch_transform_jobs p) (Some n) = Some job)
        \<or> (\<not> truthy job_name \<and> registry_ok (batch_transform_jobs p) \<and> batch_transform_jobs p \<noteq> []
            \<and> last (batch_transform_jobs p) = (n, job)))"
      and o: "get_output_path job = None"
    note r = selected_resolves [OF s]
    show "download_predict_results E job_name save_path p w =
          (Inl (AssertionError ''No predict results found.''), w)"
      by (rule download_predict_results_no_output [OF conjunct1 [OF r] conjunct2 [OF r] o])
  qed
  have mkerr: "((job_name = Some n \<and> n \<noteq> [] \<and> registry_get (batch_transform_jobs p) (Some n) = Some job)
        \<or> (\<not> truthy job_name \<and> registry_ok (batch_transform_jobs p) \<and> batch_transform_jobs p \<noteq> []
            \<and> last (batch_transform_jobs p) = (n, job)))
       \<and> get_output_path job = Some result_path
       \<and> dir = os_path_join (os_path_join (os_path_abspath E (os_path_expanduser E
                  (case save_path of None \<Rightarrow> local_output_path p
                   | Some q \<Rightarrow> if q = [] then local_output_path p else q))) ''batch_transform'') n
       \<and> (if dir \<notin> set (dirs w) then os_makedirs E dir w else (Inr (), w)) = (Inl e, w1) \<longrightarrow>
        download_predict_results E job_name save_path p w = (Inl e, w1)"
  proof (intro impI, elim conjE)
    assume s: "((job_name = Some n \<and> n \<noteq> [] \<and> registry_get (batch_transform_jobs p) (Some n) = Some job)
        \<or> (\<not> truthy job_name \<and> registry_ok (batch_transform_jobs p) \<and> batch_transform_jobs p \<noteq> []
            \<and> last (batch_transform_jobs p) = (n, job)))"
      and o: "get_output_path job = Some result_path"
      and d: "dir = os_path_join (os_path_join (os_path_abspath E (os_path_expanduser E
                  (case save_path of None \<Rightarrow> local_output_path p
                   | Some q \<Rightarrow> if q = [] then local_output_path p else q))) ''batch_transform'') n"
      and m: "(if dir \<notin> set (dirs w) then os_makedirs E dir w else (Inr (), w)) = (Inl e, w1)"
    note r = selected_resolves [OF s]
    show "download_predict_results E job_name save_path p w = (Inl e, w1)"
      by (rule download_predict_results_makedirs_error [OF conjunct1 [OF r] conjunct2 [OF r] o d m])
  qed
  have ok: "((job_name = Some n \<and> n \<noteq> [] \<and> registry_get (batch_transform_jobs p) (Some n) = Some job)
        \<or> (\<not> truthy job_name \<and> registry_ok (batch_transform_jobs p) \<and> batch_transform_jobs p \<noteq> []
            \<and> last (batch_transform_jobs p) = (n, job)))
       \<and> get_output_path job = Some result_path
       \<and> dir = os_path_join (os_path_join (os_path_abspath E (os_path_expanduser E
                  (case save_path of None \<Rightarrow> local_output_path p
                   | Some q \<Rightarrow> if q = [] then local_output_path p else q))) ''batch_transform'') n
       \<and> (if dir \<notin> set (dirs w) then os_makedirs E dir w else (Inr (), w)) = (Inr (), w1)
       \<and> target = os_path_join dir
                    (if os_path_join dir (split_last result_path) \<in> set (files w1)
                     then rename_file_with_uuid E (split_last result_path)
                     else split_last result_path)
       \<and> s3_path_to_bucket_prefix E (Some result_path) = Inr (b, k)
       \<and> download_s3_file E b k target = None \<longrightarrow>
        download_predict_results E job_name save_path p w =
          (Inr (),
           w1\<lparr>events := events w1 @
                (if os_path_join dir (split_last result_path) \<in> set (files w1)
                 then [Log 30 ''File already exists. Will rename the file to avoid overwrite.'']
                 else []) @
                [DownloadS3 b k target, Log 20 ''20''],
             files := files w1 @ [target]\<rparr>)"
  proof (intro impI, elim conjE)
    assume s: "((job_name = Some n \<and> n \<noteq> [] \<and> registry_get (batch_transform_jobs p) (Some n) = Some job)
        \<or> (\<not> truthy job_name \<and> registry_ok (batch_transform_jobs p) \<and> batch_transform_jobs p \<noteq> []
            \<and> last (batch_transform_jobs p) = (n, job)))"
      and o: "get_output_path job = Some result_path"
      and d: "dir = os_path_join (os_path_join (os_path_abspath E (os_path_expanduser E
                  (case save_path of None \<Rightarrow> local_output_path p
                   | Some q \<Rightarrow> if q = [] then local_output_path p else q))) ''batch_transform'') n"
      and m: "(if dir \<notin> set (dirs w) then os_makedirs E dir w else (Inr (), w)) = (Inr (), w1)"
      and t: "target = os_path_join dir
                    (if os_path_join dir (split_last result_path) \<in> set (files w1)
                     then rename_file_with_uuid E (split_last result_path)
                     else split_last result_path)"
      and h: "s3_path_to_bucket_prefix E (Some result_path) = Inr (b, k)"
      and l: "download_s3_file E b k target = None"
    note r = selected_resolves [OF s]
    show "download_predict_results E job_name save_path p w =
          (Inr (),
           w1\<lparr>events := events w1 @
                (if os_path_join dir (split_last result_path) \<in> set (files w1)
                 then [Log 30 ''File already exists. Will rename the file to avoid overwrite.'']
                 else []) @
                [DownloadS3 b k target, Log 20 ''20''],
             files := files w1 @ [target]\<rparr>)"
      by (rule download_predict_results_ok [OF conjunct1 [OF r] conjunct2 [OF r] o d m t h l])
  qed
  have s3err: "((job_name = Some n \<and> n \<noteq> [] \<and> registry_get (batch_transform_jobs p) (Some n) = Some job)
        \<or> (\<not> truthy job_name \<and> registry_ok (batch_transform_jobs p) \<and> batch_transform_jobs p \<noteq> []
            \<and> last (batch_transform_jobs p) = (n, job)))
       \<and> get_output_path job = Some result_path
       \<and> dir = os_path_join (os_path_join (os_path_abspath E (os_path_expanduser E
                  (case save_path of None \<Rightarrow> local_output_path p
                   | Some q \<Rightarrow> if q = [] then local_output_path p else q))) ''batch_transform'') n
       \<and> (if dir \<notin> set (dirs w) then os_makedirs E dir w else (Inr (), w)) = (Inr (), w1)
       \<and> target = os_path_join dir
                    (if os_path_join dir (split_last result_path) \<in> set (files w1)
                     then rename_file_with_uuid E (split_last result_path)
                     else split_last result_path)
       \<and> s3_path_to_bucket_prefix E (Some result_path) = Inl x \<longrightarrow>
        download_predict_results E job_name save_path p w =
          (Inl (External x),
           w1\<lparr>events := events w1 @
                (if os_path_join dir (split_last result_path) \<in> set (files w1)
                 then [Log 30 ''File already exists. Will rename the file to avoid overwrite.'']
                 else [])\<rparr>)"
  proof (intro impI, elim conjE)
    assume s: "((job_name = Some n \<and> n \<noteq> [] \<and> registry_get (batch_transform_jobs p) (Some n) = Some job)
        \<or> (\<not> truthy job_name \<and> registry_ok (batch_transform_jobs p) \<and> batch_transform_jobs p \<noteq> []
            \<and> last (batch_transform_jobs p) = (n, job)))"
      and o: "get_output_path job = Some result_path"
      and d: "dir = os_path_join (os_path_join (os_path_abspath E (os_path_expanduser E
                  (case save_path of None \<Rightarrow> local_output_path p
                   | Some q \<Rightarrow> if q = [] then local_output_path p else q))) ''batch_transform'') n"
      and m: "(if dir \<notin> set (dirs w) then os_makedirs E dir w else (Inr (), w)) = (Inr (), w1)"
      and t: "target = os_path_join dir
                    (if os_path_join dir (split_last result_path) \<in> set (files w1)
                     then rename_file_with_uuid E (split_last result_path)
                     else split_last result_path)"
      and h: "s3_path_to_bucket_prefix E (Some result_path) = Inl x"
    note r = selected_resolves [OF s]
    show "download_predict_results E job_name save_path p w =
          (Inl (External x),
           w1\<lparr>events := events w1 @
                (if os_path_join dir (split_last result_path) \<in> set (files w1)
                 then [Log 30 ''File already exists. Will rename the file to avoid overwrite.'']
                 else [])\<rparr>)"
      by (rule download_predict_results_helper_error [OF conjunct1 [OF r] conjunct2 [OF r] o d m t disjI1 [OF h]])
  qed
  have dlerr: "((job_name = Some n \<and> n \<noteq> [] \<and> registry_get (batch_transform_jobs p) (Some n) = Some job)
        \<or> (\<not> truthy job_name \<and> registry_ok (batch_transform_jobs p) \<and> batch_transform_jobs p \<noteq> []
            \<and> last (batch_transform_jobs p) = (n, job)))
       \<and> get_output_path job = Some result_path
       \<and> dir = os_path_join (os_path_join (os_path_abspath E (os_path_expanduser E
                  (case save_path of None \<Rightarrow> local_output_path p
                   | Some q \<Rightarrow> if q = [] then local_output_path p else q))) ''batch_transform'') n
       \<and> (if dir \<notin> set (dirs w) then os_makedirs E dir w else (Inr (), w)) = (Inr (), w1)
       \<and> target = os_path_join dir
                    (if os_path_join dir (split_last result_path) \<in> set (files w1)
                     then rename_file_with_uuid E (split_last result_path)
                     else split_last result_path)
       \<and> s3_path_to_bucket_prefix E (Some result_path) = Inr (b, k)
       \<and> download_s3_file E b k target = Some x \<longrightarrow>
        download_predict_results E job_name save_path p w =
          (Inl (External x),
           w1\<lparr>events := events w1 @
                (if os_path_join dir (split_last result_path) \<in> set (files w1)
                 then [Log 30 ''File already exists. Will rename the file to avoid overwrite.'']
                 else [])\<rparr>)"
  proof (intro impI, elim conjE)
    assume s: "((job_name = Some n \<and> n \<noteq> [] \<and> registry_get (batch_transform_jobs p) (Some n) = Some job)
        \<or> (\<not> truthy job_name \<and> registry_ok (batch_transform_jobs p) \<and> batch_transform_jobs p \<noteq> []
            \<and> last (batch_transform_jobs p) = (n, job)))"
      and o: "get_output_path job = Some result_path"
      and d: "dir = os_path_join (os_path_join (os_path_abspath E (os_path_expanduser E
                  (case save_path of None \<Rightarrow> local_output_path p
                   | Some q \<Rightarrow> if q = [] then local_output_path p else q))) ''batch_transform'') n"
      and m: "(if dir \<notin> set (dirs w) then os_makedirs E dir w else (Inr (), w)) = (Inr (), w1)"
      and t: "target = os_path_join dir
                    (if os_path_join dir (split_last result_path) \<in> set (files w1)
                     then rename_file_with_uuid E (split_last result_path)
                     else split_last result_path)"
      and h: "s3_path_to_bucket_prefix E (Some result_path) = Inr (b, k)"
      and l: "download_s3_file E b k target = Some x"
    note r = selected_resolves [OF s]
    show "download_predict_results E job_name save_path p w =
          (Inl (External x),
           w1\<lparr>events := events w1 @
                (if os_path_join dir (split_last result_path) \<in> set (files w1)
                 then [Log 30 ''File already exists. Will rename the file to avoid overwrite.'']
                 else [])\<rparr>)"
      by (rule download_predict_results_helper_error [OF conjunct1 [OF r] conjunct2 [OF r] o d m t disjI2 [OF conjI [OF h l]]])
  qed
  have neq: "rename_file_with_uuid E (split_last result_path) \<noteq> split_last result_path
       \<and> \<not> (rename_file_with_uuid E (split_last result_path) \<noteq> []
            \<and> hd (rename_file_with_uuid E (split_last result_path)) = CHR ''/'') \<longrightarrow>
        os_path_join dir (rename_file_with_uuid E (split_last result_path))
          \<noteq> os_path_join dir (split_last result_path)"
    using os_path_join_neq [OF split_last_no_slash] by blast
  have predict: "predict E a p0 w0 = (Inr u, p', w')
       \<and> nm = (case pa_job_name a of
                 None \<Rightarrow> unique_name_from_base E ''ag-CloudPredictor-batch-transform'' (Suc (clock w0))
               | Some m \<Rightarrow> if m = []
                           then unique_name_from_base E ''ag-CloudPredictor-batch-transform'' (Suc (clock w0))
                           else m) \<longrightarrow>
        (\<exists>j request.
            tr_job_name request = nm
          \<and> last (events w') = SubmitTransform request
          \<and> job_run (transform_job E request) nm (pa_wait a) (new_job (sagemaker_session p0)) = Inr j
          \<and> p' = p0\<lparr>batch_transform_jobs := registry_put nm j (batch_transform_jobs p0)\<rparr>
          \<and> batch_transform_jobs p' \<noteq> []
          \<and> last (batch_transform_jobs p') = (nm, j)
          \<and> (registry_ok (batch_transform_jobs p0) \<longrightarrow> registry_ok (batch_transform_jobs p')))"
  proof (intro impI, elim conjE)
    assume h: "predict E a p0 w0 = (Inr u, p', w')"
      and n: "nm = (case pa_job_name a of
                 None \<Rightarrow> unique_name_from_base E ''ag-CloudPredictor-batch-transform'' (Suc (clock w0))
               | Some m \<Rightarrow> if m = []
                           then unique_name_from_base E ''ag-CloudPredictor-batch-transform'' (Suc (clock w0))
                           else m)"
    from predict_registers [OF h n] obtain j request where
      r: "tr_job_name request = nm" "last (events w') = SubmitTransform request"
         "job_run (transform_job E request) nm (pa_wait a) (new_job (sagemaker_session p0)) = Inr j"
         "p' = p0\<lparr>batch_transform_jobs := registry_put nm j (batch_transform_jobs p0)\<rparr>"
      by blast
    have b: "batch_transform_jobs p' = registry_put nm j (batch_transform_jobs p0)"
      using r(4) by simp
    have "batch_transform_jobs p' \<noteq> []" "last (batch_transform_jobs p') = (nm, j)"
      "registry_ok (batch_transform_jobs p0) \<longrightarrow> registry_ok (batch_transform_jobs p')"
      unfolding b using last_registry_put registry_ok_put by blast+
    with r show "\<exists>j request.
            tr_job_name request = nm
          \<and> last (events w') = SubmitTransform request
          \<and> job_run (transform_job E request) nm (pa_wait a) (new_job (sagemaker_session p0)) = Inr j
          \<and> p' = p0\<lparr>batch_transform_jobs := registry_put nm j (batch_transform_jobs p0)\<rparr>
          \<and> batch_transform_jobs p' \<noteq> []
          \<and> last (batch_transform_jobs p') = (nm, j)
          \<and> (registry_ok (batch_transform_jobs p0) \<longrightarrow> registry_ok (batch_transform_jobs p'))"
      by blast
  qed
  show ?thesis
    by (intro conjI resolve nojob unknown nooutput mkerr ok s3err dlerr neq predict)
qed

theorem download_predict_results_most_recent_job_witness:
  "\<not> truthy None
   \<and> registry_last (batch_transform_jobs predicted_predictor) = Some ''job-1''
   \<and> download_predict_results sample_env None None predicted_predictor sample_world =
       download_predict_results sample_env (Some ''job-1'') None predicted_predictor sample_world
   \<and> batch_transform_jobs sample_predictor = []
   \<and> download_predict_results sample_env None None sample_predictor sample_world =
       (Inl (AssertionError ''There is no batch transform job.''), sample_world)
   \<and> registry_get (batch_transform_jobs predicted_predictor) (Some ''job-2'') = None
   \<and> download_predict_results sample_env (Some ''job-2'') None predicted_predictor sample_world =
       (Inl (AssertionError ''Could not find the batch transform job that matches name job-2''), sample_world)
   \<and> download_predict_results sample_env (Some ''job-1'') None sample_predictor sample_world =
       (Inl (AssertionError ''Could not find the batch transform job that matches name job-1''), sample_world)
   \<and> registry_ok (batch_transform_jobs pending_predictor)
   \<and> last (batch_transform_jobs pending_predictor) = (''job-1'', \<lparr>jh_name = Some ''job-1'', status = InProgress, output_location = None,
            job_session = Some sample_session\<rparr>)
   \<and> get_output_path (\<lparr>jh_name = Some ''job-1'', status = InProgress, output_location = None,
            job_session = Some sample_session\<rparr>) = None
   \<and> download_predict_results sample_env None None pending_predictor sample_world =
       (Inl (AssertionError ''No predict results found.''), sample_world)
   \<and> registry_ok (batch_transform_jobs predicted_predictor)
   \<and> last (batch_transform_jobs predicted_predictor) = (''job-1'', sample_transform_job)
   \<and> get_output_path sample_transform_job = Some ''s3://bucket/run/batch_transform/2022-01-01-00-00-00-000/results/test.csv.out''
   \<and> os_makedirs sample_env ''/out/batch_transform/job-1'' (sample_world\<lparr>files := [''/out/batch_transform'']\<rparr>) = (Inl (OSError ''NotADirectoryError''), sample_world\<lparr>files := [''/out/batch_transform'']\<rparr>)
   \<and> download_predict_results sample_env None None predicted_predictor
       (sample_world\<lparr>files := [''/out/batch_transform'']\<rparr>) =
       (Inl (OSError ''NotADirectoryError''), sample_world\<lparr>files := [''/out/batch_transform'']\<rparr>)
   \<and> ''/out/batch_transform/job-1'' \<notin> set (dirs sample_world)
   \<and> os_makedirs sample_env ''/out/batch_transform/job-1'' sample_world =
       (Inr (), sample_world\<lparr>events := events sample_world @ [MakeDirs ''/out/batch_transform/job-1''],
                  dirs := dirs sample_world @ [''/out/batch_transform'', ''/out/batch_transform/job-1'']\<rparr>)
   \<and> download_predict_results sample_env None None predicted_predictor sample_world =
       (Inr (), downloaded_world)
   \<and> registry_get (batch_transform_jobs predicted_predictor) (Some ''job-1'') = Some sample_transform_job
   \<and> ''/out/batch_transform/job-1'' \<in> set (dirs downloaded_world)
   \<and> ''/out/batch_transform/job-1/test.csv.out'' \<in> set (files downloaded_world)
   \<and> download_predict_results sample_env (Some ''job-1'') None predicted_predictor downloaded_world =
       (Inr (),
        downloaded_world\<lparr>events := events downloaded_world @
             [Log 30 ''File already exists. Will rename the file to avoid overwrite.'',
              DownloadS3 ''bucket'' ''run/batch_transform/2022-01-01-00-00-00-000/results/test.csv.out'' ''/out/batch_transform/job-1/renamed-test.csv.out'',
              Log 20 ''20''],
          files := files downloaded_world @ [''/out/batch_transform/job-1/renamed-test.csv.out'']\<rparr>)
   \<and> download_predict_results (sample_env\<lparr>s3_path_to_bucket_prefix := (\<lambda>x. Inl ''ValueError'')\<rparr>)
       (Some ''job-1'') None predicted_predictor downloaded_world =
       (Inl (External ''ValueError''),
        downloaded_world\<lparr>events := events downloaded_world @ [Log 30 ''File already exists. Will rename the file to avoid overwrite.'']\<rparr>)
   \<and> download_predict_results (sample_env\<lparr>download_s3_file := (\<lambda>b k f. Some ''ClientError'')\<rparr>)
       (Some ''job-1'') None predicted_predictor downloaded_world =
       (Inl (External ''ClientError''),
        downloaded_world\<lparr>events := events downloaded_world @ [Log 30 ''File already exists. Will rename the file to avoid overwrite.'']\<rparr>)
   \<and> split_last ''s3://bucket/run/batch_transform/2022-01-01-00-00-00-000/results/test.csv.out'' = ''test.csv.out''
   \<and> rename_file_with_uuid sample_env ''test.csv.out'' = ''renamed-test.csv.out''
   \<and> os_path_join ''/out/batch_transform/job-1'' (rename_file_with_uuid sample_env (split_last ''s3://bucket/run/batch_transform/2022-01-01-00-00-00-000/results/test.csv.out''))
       \<noteq> os_path_join ''/out/batch_transform/job-1'' (split_last ''s3://bucket/run/batch_transform/2022-01-01-00-00-00-000/results/test.csv.out'')
   \<and> fst (predict sample_env sample_predict_args fitted_predictor sample_world) = Inr ()
   \<and> fst (snd (predict sample_env sample_predict_args fitted_predictor sample_world)) = predicted_predictor
   \<and> pa_job_name sample_predict_args = Some ''job-1''
   \<and> batch_transform_jobs fitted_predictor = []
   \<and> (\<exists>request.
         tr_job_name request = ''job-1''
       \<and> last (events (snd (snd (predict sample_env sample_predict_args fitted_predictor sample_world))))
           = SubmitTransform request
       \<and> job_run (transform_job sample_env request) ''job-1'' True (new_job (Some sample_session))
           = Inr sample_transform_job
       \<and> predicted_predictor =
           fitted_predictor\<lparr>batch_transform_jobs := registry_put ''job-1'' sample_transform_job []\<rparr>)"
proof -
  note T = download_predict_results_most_recent_job
  have h0: "\<not> truthy None"
    by code_simp
  have l: "registry_last (batch_transform_jobs predicted_predictor) = Some ''job-1''"
    by code_simp
  have c0: "download_predict_results sample_env None None predicted_predictor sample_world =
       download_predict_results sample_env (Some ''job-1'') None predicted_predictor sample_world"
    using T [where E = sample_env and job_name = None and save_path = None and p = predicted_predictor and w = sample_world,
         THEN conjunct1, THEN mp, OF h0]
    unfolding l .
  have h1: "\<not> truthy None \<and> batch_transform_jobs sample_predictor = []"
    by code_simp
  note c1 = T [where E = sample_env and job_name = None and save_path = None and p = sample_predictor and w = sample_world,
         THEN conjunct2, THEN conjunct1, THEN mp, OF h1]
  have h2: "Some ''job-2'' = Some ''job-2'' \<and> ''job-2'' \<noteq> []
            \<and> registry_get (batch_transform_jobs predicted_predictor) (Some ''job-2'') = None"
    by code_simp
  have c2: "download_predict_results sample_env (Some ''job-2'') None predicted_predictor sample_world =
       (Inl (AssertionError ''Could not find the batch transform job that matches name job-2''), sample_world)"
    using T [where E = sample_env and job_name = "Some ''job-2''" and save_path = None and p = predicted_predictor and w = sample_world and n = "''job-2''",
         THEN conjunct2, THEN conjunct2, THEN conjunct1, THEN mp, OF h2]
    by simp
  have h2e: "Some ''job-1'' = Some ''job-1'' \<and> ''job-1'' \<noteq> []
            \<and> registry_get (batch_transform_jobs sample_predictor) (Some ''job-1'') = None"
    by code_simp
  have c2e: "download_predict_results sample_env (Some ''job-1'') None sample_predictor sample_world =
       (Inl (AssertionError ''Could not find the batch transform job that matches name job-1''), sample_world)"
    using T [where E = sample_env and job_name = "Some ''job-1''" and save_path = None and p = sample_predictor and w = sample_world and n = "''job-1''",
         THEN conjunct2, THEN conjunct2, THEN conjunct1, THEN mp, OF h2e]
    by simp
  have h3: "((None = Some ''job-1'' \<and> ''job-1'' \<noteq> []
          \<and> registry_get (batch_transform_jobs pending_predictor) (Some ''job-1'') = Some (\<lparr>jh_name = Some ''job-1'', status = InProgress, output_location = None,
            job_session = Some sample_session\<rparr>))
        \<or> (\<not> truthy None \<and> registry_ok (batch_transform_jobs pending_predictor)
            \<and> batch_transform_jobs pending_predictor \<noteq> []
            \<and> last (batch_transform_jobs pending_predictor) = (''job-1'', (\<lparr>jh_name = Some ''job-1'', status = InProgress, output_location = None,
            job_session = Some sample_session\<rparr>))))
     \<and> get_output_path (\<lparr>jh_name = Some ''job-1'', status = InProgress, output_location = None,
            job_session = Some sample_session\<rparr>) = None"
    by code_simp
  note c3 = T [where E = sample_env and job_name = None and save_path = None and p = pending_predictor and w = sample_world and n = "''job-1''" and job = "\<lparr>jh_name = Some ''job-1'', status = InProgress, output_location = None,
            job_session = Some sample_session\<rparr>",
         THEN conjunct2, THEN conjunct2, THEN conjunct2, THEN conjunct1, THEN mp, OF h3]
  have g3: "registry_ok (batch_transform_jobs pending_predictor)"
    "last (batch_transform_jobs pending_predictor) = (''job-1'', \<lparr>jh_name = Some ''job-1'', status = InProgress, output_location = None,
            job_session = Some sample_session\<rparr>)"
    "get_output_path (\<lparr>jh_name = Some ''job-1'', status = InProgress, output_location = None,
            job_session = Some sample_session\<rparr>) = None"
    by code_simp+
  have g4: "registry_ok (batch_transform_jobs predicted_predictor)"
    "last (batch_transform_jobs predicted_predictor) = (''job-1'', sample_transform_job)"
    "get_output_path sample_transform_job = Some ''s3://bucket/run/batch_transform/2022-01-01-00-00-00-000/results/test.csv.out''"
    by code_simp+
  have h4: "((None = Some ''job-1'' \<and> ''job-1'' \<noteq> []
          \<and> registry_get (batch_transform_jobs predicted_predictor) (Some ''job-1'') = Some sample_transform_job)
        \<or> (\<not> truthy None \<and> registry_ok (batch_transform_jobs predicted_predictor)
            \<and> batch_transform_jobs predicted_predictor \<noteq> []
            \<and> last (batch_transform_jobs predicted_predictor) = (''job-1'', sample_transform_job)))
     \<and> get_output_path sample_transform_job = Some ''s3://bucket/run/batch_transform/2022-01-01-00-00-00-000/results/test.csv.out''
     \<and> ''/out/batch_transform/job-1'' =
         os_path_join (os_path_join (os_path_abspath (sample_env) (os_path_expanduser (sample_env)
            (case None of None \<Rightarrow> local_output_path predicted_predictor
             | Some q \<Rightarrow> if q = [] then local_output_path predicted_predictor else q))) ''batch_transform'')
           ''job-1''
     \<and> (if ''/out/batch_transform/job-1'' \<notin> set (dirs (sample_world\<lparr>files := [''/out/batch_transform'']\<rparr>))
        then os_makedirs (sample_env) ''/out/batch_transform/job-1'' (sample_world\<lparr>files := [''/out/batch_transform'']\<rparr>)
        else (Inr (), sample_world\<lparr>files := [''/out/batch_transform'']\<rparr>)) =
       (Inl (OSError ''NotADirectoryError''), sample_world\<lparr>files := [''/out/batch_transform'']\<rparr>)"
    by code_simp
  note c4 = T [where E = sample_env and job_name = None and save_path = None and p = predicted_predictor and w = "sample_world\<lparr>files := [''/out/batch_transform'']\<rparr>" and n = "''job-1''" and job = sample_transform_job and result_path = "''s3://bucket/run/batch_transform/2022-01-01-00-00-00-000/results/test.csv.out''" and dir = "''/out/batch_transform/job-1''",
         THEN conjunct2, THEN conjunct2, THEN conjunct2, THEN conjunct2, THEN conjunct1, THEN mp, OF h4]
  have g4m: "os_makedirs sample_env ''/out/batch_transform/job-1'' (sample_world\<lparr>files := [''/out/batch_transform'']\<rparr>) = (Inl (OSError ''NotADirectoryError''), sample_world\<lparr>files := [''/out/batch_transform'']\<rparr>)"
    by code_simp
  have h5: "((None = Some ''job-1'' \<and> ''job-1'' \<noteq> []
          \<and> registry_get (batch_transform_jobs predicted_predictor) (Some ''job-1'') = Some sample_transform_job)
        \<or> (\<not> truthy None \<and> registry_ok (batch_transform_jobs predicted_predictor)
            \<and> batch_transform_jobs predicted_predictor \<noteq> []
            \<and> last (batch_transform_jobs predicted_predictor) = (''job-1'', sample_transform_job)))
     \<and> get_output_path sample_transform_job = Some ''s3://bucket/run/batch_transform/2022-01-01-00-00-00-000/results/test.csv.out''
     \<and> ''/out/batch_transform/job-1'' =
         os_path_join (os_path_join (os_path_abspath (sample_env) (os_path_expanduser (sample_env)
            (case None of None \<Rightarrow> local_output_path predicted_predictor
             | Some q \<Rightarrow> if q = [] then local_output_path predicted_predictor else q))) ''batch_transform'')
           ''job-1''
     \<and> (if ''/out/batch_transform/job-1'' \<notin> set (dirs (sample_world))
        then os_makedirs (sample_env) ''/out/batch_transform/job-1'' (sample_world)
        else (Inr (), sample_world)) =
       (Inr (), sample_world\<lparr>events := events sample_world @ [MakeDirs ''/out/batch_transform/job-1''],
                  dirs := dirs sample_world @ [''/out/batch_transform'', ''/out/batch_transform/job-1'']\<rparr>)
     \<and> ''/out/batch_transform/job-1/test.csv.out'' =
         os_path_join ''/out/batch_transform/job-1''
           (if os_path_join ''/out/batch_transform/job-1'' (split_last ''s3://bucket/run/batch_transform/2022-01-01-00-00-00-000/results/test.csv.out'') \<in> set (files (sample_world\<lparr>events := events sample_world @ [MakeDirs ''/out/batch_transform/job-1''],
                  dirs := dirs sample_world @ [''/out/batch_transform'', ''/out/batch_transform/job-1'']\<rparr>))
            then rename_file_with_uuid (sample_env) (split_last ''s3://bucket/run/batch_transform/2022-01-01-00-00-00-000/results/test.csv.out'')
            else split_last ''s3://bucket/run/batch_transform/2022-01-01-00-00-00-000/results/test.csv.out'')
     \<and> s3_path_to_bucket_prefix sample_env (Some ''s3://bucket/run/batch_transform/2022-01-01-00-00-00-000/results/test.csv.out'') = Inr (''bucket'', ''run/batch_transform/2022-01-01-00-00-00-000/results/test.csv.out'')
     \<and> download_s3_file sample_env ''bucket'' ''run/batch_transform/2022-01-01-00-00-00-000/results/test.csv.out'' ''/out/batch_transform/job-1/test.csv.out'' = None"
    by code_simp
  have e5: "(sample_world\<lparr>events := events sample_world @ [MakeDirs ''/out/batch_transform/job-1''],
                  dirs := dirs sample_world @ [''/out/batch_transform'', ''/out/batch_transform/job-1'']\<rparr>)
         \<lparr>events := events (sample_world\<lparr>events := events sample_world @ [MakeDirs ''/out/batch_transform/job-1''],
                  dirs := dirs sample_world @ [''/out/batch_transform'', ''/out/batch_transform/job-1'']\<rparr>) @
            (if os_path_join ''/out/batch_transform/job-1'' (split_last ''s3://bucket/run/batch_transform/2022-01-01-00-00-00-000/results/test.csv.out'') \<in> set (files (sample_world\<lparr>events := events sample_world @ [MakeDirs ''/out/batch_transform/job-1''],
                  dirs := dirs sample_world @ [''/out/batch_transform'', ''/out/batch_transform/job-1'']\<rparr>))
             then [Log 30 ''File already exists. Will rename the file to avoid overwrite.'']
             else []) @
            [DownloadS3 ''bucket'' ''run/batch_transform/2022-01-01-00-00-00-000/results/test.csv.out'' ''/out/batch_transform/job-1/test.csv.out'', Log 20 ''20''],
          files := files (sample_world\<lparr>events := events sample_world @ [MakeDirs ''/out/batch_transform/job-1''],
                  dirs := dirs sample_world @ [''/out/batch_transform'', ''/out/batch_transform/job-1'']\<rparr>) @ [''/out/batch_transform/job-1/test.csv.out'']\<rparr>
       = downloaded_world"
    by code_simp
  have c5: "download_predict_results sample_env None None predicted_predictor sample_world =
       (Inr (), downloaded_world)"
    using T [where E = sample_env and job_name = None and save_path = None and p = predicted_predictor and w = sample_world and n = "''job-1''" and job = sample_transform_job and result_path = "''s3://bucket/run/batch_transform/2022-01-01-00-00-00-000/results/test.csv.out''" and dir = "''/out/batch_transform/job-1''" and target = "''/out/batch_transform/job-1/test.csv.out''" and b = "''bucket''" and k = "''run/batch_transform/2022-01-01-00-00-00-000/results/test.csv.out''",
         THEN conjunct2, THEN conjunct2, THEN conjunct2, THEN conjunct2, THEN conjunct2, THEN conjunct1, THEN mp, OF h5]
    unfolding e5 .
  have g5: "''/out/batch_transform/job-1'' \<notin> set (dirs sample_world)"
    "os_makedirs sample_env ''/out/batch_transform/job-1'' sample_world =
       (Inr (), sample_world\<lparr>events := events sample_world @ [MakeDirs ''/out/batch_transform/job-1''],
                  dirs := dirs sample_world @ [''/out/batch_transform'', ''/out/batch_transform/job-1'']\<rparr>)"
    by code_simp+
  have i6: "os_path_join ''/out/batch_transform/job-1'' (split_last ''s3://bucket/run/batch_transform/2022-01-01-00-00-00-000/results/test.csv.out'') \<in> set (files downloaded_world)"
    by code_simp
  have h6: "((Some ''job-1'' = Some ''job-1'' \<and> ''job-1'' \<noteq> []
          \<and> registry_get (batch_transform_jobs predicted_predictor) (Some ''job-1'') = Some sample_transform_job)
        \<or> (\<not> truthy (Some ''job-1'') \<and> registry_ok (batch_transform_jobs predicted_predictor)
            \<and> batch_transform_jobs predicted_predictor \<noteq> []
            \<and> last (batch_transform_jobs predicted_predictor) = (''job-1'', sample_transform_job)))
     \<and> get_output_path sample_transform_job = Some ''s3://bucket/run/batch_transform/2022-01-01-00-00-00-000/results/test.csv.out''
     \<and> ''/out/batch_transform/job-1'' =
         os_path_join (os_path_join (os_path_abspath (sample_env) (os_path_expanduser (sample_env)
            (case None of None \<Rightarrow> local_output_path predicted_predictor
             | Some q \<Rightarrow> if q = [] then local_output_path predicted_predictor else q))) ''batch_transform'')
           ''job-1''
     \<and> (if ''/out/batch_transform/job-1'' \<notin> set (dirs (downloaded_world))
        then os_makedirs (sample_env) ''/out/batch_transform/job-1'' (downloaded_world)
        else (Inr (), downloaded_world)) =
       (Inr (), downloaded_world)
     \<and> ''/out/batch_transform/job-1/renamed-test.csv.out'' =
         os_path_join ''/out/batch_transform/job-1''
           (if os_path_join ''/out/batch_transform/job-1'' (split_last ''s3://bucket/run/batch_transform/2022-01-01-00-00-00-000/results/test.csv.out'') \<in> set (files (downloaded_world))
            then rename_file_with_uuid (sample_env) (split_last ''s3://bucket/run/batch_transform/2022-01-01-00-00-00-000/results/test.csv.out'')
            else split_last ''s3://bucket/run/batch_transform/2022-01-01-00-00-00-000/results/test.csv.out'')
     \<and> s3_path_to_bucket_prefix sample_env (Some ''s3://bucket/run/batch_transform/2022-01-01-00-00-00-000/results/test.csv.out'') = Inr (''bucket'', ''run/batch_transform/2022-01-01-00-00-00-000/results/test.csv.out'')
     \<and> download_s3_file sample_env ''bucket'' ''run/batch_transform/2022-01-01-00-00-00-000/results/test.csv.out'' ''/out/batch_transform/job-1/renamed-test.csv.out'' = None"
    by code_simp
  have c6: "download_predict_results sample_env (Some ''job-1'') None predicted_predictor downloaded_world =
       (Inr (),
        downloaded_world\<lparr>events := events downloaded_world @
             [Log 30 ''File already exists. Will rename the file to avoid overwrite.'',
              DownloadS3 ''bucket'' ''run/batch_transform/2022-01-01-00-00-00-000/results/test.csv.out'' ''/out/batch_transform/job-1/renamed-test.csv.out'',
              Log 20 ''20''],
          files := files downloaded_world @ [''/out/batch_transform/job-1/renamed-test.csv.out'']\<rparr>)"
    using T [where E = sample_env and job_name = "Some ''job-1''" and save_path = None and p = predicted_predictor and w = downloaded_world and n = "''job-1''" and job = sample_transform_job and result_path = "''s3://bucket/run/batch_transform/2022-01-01-00-00-00-000/results/test.csv.out''" and dir = "''/out/batch_transform/job-1''" and target = "''/out/batch_transform/job-1/renamed-test.csv.out''" and b = "''bucket''" and k = "''run/batch_transform/2022-01-01-00-00-00-000/results/test.csv.out''",
         THEN conjunct2, THEN conjunct2, THEN conjunct2, THEN conjunct2, THEN conjunct2, THEN conjunct1, THEN mp, OF h6]
    by (simp only: i6 if_True append_Cons append_Nil)
  have g6: "registry_get (batch_transform_jobs predicted_predictor) (Some ''job-1'') = Some sample_transform_job"
    "''/out/batch_transform/job-1'' \<in> set (dirs downloaded_world)"
    "''/out/batch_transform/job-1/test.csv.out'' \<in> set (files downloaded_world)"
    by code_simp+
  have h7: "((Some ''job-1'' = Some ''job-1'' \<and> ''job-1'' \<noteq> []
          \<and> registry_get (batch_transform_jobs predicted_predictor) (Some ''job-1'') = Some sample_transform_job)
        \<or> (\<not> truthy (Some ''job-1'') \<and> registry_ok (batch_transform_jobs predicted_predictor)
            \<and> batch_transform_jobs predicted_predictor \<noteq> []
            \<and> last (batch_transform_jobs predicted_predictor) = (''job-1'', sample_transform_job)))
     \<and> get_output_path sample_transform_job = Some ''s3://bucket/run/batch_transform/2022-01-01-00-00-00-000/results/test.csv.out''
     \<and> ''/out/batch_transform/job-1'' =
         os_path_join (os_path_join (os_path_abspath (sample_env\<lparr>s3_path_to_bucket_prefix := (\<lambda>x. Inl ''ValueError'')\<rparr>) (os_path_expanduser (sample_env\<lparr>s3_path_to_bucket_prefix := (\<lambda>x. Inl ''ValueError'')\<rparr>)
            (case None of None \<Rightarrow> local_output_path predicted_predictor
             | Some q \<Rightarrow> if q = [] then local_output_path predicted_predictor else q))) ''batch_transform'')
           ''job-1''
     \<and> (if ''/out/batch_transform/job-1'' \<notin> set (dirs (downloaded_world))
        then os_makedirs (sample_env\<lparr>s3_path_to_bucket_prefix := (\<lambda>x. Inl ''ValueError'')\<rparr>) ''/out/batch_transform/job-1'' (downloaded_world)
        else (Inr (), downloaded_world)) =
       (Inr (), downloaded_world)
     \<and> ''/out/batch_transform/job-1/renamed-test.csv.out'' =
         os_path_join ''/out/batch_transform/job-1''
           (if os_path_join ''/out/batch_transform/job-1'' (split_last ''s3://bucket/run/batch_transform/2022-01-01-00-00-00-000/results/test.csv.out'') \<in> set (files (downloaded_world))
            then rename_file_with_uuid (sample_env\<lparr>s3_path_to_bucket_prefix := (\<lambda>x. Inl ''ValueError'')\<rparr>) (split_last ''s3://bucket/run/batch_transform/2022-01-01-00-00-00-000/results/test.csv.out'')
            else split_last ''s3://bucket/run/batch_transform/2022-01-01-00-00-00-000/results/test.csv.out'')
     \<and> s3_path_to_bucket_prefix (sample_env\<lparr>s3_path_to_bucket_prefix := (\<lambda>x. Inl ''ValueError'')\<rparr>) (Some ''s3://bucket/run/batch_transform/2022-01-01-00-00-00-000/results/test.csv.out'') = Inl ''ValueError''"
    by code_simp
  have c7: "download_predict_results (sample_env\<lparr>s3_path_to_bucket_prefix := (\<lambda>x. Inl ''ValueError'')\<rparr>)
       (Some ''job-1'') None predicted_predictor downloaded_world =
       (Inl (External ''ValueError''),
        downloaded_world\<lparr>events := events downloaded_world @ [Log 30 ''File already exists. Will rename the file to avoid overwrite.'']\<rparr>)"
    using T [where E = "sample_env\<lparr>s3_path_to_bucket_prefix := (\<lambda>x. Inl ''ValueError'')\<rparr>" and job_name = "Some ''job-1''" and save_path = None and p = predicted_predictor and w = downloaded_world and n = "''job-1''" and job = sample_transform_job and result_path = "''s3://bucket/run/batch_transform/2022-01-01-00-00-00-000/results/test.csv.out''" and dir = "''/out/batch_transform/job-1''" and target = "''/out/batch_transform/job-1/renamed-test.csv.out''",
         THEN conjunct2, THEN conjunct2, THEN conjunct2, THEN conjunct2, THEN conjunct2, THEN conjunct2, THEN conjunct1, THEN mp, OF h7]
    by (simp only: i6 if_True)
  have h8: "((Some ''job-1'' = Some ''job-1'' \<and> ''job-1'' \<noteq> []
          \<and> registry_get (batch_transform_jobs predicted_predictor) (Some ''job-1'') = Some sample_transform_job)
        \<or> (\<not> truthy (Some ''job-1'') \<and> registry_ok (batch_transform_jobs predicted_predictor)
            \<and> batch_transform_jobs predicted_predictor \<noteq> []
            \<and> last (batch_transform_jobs predicted_predictor) = (''job-1'', sample_transform_job)))
     \<and> get_output_path sample_transform_job = Some ''s3://bucket/run/batch_transform/2022-01-01-00-00-00-000/results/test.csv.out''
     \<and> ''/out/batch_transform/job-1'' =
         os_path_join (os_path_join (os_path_abspath (sample_env\<lparr>download_s3_file := (\<lambda>b k f. Some ''ClientError'')\<rparr>) (os_path_expanduser (sample_env\<lparr>download_s3_file := (\<lambda>b k f. Some ''ClientError'')\<rparr>)
            (case None of None \<Rightarrow> local_output_path predicted_predictor
             | Some q \<Rightarrow> if q = [] then local_output_path predicted_predictor else q))) ''batch_transform'')
           ''job-1''
     \<and> (if ''/out/batch_transform/job-1'' \<notin> set (dirs (downloaded_world))
        then os_makedirs (sample_env\<lparr>download_s3_file := (\<lambda>b k f. Some ''ClientError'')\<rparr>) ''/out/batch_transform/job-1'' (downloaded_world)
        else (Inr (), downloaded_world)) =
       (Inr (), downloaded_world)
     \<and> ''/out/batch_transform/job-1/renamed-test.csv.out'' =
         os_path_join ''/out/batch_transform/job-1''
           (if os_path_join ''/out/batch_transform/job-1'' (split_last ''s3://bucket/run/batch_transform/2022-01-01-00-00-00-000/results/test.csv.out'') \<in> set (files (downloaded_world))
            then rename_file_with_uuid (sample_env\<lparr>download_s3_file := (\<lambda>b k f. Some ''ClientError'')\<rparr>) (split_last ''s3://bucket/run/batch_transform/2022-01-01-00-00-00-000/results/test.csv.out'')
            else split_last ''s3://bucket/run/batch_transform/2022-01-01-00-00-00-000/results/test.csv.out'')
     \<and> s3_path_to_bucket_prefix (sample_env\<lparr>download_s3_file := (\<lambda>b k f. Some ''ClientError'')\<rparr>) (Some ''s3://bucket/run/batch_transform/2022-01-01-00-00-00-000/results/test.csv.out'') = Inr (''bucket'', ''run/batch_transform/2022-01-01-00-00-00-000/results/test.csv.out'')
     \<and> download_s3_file (sample_env\<lparr>download_s3_file := (\<lambda>b k f. Some ''ClientError'')\<rparr>) ''bucket'' ''run/batch_transform/2022-01-01-00-00-00-000/results/test.csv.out'' ''/out/batch_transform/job-1/renamed-test.csv.out'' = Some ''ClientError''"
    by code_simp
  have c8: "download_predict_results (sample_env\<lparr>download_s3_file := (\<lambda>b k f. Some ''ClientError'')\<rparr>)
       (Some ''job-1'') None predicted_predictor downloaded_world =
       (Inl (External ''ClientError''),
        downloaded_world\<lparr>events := events downloaded_world @ [Log 30 ''File already exists. Will rename the file to avoid overwrite.'']\<rparr>)"
    using T [where E = "sample_env\<lparr>download_s3_file := (\<lambda>b k f. Some ''ClientError'')\<rparr>" and job_name = "Some ''job-1''" and save_path = None and p = predicted_predictor and w = downloaded_world and n = "''job-1''" and job = sample_transform_job and result_path = "''s3://bucket/run/batch_transform/2022-01-01-00-00-00-000/results/test.csv.out''" and dir = "''/out/batch_transform/job-1''" and target = "''/out/batch_transform/job-1/renamed-test.csv.out''" and b = "''bucket''" and k = "''run/batch_transform/2022-01-01-00-00-00-000/results/test.csv.out''",
         THEN conjunct2, THEN conjunct2, THEN conjunct2, THEN conjunct2, THEN conjunct2, THEN conjunct2, THEN conjunct2, THEN conjunct1, THEN mp, OF h8]
    by (simp only: i6 if_True)
  have h9: "rename_file_with_uuid sample_env (split_last ''s3://bucket/run/batch_transform/2022-01-01-00-00-00-000/results/test.csv.out'') \<noteq> split_last ''s3://bucket/run/batch_transform/2022-01-01-00-00-00-000/results/test.csv.out''
     \<and> \<not> (rename_file_with_uuid sample_env (split_last ''s3://bucket/run/batch_transform/2022-01-01-00-00-00-000/results/test.csv.out'') \<noteq> []
          \<and> hd (rename_file_with_uuid sample_env (split_last ''s3://bucket/run/batch_transform/2022-01-01-00-00-00-000/results/test.csv.out'')) = CHR ''/'')"
    by code_simp
  note c9 = T [where E = sample_env and result_path = "''s3://bucket/run/batch_transform/2022-01-01-00-00-00-000/results/test.csv.out''" and dir = "''/out/batch_transform/job-1''",
         THEN conjunct2, THEN conjunct2, THEN conjunct2, THEN conjunct2, THEN conjunct2, THEN conjunct2, THEN conjunct2, THEN conjunct2, THEN conjunct1, THEN mp, OF h9]
  have g9: "split_last ''s3://bucket/run/batch_transform/2022-01-01-00-00-00-000/results/test.csv.out'' = ''test.csv.out''"
    "rename_file_with_uuid sample_env ''test.csv.out'' = ''renamed-test.csv.out''"
    by code_simp+
  have g10: "fst (predict sample_env sample_predict_args fitted_predictor sample_world) = Inr ()"
    "fst (snd (predict sample_env sample_predict_args fitted_predictor sample_world)) = predicted_predictor"
    "pa_job_name sample_predict_args = Some ''job-1''"
    "batch_transform_jobs fitted_predictor = []"
    by code_simp+
  have h10: "predict sample_env sample_predict_args fitted_predictor sample_world =
         (Inr (), predicted_predictor, snd (snd (predict sample_env sample_predict_args fitted_predictor sample_world)))
     \<and> ''job-1'' = (case pa_job_name sample_predict_args of
                 None \<Rightarrow> unique_name_from_base sample_env ''ag-CloudPredictor-batch-transform''
                           (Suc (clock sample_world))
               | Some m \<Rightarrow> if m = []
                           then unique_name_from_base sample_env ''ag-CloudPredictor-batch-transform''
                                  (Suc (clock sample_world))
                           else m)"
    using g10(1,2) by (simp add: g10(3) prod_eq_iff)
  from T [where E = sample_env and a = sample_predict_args and ?p0.0 = fitted_predictor and ?w0.0 = sample_world and u = "()" and p' = predicted_predictor and w' = "snd (snd (predict sample_env sample_predict_args fitted_predictor sample_world))" and nm = "''job-1''",
         THEN conjunct2, THEN conjunct2, THEN conjunct2, THEN conjunct2, THEN conjunct2, THEN conjunct2, THEN conjunct2, THEN conjunct2, THEN conjunct2, THEN mp, OF h10]
  obtain j request where
    r: "tr_job_name request = ''job-1''"
       "last (events (snd (snd (predict sample_env sample_predict_args fitted_predictor sample_world)))) = SubmitTransform request"
       "job_run (transform_job sample_env request) ''job-1'' (pa_wait sample_predict_args)
          (new_job (sagemaker_session fitted_predictor)) = Inr j"
       "predicted_predictor =
          fitted_predictor\<lparr>batch_transform_jobs := registry_put ''job-1'' j (batch_transform_jobs fitted_predictor)\<rparr>"
       "last (batch_transform_jobs predicted_predictor) = (''job-1'', j)"
    by blast
  have j: "j = sample_transform_job"
    using r(5) g4(2) by simp
  have s: "pa_wait sample_predict_args = True" "sagemaker_session fitted_predictor = Some sample_session"
    by code_simp+
  have c10: "\<exists>request.
         tr_job_name request = ''job-1''
       \<and> last (events (snd (snd (predict sample_env sample_predict_args fitted_predictor sample_world))))
           = SubmitTransform request
       \<and> job_run (transform_job sample_env request) ''job-1'' True (new_job (Some sample_session))
           = Inr sample_transform_job
       \<and> predicted_predictor =
           fitted_predictor\<lparr>batch_transform_jobs := registry_put ''job-1'' sample_transform_job []\<rparr>"
    using r(1,2) r(3,4) [unfolded j s g10(4)] by blast
  show ?thesis
    by (intro conjI h0 l c0 conjunct2 [OF h1] c1 conjunct2 [OF conjunct2 [OF h2]] c2 c2e g3 c3 g4 g4m c4 g5 c5 g6 c6 c7 c8 g9 c9 g10 c10)
qed

section \<open>The status of a batch-transform job\<close>

text \<open>Claim C10, amended. \<^verbatim>\<open>get_batch_transform_job_status\<close> returns \<^verbatim>\<open>'NotCreated'\<close>
  for a non-empty job name that has no entry in the registry, and for no job name
  (\<^verbatim>\<open>None\<close> or the empty string) when the registry is empty. For no job name and a
  registry that is not empty (its names distinct, as those of a dict are), it returns
  the status of the last entry, the job registered most recently.\<close>

theorem get_batch_transform_job_status_not_created:
  "((truthy job_name \<and> registry_get (batch_transform_jobs p) job_name = None)
      \<or> (\<not> truthy job_name \<and> batch_transform_jobs p = []) \<longrightarrow>
    get_batch_transform_job_status job_name p = ''NotCreated'')
   \<and> (\<not> truthy job_name \<and> registry_ok (batch_transform_jobs p) \<and> batch_transform_jobs p \<noteq> []
       \<and> last (batch_transform_jobs p) = (n, job) \<longrightarrow>
      get_batch_transform_job_status job_name p = get_job_status job)"
proof (intro conjI impI)
  assume "(truthy job_name \<and> registry_get (batch_transform_jobs p) job_name = None)
      \<or> (\<not> truthy job_name \<and> batch_transform_jobs p = [])"
  then show "get_batch_transform_job_status job_name p = ''NotCreated''"
    by (auto simp: get_batch_transform_job_status_def registry_last_def registry_get_def Let_def)
next
  assume h: "\<not> truthy job_name \<and> registry_ok (batch_transform_jobs p) \<and> batch_transform_jobs p \<noteq> []
       \<and> last (batch_transform_jobs p) = (n, job)"
  then have "registry_last (batch_transform_jobs p) = Some n
             \<and> registry_get (batch_transform_jobs p) (Some n) = Some job"
    using registry_ok_last [of "batch_transform_jobs p" n job] by blast
  with h show "get_batch_transform_job_status job_name p = get_job_status job"
    by (simp add: get_batch_transform_job_status_def Let_def)
qed

theorem get_batch_transform_job_status_not_created_witness:
  "truthy (Some ''job-2'') \<and> registry_get (batch_transform_jobs predicted_predictor) (Some ''job-2'') = None
   \<and> get_batch_transform_job_status (Some ''job-2'') predicted_predictor = ''NotCreated''
   \<and> \<not> truthy None \<and> batch_transform_jobs sample_predictor = []
   \<and> get_batch_transform_job_status None sample_predictor = ''NotCreated''
   \<and> \<not> truthy (Some []) \<and> registry_ok (batch_transform_jobs pending_predictor)
   \<and> batch_transform_jobs pending_predictor \<noteq> []
   \<and> last (batch_transform_jobs pending_predictor) =
        (''job-1'', \<lparr>jh_name = Some ''job-1'', status = InProgress, output_location = None,
                     job_session = Some sample_session\<rparr>)
   \<and> get_batch_transform_job_status (Some []) pending_predictor = ''InProgress''"
proof -
  note T = get_batch_transform_job_status_not_created
  have h1: "(truthy (Some ''job-2'')
             \<and> registry_get (batch_transform_jobs predicted_predictor) (Some ''job-2'') = None)
            \<or> (\<not> truthy (Some ''job-2'') \<and> batch_transform_jobs predicted_predictor = [])"
    by code_simp
  have g1: "truthy (Some ''job-2'')"
    "registry_get (batch_transform_jobs predicted_predictor) (Some ''job-2'') = None"
    by code_simp+
  note c1 = T [where job_name = "Some ''job-2''" and p = predicted_predictor, THEN conjunct1, THEN mp, OF h1]
  have h2: "(truthy None \<and> registry_get (batch_transform_jobs sample_predictor) None = None)
            \<or> (\<not> truthy None \<and> batch_transform_jobs sample_predictor = [])"
    by code_simp
  have g2: "\<not> truthy None" "batch_transform_jobs sample_predictor = []"
    by code_simp+
  note c2 = T [where job_name = None and p = sample_predictor, THEN conjunct1, THEN mp, OF h2]
  have h3: "\<not> truthy (Some []) \<and> registry_ok (batch_transform_jobs pending_predictor)
            \<and> batch_transform_jobs pending_predictor \<noteq> []
            \<and> last (batch_transform_jobs pending_predictor) =
                (''job-1'', \<lparr>jh_name = Some ''job-1'', status = InProgress, output_location = None,
                     job_session = Some sample_session\<rparr>)"
    by code_simp
  have s: "get_job_status \<lparr>jh_name = Some ''job-1'', status = InProgress, output_location = None,
                     job_session = Some sample_session\<rparr> = ''InProgress''"
    by code_simp
  have c3: "get_batch_transform_job_status (Some []) pending_predictor = ''InProgress''"
    using T [where job_name = "Some []" and p = pending_predictor, THEN conjunct2, THEN mp, OF h3]
    unfolding s .
  show ?thesis
    by (intro conjI g1 c1 g2 c2 h3 [THEN conjunct1] h3 [THEN conjunct2, THEN conjunct1]
              h3 [THEN conjunct2, THEN conjunct2, THEN conjunct1]
              h3 [THEN conjunct2, THEN conjunct2, THEN conjunct2] c3)
qed

text \<open>The claim as stated fails for the empty string: it has no entry in the registry, yet
  \<^verbatim>\<open>if not job_name\<close> replaces it by the name of the most recent job, whose status is
  returned.\<close>

theorem get_batch_transform_job_status_empty_name:
  "registry_get (batch_transform_jobs predicted_predictor) (Some []) = None
   \<and> get_batch_transform_job_status (Some []) predicted_predictor = ''Completed''
   \<and> get_batch_transform_job_status (Some []) predicted_predictor \<noteq> ''NotCreated''"
  by code_simp

end
